theory Spec2Isabelle
  imports Main "HOL-Library.Multiset" "HOL-Library.Sublist"
begin

section \<open>The migration engine of postgres-migrations-oasis\<close>

text \<open>
  A shallow embedding of \<^verbatim>\<open>src/migrate.ts\<close> and \<^verbatim>\<open>src/files-loader.ts\<close>.
  JavaScript strings are modelled as \<^typ>\<open>string\<close> (lists of 8-bit characters), numbers
  that hold migration ids as \<^typ>\<open>int\<close>, thrown \<^verbatim>\<open>Error\<close> objects as values of the type
  \<open>error\<close>, and every asynchronous function as a function from the state of the world
  before the call to its outcome and the state after it. The calls are awaited one after
  the other, so the order of the statements is the order of the effects.

  The file system, the unit loader of \<^verbatim>\<open>migration-file.ts\<close>, the executor of
  \<^verbatim>\<open>run-migration.ts\<close> and the driver \<^verbatim>\<open>pg\<close> are not among the sources. The first and the
  failures of the driver are parameters of the model (the record \<open>env\<close>); \<open>loadRaw\<close> and
  \<open>runMigration\<close> are modelled from the specification; the database keeps the catalog
  entries and the ledger rows, which is what the two source files ask the server about.
\<close>

subsection \<open>Values, errors and migrations\<close>

text \<open>A thrown \<^verbatim>\<open>Error\<close>: its message and the \<^verbatim>\<open>cause\<close> property, when one was attached.\<close>

datatype error = Error (message: string) (cause: "error option")

text \<open>Caller-supplied values whose type the entry point checks at run time.\<close>

datatype jsval = JSUndefined | JSNull | JSBoolean bool | JSNumber int | JSString string | JSObject

fun typeof :: "jsval \<Rightarrow> string" where
  "typeof JSUndefined = ''undefined''"
| "typeof JSNull = ''object''"
| "typeof (JSBoolean b) = ''boolean''"
| "typeof (JSNumber n) = ''number''"
| "typeof (JSString s) = ''string''"
| "typeof JSObject = ''object''"

text \<open>
  The type \<^verbatim>\<open>Migration\<close> of \<^verbatim>\<open>types.ts\<close>, with the fields the two source files read
  (\<open>mid\<close> is the field \<^verbatim>\<open>id\<close>).
\<close>

record Migration =
  mid :: int
  name :: string
  fileName :: string
  hash :: string
  sql :: string

text \<open>
  A row of the ledger table as the driver returns it. The column \<^verbatim>\<open>executed_at\<close> is
  never read by the code and is left out.
\<close>

record LedgerRow =
  row_id :: int
  row_name :: string
  row_hash :: string

text \<open>
  \<^verbatim>\<open>MigrateDBConfig\<close>: the five connection parameters are checked with \<^verbatim>\<open>typeof\<close>, so
  they are kept as run-time values; \<^verbatim>\<open>tableName?: string\<close> is \<open>None\<close> when undefined.
\<close>

record MigrateDBConfig =
  database :: jsval
  user :: jsval
  password :: jsval
  host :: jsval
  port :: jsval
  tableName :: "string option"

text \<open>\<^verbatim>\<open>Config\<close>: \<open>logger\<close> tells whether the caller supplied a logger function.\<close>

record Config =
  logger :: bool

subsection \<open>The collaborators: file system, unit loader, database session\<close>

text \<open>
  A relation of the server: its \<^verbatim>\<open>pg_class\<close> entry (name, schema, kind) and, for a table
  with the ledger's columns, its rows in insertion order.
\<close>

record relation =
  relname :: string
  relnamespace :: string
  relkind :: char
  contents :: "LedgerRow list"

text \<open>
  The database behind the session: its relations, the schema in which the session
  resolves and creates unqualified names, and the migration bodies it has executed.
\<close>

record pgdb =
  relations :: "relation list"
  current_schema :: string
  executed :: "string list"

datatype event =
    Log string
  | Connect
  | Query string "string list"
  | RunMigration Migration
  | End

record world =
  db :: pgdb
  events :: "event list"

text \<open>
  What the code cannot decide by itself: the directory listing, \<^verbatim>\<open>path.resolve\<close>, the
  unit loader of \<^verbatim>\<open>migration-file.ts\<close>, its digest, and which calls of the session fail.
\<close>

record env =
  readDir :: "string \<Rightarrow> error + string list option"
  path_resolve :: "string \<Rightarrow> string \<Rightarrow> string"
  loadMigrationFile :: "string \<Rightarrow> error + Migration"
  digest :: "string \<Rightarrow> string"
  connect_error :: "error option"
  end_error :: "error option"
  body_error :: "string \<Rightarrow> error option"
  apply_error_message :: "Migration \<Rightarrow> error \<Rightarrow> string"

definition emit :: "event \<Rightarrow> world \<Rightarrow> world" where
  "emit e w = w\<lparr>events := events w @ [e]\<rparr>"

text \<open>
  \<^verbatim>\<open>const log = config.logger != null ? config.logger : () => {}\<close>: a message reaches
  the trace only when the caller supplied a logger.
\<close>

definition log :: "Config \<Rightarrow> string \<Rightarrow> world \<Rightarrow> world" where
  "log config msg w = (if logger config then emit (Log msg) w else w)"

text \<open>\<^verbatim>\<open>`${array}`\<close>: the elements joined with commas.\<close>

fun join :: "string list \<Rightarrow> string" where
  "join [] = []"
| "join [x] = x"
| "join (x # y # ys) = x @ '','' @ join (y # ys)"

subsection \<open>The reconciler: \<^verbatim>\<open>validateMigrations\<close> and \<^verbatim>\<open>filterMigrations\<close>\<close>

text \<open>\<^verbatim>\<open>Array.prototype.find\<close> with a callback that takes the element and its index.\<close>

fun array_find :: "('a \<Rightarrow> nat \<Rightarrow> bool) \<Rightarrow> nat \<Rightarrow> 'a list \<Rightarrow> 'a option" where
  "array_find p i [] = None"
| "array_find p i (x # xs) = (if p x i then Some x else array_find p (Suc i) xs)"

definition NonConsecutiveIdError :: "string \<Rightarrow> error" where
  "NonConsecutiveIdError file =
     Error (''Found a non-consecutive migration ID on file: '' @ [CHR 0x27] @ file @ [CHR 0x27]) None"

definition HashMismatchError :: "string list \<Rightarrow> error" where
  "HashMismatchError invalidFiles =
     Error (''\<newline>Hashes don't match for migrations '' @ [CHR 0x27] @ join invalidFiles @ [CHR 0x27]
            @ ''.\<newline>This means that the scripts have changed since it was applied.'') None"

definition indexNotMatch :: "Migration \<Rightarrow> nat \<Rightarrow> bool" where
  "indexNotMatch migration index = (mid migration \<noteq> int index)"

text \<open>
  \<^verbatim>\<open>appliedMigrations\<close> has the declared type \<^verbatim>\<open>Record<number, Migration | undefined>\<close>:
  a map from numbers to rows.
\<close>

definition invalidHash :: "(int \<rightharpoonup> LedgerRow) \<Rightarrow> Migration \<Rightarrow> bool" where
  "invalidHash appliedMigrations migration =
     (case appliedMigrations (mid migration) of
        None \<Rightarrow> False
      | Some appliedMigration \<Rightarrow> row_hash appliedMigration \<noteq> hash migration)"

definition validateMigrations :: "Migration list \<Rightarrow> (int \<rightharpoonup> LedgerRow) \<Rightarrow> error + unit" where
  "validateMigrations migrations appliedMigrations =
     (case array_find indexNotMatch 0 migrations of
        Some notMatchingId \<Rightarrow> Inl (NonConsecutiveIdError (fileName notMatchingId))
      | None \<Rightarrow>
          (let invalidHashes = filter (invalidHash appliedMigrations) migrations
           in if length invalidHashes > 0
              then Inl (HashMismatchError (map fileName invalidHashes))
              else Inr ()))"

definition notAppliedMigration :: "(int \<rightharpoonup> LedgerRow) \<Rightarrow> Migration \<Rightarrow> bool" where
  "notAppliedMigration appliedMigrations migration = (appliedMigrations (mid migration) = None)"

definition filterMigrations :: "Migration list \<Rightarrow> (int \<rightharpoonup> LedgerRow) \<Rightarrow> Migration list" where
  "filterMigrations migrations appliedMigrations =
     filter (notAppliedMigration appliedMigrations) migrations"

subsection \<open>The set loader of \<^verbatim>\<open>files-loader.ts\<close>\<close>

text \<open>
  \<^verbatim>\<open>/.(sql|js)$/gi\<close>. The dot matches one character that is no line terminator, each
  letter matches in either case, and \<open>$\<close> is the end of the input. With the \<^verbatim>\<open>g\<close> flag
  \<^verbatim>\<open>test\<close> starts its search at the \<^verbatim>\<open>lastIndex\<close> of the regular expression object,
  tries the start positions from left to right, and stores in \<^verbatim>\<open>lastIndex\<close> the end of
  the match, or 0 when nothing matches. Of the four line terminators of the language,
  the two that an 8-bit character can hold are line feed and carriage return.
\<close>

definition is_line_terminator :: "char \<Rightarrow> bool" where
  "is_line_terminator c = (c = CHR 0x0A \<or> c = CHR 0x0D)"

text \<open>A run of letters, each given in its two cases, against the whole rest of the input.\<close>

fun ci_match :: "(char \<times> char) list \<Rightarrow> string \<Rightarrow> bool" where
  "ci_match [] [] = True"
| "ci_match ((l, u) # ps) (c # cs) = ((c = l \<or> c = u) \<and> ci_match ps cs)"
| "ci_match _ _ = False"

definition alternatives :: "(char \<times> char) list list" where
  "alternatives =
     [[(CHR ''s'', CHR ''S''), (CHR ''q'', CHR ''Q''), (CHR ''l'', CHR ''L'')],
      [(CHR ''j'', CHR ''J''), (CHR ''s'', CHR ''S'')]]"

definition match_here :: "string \<Rightarrow> bool" where
  "match_here s =
     (case s of
        [] \<Rightarrow> False
      | c # rest \<Rightarrow> \<not> is_line_terminator c \<and> list_ex (\<lambda>alt. ci_match alt rest) alternatives)"

fun first_match :: "string \<Rightarrow> nat \<Rightarrow> nat option" where
  "first_match [] i = None"
| "first_match (c # rest) i =
     (if match_here (c # rest) then Some i else first_match rest (Suc i))"

definition regexp_test :: "nat \<Rightarrow> string \<Rightarrow> bool \<times> nat" where
  "regexp_test lastIndex s =
     (if lastIndex > length s then (False, 0)
      else (case first_match (drop lastIndex s) lastIndex of
              None \<Rightarrow> (False, 0)
            | Some i \<Rightarrow> (True, length s)))"

text \<open>
  \<^verbatim>\<open>const isValidFile = (fileName: string) => /.(sql|js)$/gi.test(fileName)\<close>: the
  literal is inside the function body, so every call evaluates it to a new object, whose
  \<^verbatim>\<open>lastIndex\<close> is 0; the object is dropped after the call.
\<close>

definition isValidFile :: "string \<Rightarrow> bool" where
  "isValidFile file = fst (regexp_test 0 file)"

text \<open>The body of the bootstrap migration, the template literal of \<^verbatim>\<open>load\<close>.\<close>

definition create_table_prefix :: string where
  "create_table_prefix = ''CREATE TABLE IF NOT EXISTS \"''"

definition bootstrap_sql :: "string \<Rightarrow> string" where
  "bootstrap_sql t =
     create_table_prefix @ t @ ''\" (\<newline>      id integer PRIMARY KEY,\<newline>      name varchar(100) UNIQUE NOT NULL,\<newline>      hash varchar(40) NOT NULL, -- sha1 hex encoded hash of the file name and contents, to ensure it hasn't been altered since applying the migration\<newline>      executed_at timestamp DEFAULT current_timestamp\<newline>    );\<newline>    ''"

text \<open>\<^verbatim>\<open>`${config.tableName!}`\<close>: an undefined value is printed as \<^verbatim>\<open>undefined\<close>.\<close>

definition table_name_text :: "MigrateDBConfig \<Rightarrow> string" where
  "table_name_text config = (case tableName config of None \<Rightarrow> ''undefined'' | Some t \<Rightarrow> t)"

definition is_digit :: "char \<Rightarrow> bool" where
  "is_digit c = (48 \<le> (of_char c :: nat) \<and> (of_char c :: nat) \<le> 57)"

definition parse_ordinal :: "string \<Rightarrow> int" where
  "parse_ordinal ds = foldl (\<lambda>a c. 10 * a + (int (of_char c) - 48)) 0 ds"

text \<open>
  Modelled from the spec: \<^verbatim>\<open>loadRaw\<close> of \<^verbatim>\<open>migration-file.ts\<close>, which is not among the
  sources. The spec (4.1): the id is parsed from the leading ordinal of the source name,
  the name is the remainder, the hash is the digest of the source name followed by the
  body, and a name without an ordinal is a malformed unit.
\<close>

definition loadRaw :: "(string \<Rightarrow> string) \<Rightarrow> string \<Rightarrow> string \<Rightarrow> error + Migration" where
  "loadRaw dg file body =
     (let ordinal = takeWhile is_digit file
      in if ordinal = [] then Inl (Error (''Invalid file name: '' @ file) None)
         else Inr \<lparr>mid = parse_ordinal ordinal, name = dropWhile is_digit file,
                   fileName = file, hash = dg (file @ body), sql = body\<rparr>)"

text \<open>
  \<^verbatim>\<open>Promise.all(migrationFiles.map(loadMigrationFile))\<close>: the loaded units in the order
  of the files, or a failure. When several files fail, the promise rejects with the
  failure that happens first in time; the model takes the first in the list.
\<close>

fun load_all :: "(string \<Rightarrow> error + Migration) \<Rightarrow> string list \<Rightarrow> error + Migration list" where
  "load_all f [] = Inr []"
| "load_all f (x # xs) =
     (case f x of
        Inl e \<Rightarrow> Inl e
      | Inr m \<Rightarrow> (case load_all f xs of Inl e \<Rightarrow> Inl e | Inr ms \<Rightarrow> Inr (m # ms)))"

text \<open>
  \<^verbatim>\<open>load\<close>. The comparator \<^verbatim>\<open>(a, b) => a.id - b.id\<close> orders by id; the sort is the
  stable one of the language standard.
\<close>

definition load :: "env \<Rightarrow> Config \<Rightarrow> string \<Rightarrow> MigrateDBConfig \<Rightarrow> world
                    \<Rightarrow> (error + Migration list) \<times> world" where
  "load ev lg directory config w =
     (let w1 = log lg (''Loading migrations from: '' @ directory) w
      in case readDir ev directory of
           Inl e \<Rightarrow> (Inl e, w1)
         | Inr fileNames \<Rightarrow>
             (let w2 = log lg (''Found migration files: ''
                               @ (case fileNames of None \<Rightarrow> ''null'' | Some fs \<Rightarrow> join fs)) w1
              in case fileNames of
                   None \<Rightarrow> (Inr [], w2)
                 | Some fs \<Rightarrow>
                     (let migrationFiles = filter isValidFile (map (path_resolve ev directory) fs)
                      in case load_all (loadMigrationFile ev) migrationFiles of
                           Inl e \<Rightarrow> (Inl e, w2)
                         | Inr unorderedMigrations \<Rightarrow>
                             (case loadRaw (digest ev) ''0_create-migrations-table.sql''
                                     (bootstrap_sql (table_name_text config)) of
                                Inl e \<Rightarrow> (Inl e, w2)
                              | Inr bootstrap \<Rightarrow>
                                  (Inr (sort_key mid (unorderedMigrations @ [bootstrap])), w2)))))"

subsection \<open>The database session\<close>

text \<open>
  The session is the \<^verbatim>\<open>pg.Client\<close> of the driver, an external collaborator. The model
  keeps what the code under study depends on. A name written without quotes in a
  statement is folded to lower case and resolved in the current schema; the model of
  name resolution covers plain identifiers only (letters, digits and underscores, not
  starting with a digit). Statements on an open session fail only for the reasons
  written out below.
\<close>

definition to_lower :: "char \<Rightarrow> char" where
  "to_lower c =
     (let n = (of_char c :: nat) in if 65 \<le> n \<and> n \<le> 90 then char_of (n + 32) else c)"

definition plain_identifier :: "string \<Rightarrow> bool" where
  "plain_identifier t =
     (t \<noteq> [] \<and> \<not> is_digit (hd t) \<and>
      list_all (\<lambda>c. is_digit c \<or> c = CHR ''_'' \<or>
                     (97 \<le> (of_char c :: nat) \<and> (of_char c :: nat) \<le> 122)) t)"

definition client_connect :: "env \<Rightarrow> world \<Rightarrow> (error + unit) \<times> world" where
  "client_connect ev w =
     (case connect_error ev of
        Some e \<Rightarrow> (Inl e, emit Connect w)
      | None \<Rightarrow> (Inr (), emit Connect w))"

definition client_end :: "env \<Rightarrow> world \<Rightarrow> (error + unit) \<times> world" where
  "client_end ev w =
     (case end_error ev of
        Some e \<Rightarrow> (Inl e, emit End w)
      | None \<Rightarrow> (Inr (), emit End w))"

text \<open>The statement of \<^verbatim>\<open>doesTableExist\<close>, with the table name as its parameter \<open>$1\<close>.\<close>

definition exists_query :: string where
  "exists_query = ''\<newline>      SELECT EXISTS (\<newline>        SELECT 1\<newline>        FROM   pg_catalog.pg_class c\<newline>        WHERE  c.relname = $1\<newline>        AND    c.relkind = 'r'\<newline>      );\<newline>    ''"

text \<open>
  The answer of the server to that statement: one row, whose column \<^verbatim>\<open>exists\<close> tells
  whether \<^verbatim>\<open>pg_class\<close> has an entry with this \<^verbatim>\<open>relname\<close> and the kind \<^verbatim>\<open>r\<close>.
\<close>

definition pg_class_exists :: "string \<Rightarrow> pgdb \<Rightarrow> bool list" where
  "pg_class_exists t d =
     [list_ex (\<lambda>c. relname c = t \<and> relkind c = CHR ''r'') (relations d)]"

text \<open>\<^verbatim>\<open>doesTableExist\<close>: \<^verbatim>\<open>result.rows.length > 0 && result.rows[0].exists\<close>.\<close>

definition doesTableExist :: "string \<Rightarrow> world \<Rightarrow> bool \<times> world" where
  "doesTableExist t w =
     (let w1 = emit (Query exists_query [t]) w;
          result_rows = pg_class_exists t (db w1)
      in (length result_rows > 0 \<and> hd result_rows, w1))"

definition resolve_table :: "string \<Rightarrow> pgdb \<Rightarrow> relation option" where
  "resolve_table t d =
     find (\<lambda>c. relname c = map to_lower t \<and> relnamespace c = current_schema d) (relations d)"

definition undefined_table :: "string \<Rightarrow> error" where
  "undefined_table t = Error (''relation \"'' @ map to_lower t @ ''\" does not exist'') None"

text \<open>\<^verbatim>\<open>SELECT * FROM t ORDER BY id\<close>.\<close>

definition select_ordered :: "string \<Rightarrow> pgdb \<Rightarrow> error + LedgerRow list" where
  "select_ordered t d =
     (case resolve_table t d of
        None \<Rightarrow> Inl (undefined_table t)
      | Some c \<Rightarrow> Inr (sort_key row_id (contents c)))"

text \<open>\<^verbatim>\<open>fetchAppliedMigrationFromDB\<close>: the rows as the array the driver returns.\<close>

definition fetchAppliedMigrationFromDB :: "string \<Rightarrow> Config \<Rightarrow> world
                                           \<Rightarrow> (error + LedgerRow list) \<times> world" where
  "fetchAppliedMigrationFromDB migrationTableName lg w =
     (case doesTableExist migrationTableName w of
        (True, w1) \<Rightarrow>
          (let w2 = log lg (''\<newline>Migrations table with name '' @ [CHR 0x27] @ migrationTableName
                            @ [CHR 0x27] @ '' exists,\<newline>filtering not applied migrations.'') w1;
               w3 = emit (Query (''SELECT * FROM '' @ migrationTableName @ '' ORDER BY id'') []) w2
           in case select_ordered migrationTableName (db w3) of
                Inl e \<Rightarrow> (Inl e, w3)
              | Inr result_rows \<Rightarrow> (Inr result_rows, w3))
      | (False, w1) \<Rightarrow>
          (Inr [], log lg (''\<newline>Migrations table with name '' @ [CHR 0x27] @ migrationTableName
                           @ [CHR 0x27] @ '' hasn't been created,\<newline>so the database is new and we need to run all migrations.'') w1))"

text \<open>
  Reading a JavaScript array through a number, as \<^verbatim>\<open>appliedMigrations[migration.id]\<close>
  does: the element at that position, \<^verbatim>\<open>undefined\<close> outside the array.
\<close>

definition array_as_record :: "'a list \<Rightarrow> (int \<rightharpoonup> 'a)" where
  "array_as_record xs k = (if 0 \<le> k \<and> nat k < length xs then Some (xs ! nat k) else None)"

subsection \<open>The executor\<close>

text \<open>
  The effect of a migration body on the database. Bodies are opaque but for the
  bootstrap statement, \<^verbatim>\<open>CREATE TABLE IF NOT EXISTS "t" (...)\<close>, which adds the ordinary
  table \<open>t\<close> to the current schema unless a relation of that name is there. Every other
  body that succeeds is recorded in \<open>executed\<close> and is taken to leave the ledger alone.
\<close>

definition create_target :: "string \<Rightarrow> string option" where
  "create_target body =
     (if prefix create_table_prefix body
      then Some (takeWhile (\<lambda>c. c \<noteq> CHR 0x22) (drop (length create_table_prefix) body))
      else None)"

definition create_if_absent :: "string \<Rightarrow> pgdb \<Rightarrow> pgdb" where
  "create_if_absent t d =
     (if list_ex (\<lambda>c. relname c = t \<and> relnamespace c = current_schema d) (relations d) then d
      else d\<lparr>relations := relations d @
                [\<lparr>relname = t, relnamespace = current_schema d, relkind = CHR ''r'',
                  contents = []\<rparr>]\<rparr>)"

definition exec_body :: "env \<Rightarrow> string \<Rightarrow> pgdb \<Rightarrow> error + pgdb" where
  "exec_body ev body d =
     (case body_error ev body of
        Some e \<Rightarrow> Inl e
      | None \<Rightarrow>
          (let d1 = d\<lparr>executed := executed d @ [body]\<rparr>
           in case create_target body of
                None \<Rightarrow> Inr d1
              | Some t \<Rightarrow> Inr (create_if_absent t d1)))"

fun add_row :: "string \<Rightarrow> string \<Rightarrow> LedgerRow \<Rightarrow> relation list \<Rightarrow> relation list" where
  "add_row t ns r [] = []"
| "add_row t ns r (c # cs) =
     (if relname c = t \<and> relnamespace c = ns
      then c\<lparr>contents := contents c @ [r]\<rparr> # cs
      else c # add_row t ns r cs)"

text \<open>
  The ledger insert: the table must resolve, and its primary key \<^verbatim>\<open>id\<close> and its unique
  column \<^verbatim>\<open>name\<close> admit no duplicate.
\<close>

definition insert_row :: "string \<Rightarrow> LedgerRow \<Rightarrow> pgdb \<Rightarrow> error + pgdb" where
  "insert_row t r d =
     (case resolve_table t d of
        None \<Rightarrow> Inl (undefined_table t)
      | Some c \<Rightarrow>
          if row_id r \<in> set (map row_id (contents c))
          then Inl (Error ''duplicate key value violates unique constraint (id)'' None)
          else if row_name r \<in> set (map row_name (contents c))
          then Inl (Error ''duplicate key value violates unique constraint (name)'' None)
          else Inr (d\<lparr>relations := add_row (map to_lower t) (current_schema d) r (relations d)\<rparr>))"

text \<open>
  Modelled from the spec: \<^verbatim>\<open>runMigration\<close> of \<^verbatim>\<open>run-migration.ts\<close>, which is not among
  the sources. The spec (4.5): execute the body of the unit against the session, then
  insert the ledger row (id, name, hash); return the applied unit on success; a failure
  of either step is raised as an error that names the unit and carries the cause, with no
  rollback beyond that of the failed statement itself.
\<close>

definition row_of :: "Migration \<Rightarrow> LedgerRow" where
  "row_of m = \<lparr>row_id = mid m, row_name = name m, row_hash = hash m\<rparr>"

definition runMigration :: "env \<Rightarrow> string \<Rightarrow> Migration \<Rightarrow> world \<Rightarrow> (error + Migration) \<times> world" where
  "runMigration ev t migration w =
     (let w1 = emit (RunMigration migration) w
      in case exec_body ev (sql migration) (db w1) of
           Inl e \<Rightarrow> (Inl (Error (apply_error_message ev migration e) (Some e)), w1)
         | Inr d1 \<Rightarrow>
             (case insert_row t (row_of migration) d1 of
                Inl e \<Rightarrow> (Inl (Error (apply_error_message ev migration e) (Some e)), w1\<lparr>db := d1\<rparr>)
              | Inr d2 \<Rightarrow> (Inr migration, w1\<lparr>db := d2\<rparr>)))"

subsection \<open>The orchestrator: \<^verbatim>\<open>runMigrations\<close> and \<^verbatim>\<open>migrate\<close>\<close>

text \<open>
  The loop \<^verbatim>\<open>for (const migration of filteredMigrations)\<close>: each result is pushed to
  \<^verbatim>\<open>completedMigrations\<close>; a failure leaves the loop with the exception.
\<close>

fun apply_loop :: "env \<Rightarrow> string \<Rightarrow> Migration list \<Rightarrow> Migration list \<Rightarrow> world
                   \<Rightarrow> (error + Migration list) \<times> world" where
  "apply_loop ev t [] completedMigrations w = (Inr completedMigrations, w)"
| "apply_loop ev t (migration # rest) completedMigrations w =
     (case runMigration ev t migration w of
        (Inl e, w1) \<Rightarrow> (Inl e, w1)
      | (Inr result, w1) \<Rightarrow> apply_loop ev t rest (completedMigrations @ [result]) w1)"

definition logResult :: "Migration list \<Rightarrow> Config \<Rightarrow> world \<Rightarrow> world" where
  "logResult completedMigrations lg w =
     (if length completedMigrations = 0 then log lg ''No migrations applied'' w
      else log lg (''Successfully applied migrations: '' @ join (map name completedMigrations)) w)"

text \<open>The statements of the \<^verbatim>\<open>try\<close> block of \<^verbatim>\<open>runMigrations\<close>.\<close>

definition try_block :: "env \<Rightarrow> MigrateDBConfig \<Rightarrow> string \<Rightarrow> Config \<Rightarrow> world
                         \<Rightarrow> (error + Migration list) \<times> world" where
  "try_block ev dbConfig migrationsDirectory lg w =
     (case client_connect ev w of
        (Inl e, w1) \<Rightarrow> (Inl e, w1)
      | (Inr u, w1) \<Rightarrow>
          (case load ev lg migrationsDirectory dbConfig (log lg ''Connected to database'' w1) of
             (Inl e, w2) \<Rightarrow> (Inl e, w2)
           | (Inr migrations, w2) \<Rightarrow>
               (case fetchAppliedMigrationFromDB (table_name_text dbConfig) lg w2 of
                  (Inl e, w3) \<Rightarrow> (Inl e, w3)
                | (Inr appliedMigrations, w3) \<Rightarrow>
                    (case validateMigrations migrations (array_as_record appliedMigrations) of
                       Inl e \<Rightarrow> (Inl e, w3)
                     | Inr u \<Rightarrow>
                         (let filteredMigrations =
                                filterMigrations migrations (array_as_record appliedMigrations)
                          in case apply_loop ev (table_name_text dbConfig) filteredMigrations [] w3 of
                               (Inl e, w4) \<Rightarrow> (Inl e, w4)
                             | (Inr completedMigrations, w4) \<Rightarrow>
                                 (Inr completedMigrations,
                                  logResult completedMigrations lg w4))))))"

text \<open>The \<^verbatim>\<open>catch\<close> clause: the error is wrapped, with the original as its cause.\<close>

definition MigrationRunError :: "error \<Rightarrow> error" where
  "MigrationRunError err = Error (''Migration failed. Reason: '' @ message err) (Some err)"

text \<open>
  The \<^verbatim>\<open>finally\<close> clause (\<^verbatim>\<open>// always try to close the connection\<close>): a failure of
  \<^verbatim>\<open>client.end()\<close> is logged and goes no further.
\<close>

definition finally_block :: "env \<Rightarrow> Config \<Rightarrow> world \<Rightarrow> world" where
  "finally_block ev lg w =
     (case client_end ev w of
        (Inl e, w1) \<Rightarrow> log lg (''Error closing the connetion: '' @ message e) w1
      | (Inr u, w1) \<Rightarrow> w1)"

definition runMigrations :: "env \<Rightarrow> MigrateDBConfig \<Rightarrow> string \<Rightarrow> Config option \<Rightarrow> world
                             \<Rightarrow> (error + Migration list) \<times> world" where
  "runMigrations ev dbConfig migrationsDirectory config w =
     (let lg = (case config of None \<Rightarrow> \<lparr>logger = False\<rparr> | Some c \<Rightarrow> c);
          w0 = log lg ''Attempting database migration'' w
      in case try_block ev dbConfig migrationsDirectory lg w0 of
           (Inl err, w1) \<Rightarrow> (Inl (MigrationRunError err), finally_block ev lg w1)
         | (Inr completedMigrations, w1) \<Rightarrow> (Inr completedMigrations, finally_block ev lg w1))"

definition DEFAULT_MIGRATION_TABLE_NAME :: string where
  "DEFAULT_MIGRATION_TABLE_NAME = ''migrations''"

text \<open>
  \<^verbatim>\<open>migrate\<close>. The configuration object belongs to the caller and is written in place,
  so the function returns its state after the call next to the outcome; \<open>None\<close> is a
  null or undefined \<^verbatim>\<open>dbConfig\<close>.
\<close>

definition migrate :: "env \<Rightarrow> MigrateDBConfig option \<Rightarrow> jsval \<Rightarrow> Config option \<Rightarrow> world
                       \<Rightarrow> (error + Migration list) \<times> MigrateDBConfig option \<times> world" where
  "migrate ev dbConfig migrationsDirectory config w =
     (case dbConfig of
        None \<Rightarrow> (Inl (Error ''Database config problem'' None), dbConfig, w)
      | Some c \<Rightarrow>
          if typeof (database c) \<noteq> ''string'' \<or> typeof (user c) \<noteq> ''string'' \<or>
             typeof (password c) \<noteq> ''string'' \<or> typeof (host c) \<noteq> ''string'' \<or>
             typeof (port c) \<noteq> ''number''
          then (Inl (Error ''Database config problem'' None), dbConfig, w)
          else (case migrationsDirectory of
                  JSString directory \<Rightarrow>
                    (let c1 = (if tableName c = None
                               then c\<lparr>tableName := Some DEFAULT_MIGRATION_TABLE_NAME\<rparr> else c)
                     in case runMigrations ev c1 directory config w of
                          (r, w1) \<Rightarrow> (r, Some c1, w1))
                | _ \<Rightarrow> (Inl (Error ''Must pass migrations directory as a string'' None),
                         dbConfig, w)))"

subsection \<open>Observations on a run\<close>

text \<open>
  The units the executor was called on, in the order of the calls, and the calls on the
  session in a trace, without the log messages.
\<close>

definition attempted :: "world \<Rightarrow> Migration list" where
  "attempted w = List.map_filter (\<lambda>e. case e of RunMigration m \<Rightarrow> Some m | _ \<Rightarrow> None) (events w)"

definition calls :: "world \<Rightarrow> event list" where
  "calls w = filter (\<lambda>e. case e of Log m \<Rightarrow> False | _ \<Rightarrow> True) (events w)"

text \<open>
  The run on the world \<open>w\<close> reaches the reconciler with the loaded units \<open>ms\<close> and the
  applied rows \<open>applied_rows\<close>: the session opens, the loader and the ledger reader
  succeed. Neither outcome depends on the logger or on the trace.
\<close>

definition reaches_reconciler :: "env \<Rightarrow> MigrateDBConfig \<Rightarrow> string \<Rightarrow> world
                                  \<Rightarrow> Migration list \<Rightarrow> LedgerRow list \<Rightarrow> bool" where
  "reaches_reconciler ev dbConfig directory w ms applied_rows =
     (connect_error ev = None \<and>
      fst (load ev \<lparr>logger = False\<rparr> directory dbConfig w) = Inr ms \<and>
      fst (fetchAppliedMigrationFromDB (table_name_text dbConfig) \<lparr>logger = False\<rparr> w)
        = Inr applied_rows)"

text \<open>The world in which the reconciler runs: connected, loaded, ledger read.\<close>

definition reconciler_world :: "env \<Rightarrow> MigrateDBConfig \<Rightarrow> string \<Rightarrow> Config \<Rightarrow> world \<Rightarrow> world" where
  "reconciler_world ev dbConfig directory lg w =
     snd (fetchAppliedMigrationFromDB (table_name_text dbConfig) lg
            (snd (load ev lg directory dbConfig (log lg ''Connected to database'' (emit Connect w)))))"

text \<open>
  The rows and the kind of the relation that the unquoted name \<open>t\<close> resolves to for the
  session; whether the catalog has an ordinary table of this name, in whichever schema;
  and a database without any relation of this name.
\<close>

definition ledger_rows :: "string \<Rightarrow> pgdb \<Rightarrow> LedgerRow list" where
  "ledger_rows t d = (case resolve_table t d of None \<Rightarrow> [] | Some c \<Rightarrow> contents c)"

definition ledger_kind :: "string \<Rightarrow> pgdb \<Rightarrow> char option" where
  "ledger_kind t d = map_option relkind (resolve_table t d)"

definition table_exists :: "string \<Rightarrow> pgdb \<Rightarrow> bool" where
  "table_exists t d = (\<exists>c\<in>set (relations d). relname c = t \<and> relkind c = CHR ''r'')"

definition no_relation_named :: "string \<Rightarrow> pgdb \<Rightarrow> bool" where
  "no_relation_named t d = (\<not> list_ex (\<lambda>c. relname c = t) (relations d))"

text \<open>The unit that \<open>loadRaw\<close> builds from the bootstrap file name and body of \<^verbatim>\<open>load\<close>.\<close>

definition bootstrap_file :: string where
  "bootstrap_file = ''0_create-migrations-table.sql''"

definition bootstrap_of :: "env \<Rightarrow> MigrateDBConfig \<Rightarrow> Migration" where
  "bootstrap_of ev config =
     \<lparr>mid = 0, name = ''_create-migrations-table.sql'', fileName = bootstrap_file,
      hash = digest ev (bootstrap_file @ bootstrap_sql (table_name_text config)),
      sql = bootstrap_sql (table_name_text config)\<rparr>"

subsection \<open>A concrete installation\<close>

text \<open>
  A directory \<^verbatim>\<open>/m\<close> with the given files (name and body), a unit loader that reads
  them as \<open>loadRaw\<close> does, and a server that rejects the bodies starting with
  \<^verbatim>\<open>FAIL\<close>. The digest keeps the first four characters.
\<close>

definition base_name :: "string \<Rightarrow> string" where
  "base_name p = rev (takeWhile (\<lambda>c. c \<noteq> CHR ''/'') (rev p))"

definition example_env :: "(string \<times> string) list \<Rightarrow> error option \<Rightarrow> error option \<Rightarrow> env" where
  "example_env files ce ee =
     \<lparr>readDir = (\<lambda>d. if d = ''/m'' then Inr (Some (map fst files))
                       else Inl (Error ''ENOENT'' None)),
      path_resolve = (\<lambda>d f. d @ ''/'' @ f),
      loadMigrationFile = (\<lambda>p. case map_of files (base_name p) of
                                   None \<Rightarrow> Inl (Error ''ENOENT'' None)
                                 | Some body \<Rightarrow> loadRaw (take 4) (base_name p) body),
      digest = take 4,
      connect_error = ce,
      end_error = ee,
      body_error = (\<lambda>b. if prefix ''FAIL'' b then Some (Error ''syntax error'' None) else None),
      apply_error_message = (\<lambda>m e. name m @ '': '' @ message e)\<rparr>"

text \<open>
  A configuration with the default table name, and the same configuration as a caller
  passes it who leaves the table name undefined.
\<close>

definition example_config :: MigrateDBConfig where
  "example_config =
     \<lparr>database = JSString ''polls'', user = JSString ''u'', password = JSString ''p'',
      host = JSString ''localhost'', port = JSNumber 5432, tableName = Some ''migrations''\<rparr>"

definition caller_config :: MigrateDBConfig where
  "caller_config = example_config\<lparr>tableName := None\<rparr>"

text \<open>Units as the example loader builds them.\<close>

definition bootstrap_unit :: Migration where
  "bootstrap_unit =
     \<lparr>mid = 0, name = ''_create-migrations-table.sql'',
      fileName = ''0_create-migrations-table.sql'', hash = ''0_cr'',
      sql = bootstrap_sql ''migrations''\<rparr>"

definition unit_a :: Migration where
  "unit_a = \<lparr>mid = 1, name = ''_a.sql'', fileName = ''1_a.sql'', hash = ''1_a.'', sql = ''A''\<rparr>"

definition unit_b :: Migration where
  "unit_b = \<lparr>mid = 2, name = ''_b.sql'', fileName = ''2_b.sql'', hash = ''2_b.'', sql = ''B''\<rparr>"

definition unit_f :: Migration where
  "unit_f = \<lparr>mid = 2, name = ''_f.sql'', fileName = ''2_f.sql'', hash = ''2_f.'', sql = ''FAIL''\<rparr>"

definition unit_c :: Migration where
  "unit_c = \<lparr>mid = 3, name = ''_c.sql'', fileName = ''3_c.sql'', hash = ''3_c.'', sql = ''C''\<rparr>"

definition unit_users :: Migration where
  "unit_users = \<lparr>mid = 1, name = ''_create_users.sql'', fileName = ''1_create_users.sql'',
                  hash = ''1_cr'', sql = ''CREATE TABLE users (email text)''\<rparr>"

definition unit_index :: Migration where
  "unit_index = \<lparr>mid = 2, name = ''_add_email_index.sql'', fileName = ''2_add_email_index.sql'',
                  hash = ''2_ad'', sql = ''CREATE INDEX ON users (email)''\<rparr>"

definition four_units :: "Migration list" where
  "four_units = [bootstrap_unit, unit_a, unit_f, unit_c]"

text \<open>
  Databases: a new one; one whose ledger table holds the given rows; one whose ledger
  holds the rows 0 and 1 stored out of order; and one whose only table named
  \<^verbatim>\<open>migrations\<close> lives in another schema than the session's.
\<close>

definition fresh_world :: world where
  "fresh_world = \<lparr>db = \<lparr>relations = [], current_schema = ''public'', executed = []\<rparr>,
                  events = []\<rparr>"

definition world_with :: "LedgerRow list \<Rightarrow> world" where
  "world_with rs =
     \<lparr>db = \<lparr>relations = [\<lparr>relname = ''migrations'', relnamespace = ''public'',
                            relkind = CHR ''r'', contents = rs\<rparr>],
            current_schema = ''public'', executed = []\<rparr>,
      events = []\<rparr>"

definition dense_world :: world where
  "dense_world = world_with [row_of unit_a, row_of bootstrap_unit]"

definition other_schema_world :: world where
  "other_schema_world =
     \<lparr>db = \<lparr>relations = [\<lparr>relname = ''migrations'', relnamespace = ''archive'',
                            relkind = CHR ''r'', contents = []\<rparr>,
                          \<lparr>relname = ''polls'', relnamespace = ''public'',
                            relkind = CHR ''v'', contents = []\<rparr>],
            current_schema = ''public'', executed = []\<rparr>,
      events = []\<rparr>"

text \<open>
  Ledger rows whose hashes differ from those of the units, and a ledger whose row 0 is
  missing.
\<close>

definition tampered_rows :: "LedgerRow list" where
  "tampered_rows =
     [\<lparr>row_id = 0, row_name = ''_create-migrations-table.sql'', row_hash = ''XXXX''\<rparr>,
      \<lparr>row_id = 1, row_name = ''_a.sql'', row_hash = ''YYYY''\<rparr>]"

definition sparse_rows :: "LedgerRow list" where
  "sparse_rows = [\<lparr>row_id = 2, row_name = ''_b.sql'', row_hash = ''2_b.''\<rparr>,
                  \<lparr>row_id = 1, row_name = ''_a.sql'', row_hash = ''1_a.''\<rparr>]"

text \<open>
  Installations: a directory with a file that is no migration; one whose second
  migration the server rejects; the two migrations of the end-to-end example; and a
  server that refuses the connection.
\<close>

definition three_files :: "(string \<times> string) list" where
  "three_files = [(''2_b.sql'', ''B''), (''README.md'', ''notes''), (''1_a.sql'', ''A'')]"

definition failing_env :: env where
  "failing_env = example_env [(''1_a.sql'', ''A''), (''2_f.sql'', ''FAIL''), (''3_c.sql'', ''C'')] None None"

definition polls_env :: env where
  "polls_env = example_env [(''2_add_email_index.sql'', ''CREATE INDEX ON users (email)''),
                            (''1_create_users.sql'', ''CREATE TABLE users (email text)'')] None None"

definition refused :: error where
  "refused = Error ''connect ECONNREFUSED'' None"

definition unreachable_env :: env where
  "unreachable_env = example_env [] (Some refused) (Some (Error ''not connected'' None))"

section \<open>Basic facts\<close>

lemma array_find_first:
  "i < length xs \<Longrightarrow> p (xs ! i) (k + i) \<Longrightarrow> (\<forall>j<i. \<not> p (xs ! j) (k + j))
   \<Longrightarrow> array_find p k xs = Some (xs ! i)"
proof (induction xs arbitrary: i k)
  case Nil
  then show ?case by simp
next
  case (Cons x xs)
  show ?case
  proof (cases i)
    case 0
    with Cons.prems show ?thesis by simp
  next
    case (Suc n)
    from Cons.prems(3) Suc have nx: "\<not> p x k" by force
    have "array_find p (Suc k) xs = Some (xs ! n)"
    proof (rule Cons.IH)
      show "n < length xs" using Cons.prems(1) Suc by simp
      show "p (xs ! n) (Suc k + n)" using Cons.prems(2) Suc by simp
      show "\<forall>j<n. \<not> p (xs ! j) (Suc k + j)"
      proof (intro allI impI)
        fix j assume "j < n"
        then have "Suc j < i" using Suc by simp
        with Cons.prems(3) have "\<not> p ((x # xs) ! Suc j) (k + Suc j)" by blast
        then show "\<not> p (xs ! j) (Suc k + j)" by simp
      qed
    qed
    with nx Suc show ?thesis by simp
  qed
qed

lemma array_find_none:
  "(\<forall>j<length xs. \<not> p (xs ! j) (k + j)) \<Longrightarrow> array_find p k xs = None"
proof (induction xs arbitrary: k)
  case Nil
  then show ?case by simp
next
  case (Cons x xs)
  from Cons.prems have nx: "\<not> p x k" by force
  have "\<forall>j<length xs. \<not> p (xs ! j) (Suc k + j)"
  proof (intro allI impI)
    fix j assume "j < length xs"
    then have "Suc j < length (x # xs)" by simp
    with Cons.prems have "\<not> p ((x # xs) ! Suc j) (k + Suc j)" by blast
    then show "\<not> p (xs ! j) (Suc k + j)" by simp
  qed
  then have "array_find p (Suc k) xs = None" by (rule Cons.IH)
  with nx show ?case by simp
qed

lemma validate_order_violation:
  assumes "i < length ms" "mid (ms ! i) \<noteq> int i" "\<forall>j<i. mid (ms ! j) = int j"
  shows "validateMigrations ms applied = Inl (NonConsecutiveIdError (fileName (ms ! i)))"
proof -
  have "array_find indexNotMatch 0 ms = Some (ms ! i)"
    using assms by (intro array_find_first) (simp_all add: indexNotMatch_def)
  then show ?thesis by (simp add: validateMigrations_def)
qed

lemma validate_order_ok:
  assumes "\<forall>j<length ms. mid (ms ! j) = int j"
  shows "validateMigrations ms applied =
           (if filter (invalidHash applied) ms = [] then Inr ()
            else Inl (HashMismatchError (map fileName (filter (invalidHash applied) ms))))"
proof -
  have "array_find indexNotMatch 0 ms = None"
    using assms by (intro array_find_none) (simp add: indexNotMatch_def)
  then show ?thesis by (simp add: validateMigrations_def Let_def)
qed

lemma errors_distinct: "NonConsecutiveIdError f \<noteq> HashMismatchError fs"
  by (simp add: NonConsecutiveIdError_def HashMismatchError_def)

lemma db_emit [simp]: "db (emit e w) = db w"
  by (simp add: emit_def)

lemma db_log [simp]: "db (log lg m w) = db w"
  by (simp add: log_def)

lemma attempted_emit:
  "attempted (emit e w) = attempted w @ (case e of RunMigration m \<Rightarrow> [m] | _ \<Rightarrow> [])"
  by (cases e) (simp_all add: attempted_def emit_def List.map_filter_def)

lemma attempted_log [simp]: "attempted (log lg m w) = attempted w"
  by (simp add: log_def attempted_emit)

lemma attempted_db_update [simp]: "attempted (w\<lparr>db := d\<rparr>) = attempted w"
  by (simp add: attempted_def)

lemma load_fst: "fst (load ev lg d c w) = fst (load ev lg' d c w')"
  by (simp add: load_def Let_def split: sum.splits option.splits)

lemma load_snd: "db (snd (load ev lg d c w)) = db w \<and> attempted (snd (load ev lg d c w)) = attempted w"
  by (simp add: load_def Let_def split: sum.splits option.splits)

lemma fetch_fst:
  "db w = db w' \<Longrightarrow> fst (fetchAppliedMigrationFromDB t lg w) = fst (fetchAppliedMigrationFromDB t lg' w')"
  by (simp add: fetchAppliedMigrationFromDB_def doesTableExist_def Let_def split: sum.splits bool.splits)

lemma fetch_snd:
  "db (snd (fetchAppliedMigrationFromDB t lg w)) = db w \<and>
   attempted (snd (fetchAppliedMigrationFromDB t lg w)) = attempted w"
  by (simp add: fetchAppliedMigrationFromDB_def doesTableExist_def Let_def attempted_emit
           split: sum.splits bool.splits)

lemma reconciler_world_frame:
  "db (reconciler_world ev c d lg w) = db w \<and> attempted (reconciler_world ev c d lg w) = attempted w"
  by (simp add: reconciler_world_def fetch_snd load_snd attempted_emit)

lemma try_block_reconcile:
  assumes "reaches_reconciler ev c d w ms applied_rows"
  shows "try_block ev c d lg w =
     (case validateMigrations ms (array_as_record applied_rows) of
        Inl e \<Rightarrow> (Inl e, reconciler_world ev c d lg w)
      | Inr u \<Rightarrow>
          (case apply_loop ev (table_name_text c) (filterMigrations ms (array_as_record applied_rows)) []
                  (reconciler_world ev c d lg w) of
             (Inl e, w4) \<Rightarrow> (Inl e, w4)
           | (Inr completedMigrations, w4) \<Rightarrow> (Inr completedMigrations, logResult completedMigrations lg w4)))"
proof -
  let ?w1 = "log lg ''Connected to database'' (emit Connect w)"
  let ?t = "table_name_text c"
  from assms have ce: "connect_error ev = None"
    and l0: "fst (load ev \<lparr>logger = False\<rparr> d c w) = Inr ms"
    and f0: "fst (fetchAppliedMigrationFromDB ?t \<lparr>logger = False\<rparr> w) = Inr applied_rows"
    by (simp_all add: reaches_reconciler_def)
  have l1: "fst (load ev lg d c ?w1) = Inr ms"
    using l0 load_fst [of ev lg d c ?w1 "\<lparr>logger = False\<rparr>" w] by simp
  obtain w2 where L: "load ev lg d c ?w1 = (Inr ms, w2)"
    using l1 by (cases "load ev lg d c ?w1") simp
  have dw2: "db w2 = db w" using load_snd [of ev lg d c ?w1] L by simp
  have f1: "fst (fetchAppliedMigrationFromDB ?t lg w2) = Inr applied_rows"
    using f0 fetch_fst [OF dw2, of ?t lg "\<lparr>logger = False\<rparr>"] by simp
  obtain w3 where F: "fetchAppliedMigrationFromDB ?t lg w2 = (Inr applied_rows, w3)"
    using f1 by (cases "fetchAppliedMigrationFromDB ?t lg w2") simp
  have w3: "reconciler_world ev c d lg w = w3"
    by (simp add: reconciler_world_def L F)
  show ?thesis
    by (simp add: try_block_def client_connect_def ce L F w3 Let_def split: sum.splits prod.splits)
qed

lemma reaches_reconciler_db:
  "reaches_reconciler ev c d w ms rs \<Longrightarrow> db w' = db w \<Longrightarrow> reaches_reconciler ev c d w' ms rs"
  using load_fst [of ev "\<lparr>logger = False\<rparr>" d c w' "\<lparr>logger = False\<rparr>" w]
        fetch_fst [of w' w "table_name_text c" "\<lparr>logger = False\<rparr>" "\<lparr>logger = False\<rparr>"]
  by (simp add: reaches_reconciler_def)

lemma finally_frame:
  "db (finally_block ev lg w) = db w \<and> attempted (finally_block ev lg w) = attempted w"
  by (simp add: finally_block_def client_end_def attempted_emit split: option.splits)

lemma find_append_new:
  "find P (xs @ [x]) = (case find P xs of Some y \<Rightarrow> Some y | None \<Rightarrow> if P x then Some x else None)"
  by (induction xs) simp_all

lemma ledger_rows_create: "ledger_rows t (create_if_absent t' d) = ledger_rows t d"
proof (cases "list_ex (\<lambda>c. relname c = t' \<and> relnamespace c = current_schema d) (relations d)")
  case True
  then show ?thesis by (simp add: create_if_absent_def)
next
  case False
  then have nf: "t' = map to_lower t \<Longrightarrow>
      find (\<lambda>c. relname c = map to_lower t \<and> relnamespace c = current_schema d) (relations d) = None"
    by (auto simp: find_None_iff list_ex_iff)
  show ?thesis
    using False nf
    by (auto simp: create_if_absent_def ledger_rows_def resolve_table_def find_append_new
             split: option.splits)
qed

lemma exec_body_effect:
  assumes "exec_body ev b d = Inr d1"
  shows "executed d1 = executed d @ [b]" "current_schema d1 = current_schema d"
        "ledger_rows t d1 = ledger_rows t d"
proof -
  let ?d0 = "d\<lparr>executed := executed d @ [b]\<rparr>"
  have lr0: "ledger_rows t ?d0 = ledger_rows t d"
    by (simp add: ledger_rows_def resolve_table_def)
  from assms have d1: "d1 = ?d0 \<or> (\<exists>t'. d1 = create_if_absent t' ?d0)"
    by (auto simp: exec_body_def Let_def split: option.splits)
  then show "executed d1 = executed d @ [b]"
    by (auto simp: create_if_absent_def)
  from d1 show "current_schema d1 = current_schema d"
    by (auto simp: create_if_absent_def)
  from d1 lr0 show "ledger_rows t d1 = ledger_rows t d"
    by (auto simp: ledger_rows_create)
qed

lemma find_add_row:
  "find (\<lambda>c. relname c = t \<and> relnamespace c = ns) cs = Some c \<Longrightarrow>
   find (\<lambda>c. relname c = t \<and> relnamespace c = ns) (add_row t ns r cs)
     = Some (c\<lparr>contents := contents c @ [r]\<rparr>)"
  by (induction cs) (auto split: if_splits)

lemma insert_row_effect:
  assumes "insert_row t r d = Inr d2"
  shows "ledger_rows t d2 = ledger_rows t d @ [r]" "executed d2 = executed d"
        "current_schema d2 = current_schema d"
        "row_id r \<notin> row_id ` set (ledger_rows t d)" "row_name r \<notin> row_name ` set (ledger_rows t d)"
proof -
  from assms obtain c where c: "resolve_table t d = Some c"
    and d2: "d2 = d\<lparr>relations := add_row (map to_lower t) (current_schema d) r (relations d)\<rparr>"
    and fresh: "row_id r \<notin> row_id ` set (contents c)" "row_name r \<notin> row_name ` set (contents c)"
    by (auto simp: insert_row_def split: option.splits if_splits)
  from c have "find (\<lambda>c. relname c = map to_lower t \<and> relnamespace c = current_schema d)
                 (add_row (map to_lower t) (current_schema d) r (relations d))
               = Some (c\<lparr>contents := contents c @ [r]\<rparr>)"
    unfolding resolve_table_def by (rule find_add_row)
  then show "ledger_rows t d2 = ledger_rows t d @ [r]"
    using c d2 by (simp add: ledger_rows_def resolve_table_def)
  show "executed d2 = executed d" "current_schema d2 = current_schema d" using d2 by simp_all
  show "row_id r \<notin> row_id ` set (ledger_rows t d)" "row_name r \<notin> row_name ` set (ledger_rows t d)"
    using fresh c by (simp_all add: ledger_rows_def)
qed

lemma runMigration_success:
  assumes "runMigration ev t m w = (Inr r, w')"
  shows "r = m" "attempted w' = attempted w @ [m]"
        "executed (db w') = executed (db w) @ [sql m]"
        "ledger_rows t (db w') = ledger_rows t (db w) @ [row_of m]"
        "current_schema (db w') = current_schema (db w)"
proof -
  obtain d1 where b: "exec_body ev (sql m) (db w) = Inr d1"
    using assms by (cases "exec_body ev (sql m) (db w)") (simp_all add: runMigration_def Let_def)
  obtain d2 where i: "insert_row t (row_of m) d1 = Inr d2"
    using assms b by (cases "insert_row t (row_of m) d1") (simp_all add: runMigration_def Let_def)
  have w': "w' = (emit (RunMigration m) w)\<lparr>db := d2\<rparr>" and r: "r = m"
    using assms b i by (auto simp: runMigration_def Let_def)
  show "r = m" by (rule r)
  show "attempted w' = attempted w @ [m]" using w' by (simp add: attempted_emit)
  show "executed (db w') = executed (db w) @ [sql m]"
    using w' exec_body_effect(1) [OF b] insert_row_effect(2) [OF i] by simp
  show "ledger_rows t (db w') = ledger_rows t (db w) @ [row_of m]"
    using w' exec_body_effect(3) [OF b] insert_row_effect(1) [OF i] by simp
  show "current_schema (db w') = current_schema (db w)"
    using w' exec_body_effect(2) [OF b] insert_row_effect(3) [OF i] by simp
qed

lemma runMigration_failure:
  assumes "runMigration ev t m w = (Inl e, w')"
  shows "attempted w' = attempted w @ [m]"
        "ledger_rows t (db w') = ledger_rows t (db w)"
        "prefix (executed (db w)) (executed (db w'))"
        "\<exists>c. e = Error (apply_error_message ev m c) (Some c)"
proof -
  have cases:
    "(\<exists>c. exec_body ev (sql m) (db w) = Inl c \<and> w' = emit (RunMigration m) w
          \<and> e = Error (apply_error_message ev m c) (Some c))
     \<or> (\<exists>d1 c. exec_body ev (sql m) (db w) = Inr d1 \<and> w' = (emit (RunMigration m) w)\<lparr>db := d1\<rparr>
          \<and> e = Error (apply_error_message ev m c) (Some c))"
  proof (cases "exec_body ev (sql m) (db w)")
    case (Inl c)
    with assms show ?thesis by (simp add: runMigration_def Let_def)
  next
    case (Inr d1)
    with assms show ?thesis
      by (cases "insert_row t (row_of m) d1") (auto simp: runMigration_def Let_def)
  qed
  then show "attempted w' = attempted w @ [m]" by (auto simp: attempted_emit)
  from cases show "ledger_rows t (db w') = ledger_rows t (db w)"
    by (auto simp: exec_body_effect(3))
  from cases show "prefix (executed (db w)) (executed (db w'))"
    by (auto simp: exec_body_effect(1))
  from cases show "\<exists>c. e = Error (apply_error_message ev m c) (Some c)" by auto
qed

lemma apply_loop_success:
  "apply_loop ev t ms acc w = (Inr cs, w') \<Longrightarrow>
     cs = acc @ ms \<and> attempted w' = attempted w @ ms \<and>
     executed (db w') = executed (db w) @ map sql ms \<and>
     ledger_rows t (db w') = ledger_rows t (db w) @ map row_of ms \<and>
     current_schema (db w') = current_schema (db w)"
proof (induction ms arbitrary: acc w)
  case Nil
  then show ?case by simp
next
  case (Cons m ms)
  from Cons.prems obtain r w1 where s: "runMigration ev t m w = (Inr r, w1)"
    and rest: "apply_loop ev t ms (acc @ [r]) w1 = (Inr cs, w')"
    by (auto split: prod.splits sum.splits)
  note one = runMigration_success [OF s]
  from Cons.IH [OF rest] one show ?case by simp
qed

lemma apply_loop_failure:
  "apply_loop ev t ms acc w = (Inl e, w') \<Longrightarrow>
     \<exists>k wk. k < length ms \<and> apply_loop ev t (take k ms) acc w = (Inr (acc @ take k ms), wk) \<and>
            runMigration ev t (ms ! k) wk = (Inl e, w')"
proof (induction ms arbitrary: acc w)
  case Nil
  then show ?case by simp
next
  case (Cons m ms)
  show ?case
  proof (cases "runMigration ev t m w")
    case (Pair r w1)
    show ?thesis
    proof (cases r)
      case (Inl e1)
      with Pair Cons.prems have "e1 = e" "w1 = w'" by simp_all
      with Pair Inl have "0 < length (m # ms) \<and>
          apply_loop ev t (take 0 (m # ms)) acc w = (Inr (acc @ take 0 (m # ms)), w) \<and>
          runMigration ev t ((m # ms) ! 0) w = (Inl e, w')" by simp
      then show ?thesis by blast
    next
      case (Inr r1)
      with Pair have s: "runMigration ev t m w = (Inr r1, w1)" by simp
      have r1: "r1 = m" using runMigration_success(1) [OF s] .
      from Cons.prems s have "apply_loop ev t ms (acc @ [r1]) w1 = (Inl e, w')" by simp
      from Cons.IH [OF this] obtain k wk where k: "k < length ms"
        and pre: "apply_loop ev t (take k ms) (acc @ [r1]) w1 = (Inr ((acc @ [r1]) @ take k ms), wk)"
        and f: "runMigration ev t (ms ! k) wk = (Inl e, w')" by blast
      have "Suc k < length (m # ms) \<and>
            apply_loop ev t (take (Suc k) (m # ms)) acc w = (Inr (acc @ take (Suc k) (m # ms)), wk) \<and>
            runMigration ev t ((m # ms) ! Suc k) wk = (Inl e, w')"
        using k pre f s r1 by simp
      then show ?thesis by blast
    qed
  qed
qed

lemma apply_loop_stops:
  assumes "k < length ms"
      and "apply_loop ev t (take k ms) acc w = (Inr cs, wk)"
      and "runMigration ev t (ms ! k) wk = (Inl e, wx)"
  shows "apply_loop ev t ms acc w = (Inl e, wx)"
  using assms
proof (induction ms arbitrary: k acc w)
  case Nil
  then show ?case by simp
next
  case (Cons m ms)
  show ?case
  proof (cases k)
    case 0
    with Cons.prems show ?thesis by simp
  next
    case (Suc n)
    with Cons.prems(2) obtain r w1 where s: "runMigration ev t m w = (Inr r, w1)"
      and rest: "apply_loop ev t (take n ms) (acc @ [r]) w1 = (Inr cs, wk)"
      by (auto split: prod.splits sum.splits)
    have "apply_loop ev t ms (acc @ [r]) w1 = (Inl e, wx)"
      using Cons.prems(1,3) Suc by (intro Cons.IH [OF _ rest]) simp_all
    with s show ?thesis by simp
  qed
qed

lemma run_reconcile:
  assumes "reaches_reconciler ev c d w ms applied_rows"
  shows "runMigrations ev c d config w =
     (let lg = (case config of None \<Rightarrow> \<lparr>logger = False\<rparr> | Some x \<Rightarrow> x);
          w3 = reconciler_world ev c d lg (log lg ''Attempting database migration'' w)
      in case validateMigrations ms (array_as_record applied_rows) of
           Inl e \<Rightarrow> (Inl (MigrationRunError e), finally_block ev lg w3)
         | Inr u \<Rightarrow>
             (case apply_loop ev (table_name_text c)
                     (filterMigrations ms (array_as_record applied_rows)) [] w3 of
                (Inl e, w4) \<Rightarrow> (Inl (MigrationRunError e), finally_block ev lg w4)
              | (Inr completedMigrations, w4) \<Rightarrow>
                  (Inr completedMigrations,
                   finally_block ev lg (logResult completedMigrations lg w4))))"
proof -
  let ?lg = "case config of None \<Rightarrow> \<lparr>logger = False\<rparr> | Some x \<Rightarrow> x"
  let ?w0 = "log ?lg ''Attempting database migration'' w"
  have "reaches_reconciler ev c d ?w0 ms applied_rows"
    using assms by (rule reaches_reconciler_db) simp
  note tb = try_block_reconcile [OF this, of ?lg]
  show ?thesis
    unfolding runMigrations_def Let_def tb
    by (simp split: sum.splits prod.splits)
qed

lemma run_validation_fails:
  assumes "reaches_reconciler ev c d w ms applied_rows"
      and "validateMigrations ms (array_as_record applied_rows) = Inl e"
  shows "fst (runMigrations ev c d config w) = Inl (MigrationRunError e)"
        "attempted (snd (runMigrations ev c d config w)) = attempted w"
        "db (snd (runMigrations ev c d config w)) = db w"
  using assms(2)
  by (simp_all add: run_reconcile [OF assms(1)] Let_def finally_frame reconciler_world_frame)

lemma invalidHash_iff:
  "invalidHash applied m \<longleftrightarrow> (\<exists>a. applied (mid m) = Some a \<and> row_hash a \<noteq> hash m)"
  by (simp add: invalidHash_def split: option.splits)

lemma nth_ids_sorted:
  assumes "\<forall>j<length ms. mid (ms ! j) = int j"
  shows "sorted_wrt (<) (map mid ms)"
  using assms by (simp add: sorted_wrt_iff_nth_less)

lemma ex_ids: "\<forall>j<length [bootstrap_unit, unit_a]. mid ([bootstrap_unit, unit_a] ! j) = int j"
  by (simp add: bootstrap_unit_def unit_a_def less_Suc_eq numeral_2_eq_2 nth_Cons')

lemma logResult_frame:
  "db (logResult cs lg w) = db w \<and> attempted (logResult cs lg w) = attempted w"
  by (simp add: logResult_def)

lemma loop_fail_fast:
  assumes k: "k < length pending"
      and pre: "apply_loop ev t (take k pending) [] w = (Inr cs, wk)"
      and f: "runMigration ev t (pending ! k) wk = (Inl e, wx)"
  shows "apply_loop ev t pending [] w = (Inl e, wx)"
    and "attempted wx = attempted w @ take (Suc k) pending"
    and "ledger_rows t (db wx) = ledger_rows t (db w) @ map row_of (take k pending)"
    and "prefix (executed (db w) @ map sql (take k pending)) (executed (db wx))"
    and "\<exists>c. cause e = Some c"
proof -
  show "apply_loop ev t pending [] w = (Inl e, wx)"
    using k pre f by (rule apply_loop_stops)
  note s = apply_loop_success [OF pre]
  note r = runMigration_failure [OF f]
  show "attempted wx = attempted w @ take (Suc k) pending"
    using s r(1) k by (simp add: take_Suc_conv_app_nth)
  show "ledger_rows t (db wx) = ledger_rows t (db w) @ map row_of (take k pending)"
    using s r(2) by simp
  show "prefix (executed (db w) @ map sql (take k pending)) (executed (db wx))"
    using s r(3) by simp
  show "\<exists>c. cause e = Some c" using r(4) by auto
qed

lemma load_world:
  "load ev lg d c w = (r, w') \<Longrightarrow> attempted w' = attempted w \<and> db w' = db w"
  using load_snd [of ev lg d c w] by simp

lemma fetch_world:
  "fetchAppliedMigrationFromDB t lg w = (r, w') \<Longrightarrow> attempted w' = attempted w \<and> db w' = db w"
  using fetch_snd [of t lg w] by simp

lemma connect_world:
  "client_connect ev w = (r, w') \<Longrightarrow> attempted w' = attempted w \<and> db w' = db w"
  by (auto simp: client_connect_def attempted_emit split: option.splits)

lemma try_block_success:
  assumes "try_block ev c d lg w = (Inr completed, w')"
  shows "attempted w' = attempted w @ completed"
proof -
  obtain r1 w1 where C: "client_connect ev w = (r1, w1)" by (cases "client_connect ev w")
  obtain r2 w2 where L: "load ev lg d c (log lg ''Connected to database'' w1) = (r2, w2)"
    by (cases "load ev lg d c (log lg ''Connected to database'' w1)")
  obtain r3 w3 where F: "fetchAppliedMigrationFromDB (table_name_text c) lg w2 = (r3, w3)"
    by (cases "fetchAppliedMigrationFromDB (table_name_text c) lg w2")
  have a3: "attempted w3 = attempted w"
    using connect_world [OF C] load_world [OF L] fetch_world [OF F] by simp
  from assms C obtain u where r1: "r1 = Inr u"
    by (cases r1) (simp_all add: try_block_def)
  from assms C L r1 obtain ms where r2: "r2 = Inr ms"
    by (cases r2) (simp_all add: try_block_def)
  from assms C L F r1 r2 obtain rs where r3: "r3 = Inr rs"
    by (cases r3) (simp_all add: try_block_def)
  from assms C L F r1 r2 r3 have v: "validateMigrations ms (array_as_record rs) = Inr ()"
    by (cases "validateMigrations ms (array_as_record rs)") (simp_all add: try_block_def)
  obtain r4 w4 where A: "apply_loop ev (table_name_text c) (filterMigrations ms (array_as_record rs)) [] w3
                          = (r4, w4)"
    by (cases "apply_loop ev (table_name_text c) (filterMigrations ms (array_as_record rs)) [] w3")
  from assms C L F r1 r2 r3 v A have r4: "r4 = Inr completed" and w': "w' = logResult completed lg w4"
    by (cases r4; simp add: try_block_def Let_def)+
  from apply_loop_success [OF A [unfolded r4]] a3 w' show ?thesis
    by (simp add: logResult_frame)
qed

lemma loadRaw_bootstrap:
  "loadRaw (digest ev) ''0_create-migrations-table.sql'' (bootstrap_sql (table_name_text config))
     = Inr (bootstrap_of ev config)"
  by (simp add: loadRaw_def bootstrap_of_def bootstrap_file_def is_digit_def parse_ordinal_def)

lemma plain_identifier_chars:
  assumes "plain_identifier t"
  shows "map to_lower t = t" "CHR 0x22 \<notin> set t"
proof -
  have each: "\<forall>c\<in>set t. is_digit c \<or> c = CHR ''_'' \<or> (97 \<le> (of_char c :: nat) \<and> (of_char c :: nat) \<le> 122)"
    using assms by (simp add: plain_identifier_def list_all_iff)
  have "\<forall>c\<in>set t. to_lower c = c"
  proof
    fix c assume "c \<in> set t"
    with each have "is_digit c \<or> c = CHR ''_'' \<or> (97 \<le> (of_char c :: nat) \<and> (of_char c :: nat) \<le> 122)"
      by blast
    then show "to_lower c = c"
      by (auto simp: to_lower_def is_digit_def Let_def)
  qed
  then show "map to_lower t = t" by (simp add: map_idI)
  show "CHR 0x22 \<notin> set t"
  proof
    assume "CHR 0x22 \<in> set t"
    with each have "is_digit (CHR 0x22) \<or> CHR 0x22 = CHR ''_'' \<or>
        (97 \<le> (of_char (CHR 0x22) :: nat) \<and> (of_char (CHR 0x22) :: nat) \<le> 122)" by blast
    then show False by (simp add: is_digit_def)
  qed
qed

lemma create_target_bootstrap:
  "CHR 0x22 \<notin> set t \<Longrightarrow> create_target (bootstrap_sql t) = Some t"
  by (auto simp: create_target_def bootstrap_sql_def takeWhile_tail)

lemma resolve_create:
  "resolve_table t (create_if_absent t' d) =
     (case resolve_table t d of
        Some c \<Rightarrow> Some c
      | None \<Rightarrow> if t' = map to_lower t
                then Some \<lparr>relname = t', relnamespace = current_schema d, relkind = CHR ''r'',
                           contents = []\<rparr>
                else None)"
proof (cases "list_ex (\<lambda>c. relname c = t' \<and> relnamespace c = current_schema d) (relations d)")
  case True
  then have "t' = map to_lower t \<Longrightarrow> resolve_table t d \<noteq> None"
    by (auto simp: resolve_table_def find_None_iff list_ex_iff)
  with True show ?thesis
    by (auto simp: create_if_absent_def split: option.splits)
next
  case False
  then show ?thesis
    by (auto simp: create_if_absent_def resolve_table_def find_append_new split: option.splits)
qed

lemma runMigration_ok:
  assumes be: "body_error ev (sql m) = None"
      and rs: "resolve_table t (db w) \<noteq> None \<or> create_target (sql m) = Some (map to_lower t)"
      and ni: "mid m \<notin> row_id ` set (ledger_rows t (db w))"
      and nn: "name m \<notin> row_name ` set (ledger_rows t (db w))"
  shows "\<exists>w'. runMigration ev t m w = (Inr m, w')"
proof -
  have "\<exists>d1. exec_body ev (sql m) (db w) = Inr d1"
    using be by (cases "create_target (sql m)") (simp_all add: exec_body_def Let_def)
  then obtain d1 where b: "exec_body ev (sql m) (db w) = Inr d1" by blast
  have d1: "d1 = (case create_target (sql m) of
                    None \<Rightarrow> (db w)\<lparr>executed := executed (db w) @ [sql m]\<rparr>
                  | Some t' \<Rightarrow> create_if_absent t' ((db w)\<lparr>executed := executed (db w) @ [sql m]\<rparr>))"
    using b be by (simp add: exec_body_def Let_def split: option.splits)
  have r0: "resolve_table t ((db w)\<lparr>executed := executed (db w) @ [sql m]\<rparr>) = resolve_table t (db w)"
    by (simp add: resolve_table_def)
  have r1: "resolve_table t d1 \<noteq> None"
    using rs unfolding d1 by (auto simp: resolve_create r0 split: option.splits)
  then obtain c where c: "resolve_table t d1 = Some c" by blast
  have rows: "contents c = ledger_rows t (db w)"
    using exec_body_effect(3) [OF b, of t] c by (simp add: ledger_rows_def)
  have "\<exists>d2. insert_row t (row_of m) d1 = Inr d2"
    using c ni nn rows by (simp add: insert_row_def row_of_def)
  then obtain d2 where i: "insert_row t (row_of m) d1 = Inr d2" by blast
  show ?thesis using b i by (simp add: runMigration_def Let_def)
qed

lemma no_relation_resolve:
  "no_relation_named (map to_lower t) d \<Longrightarrow> resolve_table t d = None"
  by (auto simp: no_relation_named_def resolve_table_def find_None_iff list_ex_iff)

lemma no_relation_fetch:
  "no_relation_named t (db w) \<Longrightarrow> fst (fetchAppliedMigrationFromDB t lg w) = Inr []"
  by (auto simp: no_relation_named_def fetchAppliedMigrationFromDB_def doesTableExist_def
        pg_class_exists_def Let_def list_ex_iff)

lemma load_result:
  assumes "readDir ev directory = Inr (Some fs)"
      and "load_all (loadMigrationFile ev) (filter isValidFile (map (path_resolve ev directory) fs))
             = Inr units"
  shows "fst (load ev lg directory config w) = Inr (sort_key mid (units @ [bootstrap_of ev config]))"
  using assms by (simp add: load_def Let_def loadRaw_bootstrap)

lemma validate_single_bootstrap:
  "validateMigrations [bootstrap_of ev config] (array_as_record []) = Inr ()"
  by (simp add: validateMigrations_def indexNotMatch_def bootstrap_of_def invalidHash_def
        array_as_record_def)

lemma doesTableExist_iff: "fst (doesTableExist t w) = table_exists t (db w)"
  by (simp add: doesTableExist_def pg_class_exists_def Let_def table_exists_def list_ex_iff)

lemma fetch_absent:
  assumes "\<not> table_exists t (db w)"
  shows "fst (fetchAppliedMigrationFromDB t lg w) = Inr []"
proof -
  obtain b w1 where d: "doesTableExist t w = (b, w1)" by (cases "doesTableExist t w")
  have "b = table_exists t (db w)" using doesTableExist_iff [of t w] d by simp
  with assms have "\<not> b" by simp
  then show ?thesis by (simp add: fetchAppliedMigrationFromDB_def d)
qed

lemma fetch_present:
  assumes "table_exists t (db w)"
  shows "fst (fetchAppliedMigrationFromDB t lg w) = select_ordered t (db w)"
proof -
  obtain b w1 where d: "doesTableExist t w = (b, w1)" by (cases "doesTableExist t w")
  have "b = table_exists t (db w)" using doesTableExist_iff [of t w] d by simp
  with assms have b: "b" by simp
  have w1: "db w1 = db w" using d by (auto simp: doesTableExist_def Let_def)
  show ?thesis
    using b w1 by (cases "select_ordered t (db w)") (simp_all add: fetchAppliedMigrationFromDB_def d Let_def)
qed

lemma select_rows:
  "select_ordered t d = Inr rs \<Longrightarrow> rs = sort_key row_id (ledger_rows t d)"
  by (auto simp: select_ordered_def ledger_rows_def split: option.splits)

lemma dense_lookup:
  assumes "map row_id rs = map int [0..<length rs]"
  shows "array_as_record rs k = Some r \<Longrightarrow> row_id r = k"
    and "array_as_record rs k = None \<longleftrightarrow> k \<notin> row_id ` set rs"
proof -
  have ids: "row_id (rs ! i) = int i" if "i < length rs" for i
  proof -
    have "map row_id rs ! i = map int [0..<length rs] ! i" using assms by simp
    with that show ?thesis by simp
  qed
  show "array_as_record rs k = Some r \<Longrightarrow> row_id r = k"
    using ids [of "nat k"] by (auto simp: array_as_record_def split: if_splits)
  have "row_id ` set rs = int ` {0..<length rs}"
    using assms by (metis atLeastLessThan_upt list.set_map)
  then show "array_as_record rs k = None \<longleftrightarrow> k \<notin> row_id ` set rs"
    by (auto simp: array_as_record_def image_iff) (metis nat_less_iff nat_0_le atLeastLessThan_iff le0)+
qed

lemma exec_body_kind:
  assumes "exec_body ev b d = Inr d1"
  shows "ledger_kind t d1 = ledger_kind t d \<or> (ledger_kind t d = None \<and> ledger_kind t d1 = Some (CHR ''r''))"
proof -
  let ?d0 = "d\<lparr>executed := executed d @ [b]\<rparr>"
  have r0: "resolve_table t ?d0 = resolve_table t d" by (simp add: resolve_table_def)
  from assms have d1: "d1 = ?d0 \<or> (\<exists>t'. d1 = create_if_absent t' ?d0)"
    by (auto simp: exec_body_def Let_def split: option.splits)
  then show ?thesis
  proof
    assume "d1 = ?d0"
    then show ?thesis by (simp add: ledger_kind_def r0)
  next
    assume "\<exists>t'. d1 = create_if_absent t' ?d0"
    then obtain t' where "d1 = create_if_absent t' ?d0" by blast
    then show ?thesis
      by (cases "resolve_table t d") (simp_all add: ledger_kind_def resolve_create r0)
  qed
qed

lemma insert_row_kind:
  assumes "insert_row t r d = Inr d2"
  shows "ledger_kind t d2 = ledger_kind t d" "ledger_kind t d2 \<noteq> None"
proof -
  from assms obtain c where c: "resolve_table t d = Some c"
    and d2: "d2 = d\<lparr>relations := add_row (map to_lower t) (current_schema d) r (relations d)\<rparr>"
    by (auto simp: insert_row_def split: option.splits if_splits)
  from c have "find (\<lambda>c. relname c = map to_lower t \<and> relnamespace c = current_schema d)
                 (add_row (map to_lower t) (current_schema d) r (relations d))
               = Some (c\<lparr>contents := contents c @ [r]\<rparr>)"
    unfolding resolve_table_def by (rule find_add_row)
  then have "resolve_table t d2 = Some (c\<lparr>contents := contents c @ [r]\<rparr>)"
    using d2 by (simp add: resolve_table_def)
  with c show "ledger_kind t d2 = ledger_kind t d" "ledger_kind t d2 \<noteq> None"
    by (simp_all add: ledger_kind_def)
qed

lemma runMigration_kind:
  assumes "runMigration ev t m w = (Inr r, w')"
      and "ledger_kind t (db w) = None \<or> ledger_kind t (db w) = Some (CHR ''r'')"
  shows "ledger_kind t (db w') = Some (CHR ''r'')"
proof -
  obtain d1 where b: "exec_body ev (sql m) (db w) = Inr d1"
    using assms(1) by (cases "exec_body ev (sql m) (db w)") (simp_all add: runMigration_def Let_def)
  obtain d2 where i: "insert_row t (row_of m) d1 = Inr d2"
    using assms(1) b by (cases "insert_row t (row_of m) d1") (simp_all add: runMigration_def Let_def)
  have w': "db w' = d2" using assms(1) b i by (auto simp: runMigration_def Let_def)
  from exec_body_kind [OF b, of t] insert_row_kind [OF i] assms(2) w'
  show ?thesis by auto
qed

lemma apply_loop_kind:
  "apply_loop ev t ms acc w = (Inr cs, w') \<Longrightarrow> ms \<noteq> [] \<Longrightarrow>
   ledger_kind t (db w) = None \<or> ledger_kind t (db w) = Some (CHR ''r'') \<Longrightarrow>
   ledger_kind t (db w') = Some (CHR ''r'')"
proof (induction ms arbitrary: acc w)
  case Nil
  then show ?case by simp
next
  case (Cons m ms)
  from Cons.prems(1) obtain r w1 where s: "runMigration ev t m w = (Inr r, w1)"
    and rest: "apply_loop ev t ms (acc @ [r]) w1 = (Inr cs, w')"
    by (auto split: prod.splits sum.splits)
  have k1: "ledger_kind t (db w1) = Some (CHR ''r'')"
    using runMigration_kind [OF s Cons.prems(3)] .
  show ?case
  proof (cases ms)
    case Nil
    with rest k1 show ?thesis by simp
  next
    case (Cons a list)
    then have "ms \<noteq> []" by simp
    from Cons.IH [OF rest this] k1 show ?thesis by simp
  qed
qed

lemma ledger_rows_resolve: "ledger_rows t d \<noteq> [] \<Longrightarrow> resolve_table t d \<noteq> None"
  by (cases "resolve_table t d") (simp_all add: ledger_rows_def)

lemma apply_loop_ok:
  "\<forall>m\<in>set ms. body_error ev (sql m) = None \<Longrightarrow>
   distinct (map mid ms) \<Longrightarrow> distinct (map name ms) \<Longrightarrow>
   mid ` set ms \<inter> row_id ` set (ledger_rows t (db w)) = {} \<Longrightarrow>
   name ` set ms \<inter> row_name ` set (ledger_rows t (db w)) = {} \<Longrightarrow>
   resolve_table t (db w) \<noteq> None \<or> (ms \<noteq> [] \<and> create_target (sql (hd ms)) = Some (map to_lower t)) \<Longrightarrow>
   \<exists>w'. apply_loop ev t ms acc w = (Inr (acc @ ms), w')"
proof (induction ms arbitrary: acc w)
  case Nil
  then show ?case by simp
next
  case (Cons m ms)
  have "\<exists>w1. runMigration ev t m w = (Inr m, w1)"
  proof (rule runMigration_ok)
    show "body_error ev (sql m) = None" using Cons.prems(1) by simp
    show "resolve_table t (db w) \<noteq> None \<or> create_target (sql m) = Some (map to_lower t)"
      using Cons.prems(6) by auto
    show "mid m \<notin> row_id ` set (ledger_rows t (db w))" using Cons.prems(4) by auto
    show "name m \<notin> row_name ` set (ledger_rows t (db w))" using Cons.prems(5) by auto
  qed
  then obtain w1 where s: "runMigration ev t m w = (Inr m, w1)" by blast
  note eff = runMigration_success [OF s]
  have rows: "ledger_rows t (db w1) = ledger_rows t (db w) @ [row_of m]" by (rule eff(4))
  have "\<exists>w'. apply_loop ev t ms ((acc @ [m]) @ ms') w1 = (Inr (((acc @ [m]) @ ms') @ ms), w')" if "ms' = []" for ms'
  proof (rule Cons.IH)
    show "\<forall>m\<in>set ms. body_error ev (sql m) = None" using Cons.prems(1) by simp
    show "distinct (map mid ms)" using Cons.prems(2) by simp
    show "distinct (map name ms)" using Cons.prems(3) by simp
    show "mid ` set ms \<inter> row_id ` set (ledger_rows t (db w1)) = {}"
      using Cons.prems(2,4) unfolding rows by (auto simp: row_of_def)
    show "name ` set ms \<inter> row_name ` set (ledger_rows t (db w1)) = {}"
      using Cons.prems(3,5) unfolding rows by (auto simp: row_of_def)
    show "resolve_table t (db w1) \<noteq> None \<or> (ms \<noteq> [] \<and> create_target (sql (hd ms)) = Some (map to_lower t))"
      using ledger_rows_resolve [of t "db w1"] rows by simp
  qed
  from this [of "[]"] obtain w' where "apply_loop ev t ms (acc @ [m]) w1 = (Inr ((acc @ [m]) @ ms), w')"
    by auto
  with s show ?case by simp
qed

lemma kind_table_exists:
  assumes "ledger_kind t d = Some (CHR ''r'')" "map to_lower t = t"
  shows "table_exists t d"
proof -
  from assms(1) obtain c where c: "resolve_table t d = Some c" and k: "relkind c = CHR ''r''"
    by (auto simp: ledger_kind_def)
  from c have "c \<in> set (relations d)" "relname c = map to_lower t"
    by (auto simp: resolve_table_def find_Some_iff in_set_conv_nth)
  with k assms(2) show ?thesis by (auto simp: table_exists_def)
qed

lemma validate_against_own_rows:
  assumes ids: "\<forall>j<length ms. mid (ms ! j) = int j"
  shows "validateMigrations ms (array_as_record (map row_of ms)) = Inr ()"
    and "filterMigrations ms (array_as_record (map row_of ms)) = []"
proof -
  have look: "array_as_record (map row_of ms) (mid m) = Some (row_of m)" if "m \<in> set ms" for m
  proof -
    from that obtain j where j: "j < length ms" "ms ! j = m" by (auto simp: in_set_conv_nth)
    with ids have "mid m = int j" by auto
    with j show ?thesis by (simp add: array_as_record_def)
  qed
  have "filter (invalidHash (array_as_record (map row_of ms))) ms = []"
    by (auto simp: filter_empty_conv invalidHash_def look row_of_def)
  then show "validateMigrations ms (array_as_record (map row_of ms)) = Inr ()"
    using validate_order_ok [OF ids, of "array_as_record (map row_of ms)"] by simp
  show "filterMigrations ms (array_as_record (map row_of ms)) = []"
    by (auto simp: filterMigrations_def filter_empty_conv notAppliedMigration_def look)
qed

lemma validate_against_empty:
  assumes ids: "\<forall>j<length ms. mid (ms ! j) = int j"
  shows "validateMigrations ms (array_as_record []) = Inr ()"
    and "filterMigrations ms (array_as_record []) = ms"
proof -
  have "filter (invalidHash (array_as_record [])) ms = []"
    by (simp add: filter_empty_conv invalidHash_def array_as_record_def)
  then show "validateMigrations ms (array_as_record []) = Inr ()"
    using validate_order_ok [OF ids, of "array_as_record []"] by simp
  show "filterMigrations ms (array_as_record []) = ms"
    by (simp add: filterMigrations_def notAppliedMigration_def array_as_record_def)
qed

lemma fresh_run_then_rerun:
  assumes ce: "connect_error ev = None"
      and ld: "fst (load ev \<lparr>logger = False\<rparr> d c w) = Inr ms"
      and ids: "\<forall>j<length ms. mid (ms ! j) = int j"
      and ne: "ms \<noteq> []"
      and hd: "create_target (sql (hd ms)) = Some (table_name_text c)"
      and names: "distinct (map name ms)"
      and bodies: "\<forall>m\<in>set ms. body_error ev (sql m) = None"
      and plain: "plain_identifier (table_name_text c)"
      and fresh: "no_relation_named (table_name_text c) (db w)"
  shows "fst (runMigrations ev c d config w) = Inr ms"
    and "attempted (snd (runMigrations ev c d config w)) = attempted w @ ms"
    and "ledger_rows (table_name_text c) (db (snd (runMigrations ev c d config w))) = map row_of ms"
    and "fst (runMigrations ev c d config' (snd (runMigrations ev c d config w))) = Inr []"
    and "attempted (snd (runMigrations ev c d config' (snd (runMigrations ev c d config w))))
           = attempted (snd (runMigrations ev c d config w))"
proof -
  let ?t = "table_name_text c"
  let ?lg = "case config of None \<Rightarrow> \<lparr>logger = False\<rparr> | Some x \<Rightarrow> x"
  let ?w3 = "reconciler_world ev c d ?lg (log ?lg ''Attempting database migration'' w)"
  let ?run = "runMigrations ev c d config w"
  note ch = plain_identifier_chars [OF plain]
  have r1: "reaches_reconciler ev c d w ms []"
    using ce ld fresh by (simp add: reaches_reconciler_def no_relation_fetch)
  note run1 = run_reconcile [OF r1, of config]
  note v1 = validate_against_empty [OF ids]
  have w3: "db ?w3 = db w" "attempted ?w3 = attempted w" by (simp_all add: reconciler_world_frame)
  have none: "resolve_table ?t (db w) = None"
    using fresh ch(1) no_relation_resolve [of ?t "db w"] by simp
  have lr: "ledger_rows ?t (db ?w3) = []" using none w3 by (simp add: ledger_rows_def)
  have sorted: "sorted_wrt (<) (map mid ms)" using ids by (rule nth_ids_sorted)
  have "\<exists>w4. apply_loop ev ?t ms [] ?w3 = (Inr ([] @ ms), w4)"
  proof (rule apply_loop_ok)
    show "\<forall>m\<in>set ms. body_error ev (sql m) = None" by (rule bodies)
    show "distinct (map mid ms)" using sorted by (simp add: strict_sorted_iff)
    show "distinct (map name ms)" by (rule names)
    show "mid ` set ms \<inter> row_id ` set (ledger_rows ?t (db ?w3)) = {}" using lr by simp
    show "name ` set ms \<inter> row_name ` set (ledger_rows ?t (db ?w3)) = {}" using lr by simp
    show "resolve_table ?t (db ?w3) \<noteq> None \<or>
          (ms \<noteq> [] \<and> create_target (sql (hd ms)) = Some (map to_lower ?t))"
      using ne hd ch(1) by simp
  qed
  then obtain w4 where loop: "apply_loop ev ?t ms [] ?w3 = (Inr ms, w4)" by auto
  note eff = apply_loop_success [OF loop]
  have res: "?run = (Inr ms, finally_block ev ?lg (logResult ms ?lg w4))"
    by (simp add: run1 Let_def v1 loop del: apply_loop.simps)
  show first: "fst ?run = Inr ms" by (simp add: res)
  show att: "attempted (snd ?run) = attempted w @ ms"
    using eff w3 by (simp add: res finally_frame logResult_frame)
  have db1: "db (snd ?run) = db w4" by (simp add: res finally_frame logResult_frame)
  show rows: "ledger_rows ?t (db (snd ?run)) = map row_of ms"
    using eff lr by (simp add: db1)
  have "ledger_kind ?t (db ?w3) = None" using none w3 by (simp add: ledger_kind_def)
  then have kind: "ledger_kind ?t (db (snd ?run)) = Some (CHR ''r'')"
    using apply_loop_kind [OF loop ne] by (simp add: db1)
  have ex: "table_exists ?t (db (snd ?run))" using kind ch(1) by (rule kind_table_exists)
  from kind obtain c0 where c0: "resolve_table ?t (db (snd ?run)) = Some c0"
    by (auto simp: ledger_kind_def)
  have "select_ordered ?t (db (snd ?run)) = Inr (sort_key row_id (ledger_rows ?t (db (snd ?run))))"
    using c0 by (simp add: select_ordered_def ledger_rows_def)
  also have "sort_key row_id (ledger_rows ?t (db (snd ?run))) = map row_of ms"
    unfolding rows
  proof (rule sort_key_id_if_sorted)
    have "map row_id (map row_of ms) = map mid ms" by (simp add: row_of_def)
    moreover have "sorted (map mid ms)" using sorted by (rule strict_sorted_imp_sorted)
    ultimately show "sorted (map row_id (map row_of ms))" by (simp only:)
  qed
  finally have sel: "select_ordered ?t (db (snd ?run)) = Inr (map row_of ms)" .
  have r2: "reaches_reconciler ev c d (snd ?run) ms (map row_of ms)"
    using ce ld load_fst [of ev "\<lparr>logger = False\<rparr>" d c "snd ?run" "\<lparr>logger = False\<rparr>" w]
          fetch_present [OF ex, of "\<lparr>logger = False\<rparr>"] sel
    by (simp add: reaches_reconciler_def)
  note run2 = run_reconcile [OF r2, of config']
  note v2 = validate_against_own_rows [OF ids]
  show "fst (runMigrations ev c d config' (snd ?run)) = Inr []"
    by (simp add: run2 Let_def v2)
  show "attempted (snd (runMigrations ev c d config' (snd ?run))) = attempted (snd ?run)"
    by (simp add: run2 Let_def v2 finally_frame logResult_frame reconciler_world_frame)
qed

lemma first_match_found:
  "match_here (c # e) \<Longrightarrow> first_match (p @ c # e) i \<noteq> None"
  by (induction p arbitrary: i) simp_all

lemma isValidFile_extension:
  assumes "alt \<in> set alternatives" "ci_match alt e" "\<not> is_line_terminator c"
  shows "isValidFile (p @ c # e)"
proof -
  have "match_here (c # e)"
    using assms by (auto simp: match_here_def list_ex_iff)
  then have "first_match (p @ c # e) 0 \<noteq> None" by (rule first_match_found)
  then show ?thesis
    by (auto simp: isValidFile_def regexp_test_def split: option.splits)
qed

lemma calls_emit: "calls (emit e w) = calls w @ (case e of Log m \<Rightarrow> [] | _ \<Rightarrow> [e])"
  by (cases e) (simp_all add: calls_def emit_def)

lemma calls_log [simp]: "calls (log lg m w) = calls w"
  by (simp add: log_def calls_emit)

lemma finally_calls: "calls (finally_block ev lg w) = calls w @ [End]"
  by (simp add: finally_block_def client_end_def calls_emit split: option.splits)

lemma finally_events_failure:
  "end_error ev = Some e2 \<Longrightarrow>
   events (finally_block ev \<lparr>logger = True\<rparr> w)
     = events w @ [End, Log (''Error closing the connetion: '' @ message e2)]"
  by (simp add: finally_block_def client_end_def log_def emit_def)

lemma migrate_valid:
  assumes "typeof (database c) = ''string'' \<and> typeof (user c) = ''string'' \<and>
           typeof (password c) = ''string'' \<and> typeof (host c) = ''string'' \<and>
           typeof (port c) = ''number''"
  shows "migrate ev (Some c) (JSString directory) config w =
           (fst (runMigrations ev (if tableName c = None
                                   then c\<lparr>tableName := Some DEFAULT_MIGRATION_TABLE_NAME\<rparr> else c)
                   directory config w),
            Some (if tableName c = None
                  then c\<lparr>tableName := Some DEFAULT_MIGRATION_TABLE_NAME\<rparr> else c),
            snd (runMigrations ev (if tableName c = None
                                   then c\<lparr>tableName := Some DEFAULT_MIGRATION_TABLE_NAME\<rparr> else c)
                   directory config w))"
  using assms by (simp add: migrate_def Let_def split: prod.splits)

lemma array_find_none_iff:
  "array_find p k xs = None \<Longrightarrow> j < length xs \<Longrightarrow> \<not> p (xs ! j) (k + j)"
proof (induction xs arbitrary: k j)
  case Nil
  then show ?case by simp
next
  case (Cons x xs)
  from Cons.prems(1) have nx: "\<not> p x k" and rest: "array_find p (Suc k) xs = None"
    by (simp_all split: if_splits)
  show ?case
  proof (cases j)
    case 0
    with nx show ?thesis by simp
  next
    case (Suc n)
    with Cons.prems(2) have "n < length xs" by simp
    from Cons.IH [OF rest this] Suc show ?thesis by simp
  qed
qed

lemma validate_ok_facts:
  assumes "validateMigrations ms applied = Inr ()"
  shows "\<forall>j<length ms. mid (ms ! j) = int j"
    and "\<forall>m\<in>set ms. \<not> invalidHash applied m"
proof -
  have n: "array_find indexNotMatch 0 ms = None"
    using assms by (cases "array_find indexNotMatch 0 ms") (simp_all add: validateMigrations_def)
  show ids: "\<forall>j<length ms. mid (ms ! j) = int j"
    using array_find_none_iff [OF n] by (simp add: indexNotMatch_def)
  have "filter (invalidHash applied) ms = []"
    using assms n by (simp add: validateMigrations_def Let_def split: if_splits)
  then show "\<forall>m\<in>set ms. \<not> invalidHash applied m" by (simp add: filter_empty_conv)
qed

lemma filter_from_position:
  "\<forall>j<length ms. mid (ms ! j) = int j \<Longrightarrow> filter (\<lambda>m. int n \<le> mid m) ms = drop n ms"
proof (induction ms rule: rev_induct)
  case Nil
  then show ?case by simp
next
  case (snoc x xs)
  have pre: "\<forall>j<length xs. mid (xs ! j) = int j"
  proof (intro allI impI)
    fix j assume j: "j < length xs"
    then have "mid ((xs @ [x]) ! j) = int j" using snoc.prems by simp
    with j show "mid (xs ! j) = int j" by (simp add: nth_append)
  qed
  have x: "mid x = int (length xs)" using snoc.prems by (auto simp: nth_append dest: spec [of _ "length xs"])
  show ?case using snoc.IH [OF pre] x by simp
qed

lemma pending_is_drop:
  assumes "\<forall>j<length ms. mid (ms ! j) = int j"
  shows "filterMigrations ms (array_as_record rs) = drop (length rs) ms"
proof -
  have "notAppliedMigration (array_as_record rs) m = (int (length rs) \<le> mid m)" if "m \<in> set ms" for m
  proof -
    from that obtain j where "j < length ms" "ms ! j = m" by (auto simp: in_set_conv_nth)
    with assms have "mid m = int j" by auto
    then show ?thesis by (simp add: notAppliedMigration_def array_as_record_def)
  qed
  then have "filter (notAppliedMigration (array_as_record rs)) ms = filter (\<lambda>m. int (length rs) \<le> mid m) ms"
    by (intro filter_cong) simp_all
  with filter_from_position [OF assms, of "length rs"] show ?thesis
    by (simp add: filterMigrations_def)
qed

lemma insort_key_before:
  "\<forall>y\<in>set ys. f a < f y \<Longrightarrow> insort_key f a (xs @ ys) = insort_key f a xs @ ys"
proof (induction xs)
  case Nil
  then show ?case by (cases ys) auto
next
  case (Cons x xs)
  then show ?case by simp
qed

lemma sort_key_append_sorted:
  "\<forall>x\<in>set xs. \<forall>y\<in>set ys. f x < f y \<Longrightarrow> sorted (map f ys) \<Longrightarrow>
   sort_key f (xs @ ys) = sort_key f xs @ ys"
proof (induction xs)
  case Nil
  then show ?case by (simp add: sort_key_id_if_sorted)
next
  case (Cons a xs)
  then have "sort_key f (xs @ ys) = sort_key f xs @ ys" by simp
  moreover have "\<forall>y\<in>set ys. f a < f y" using Cons.prems(1) by simp
  ultimately show ?case by (simp add: insort_key_before)
qed


lemma fetched_rows:
  assumes f: "fst (fetchAppliedMigrationFromDB t lg w) = Inr rs"
      and kind: "ledger_kind t (db w) = None \<or> ledger_kind t (db w) = Some (CHR ''r'')"
      and low: "map to_lower t = t"
  shows "rs = sort_key row_id (ledger_rows t (db w))"
proof (cases "table_exists t (db w)")
  case True
  with f have "select_ordered t (db w) = Inr rs" using fetch_present [of t w lg] by simp
  then show ?thesis by (rule select_rows)
next
  case False
  with f have rs: "rs = []" using fetch_absent [of t w lg] by simp
  have "ledger_kind t (db w) \<noteq> Some (CHR ''r'')"
    using False kind_table_exists [OF _ low, of "db w"] by blast
  with kind have "ledger_kind t (db w) = None" by simp
  then have "ledger_rows t (db w) = []" by (simp add: ledger_kind_def ledger_rows_def)
  with rs show ?thesis by simp
qed

lemma rerun_after_success:
  assumes r1: "reaches_reconciler ev c d w ms rs"
      and ok: "fst (runMigrations ev c d config w) = Inr cs"
      and dense: "map row_id rs = map int [0..<length rs]"
      and kind: "ledger_kind (table_name_text c) (db w) = None \<or>
                 ledger_kind (table_name_text c) (db w) = Some (CHR ''r'')"
      and plain: "plain_identifier (table_name_text c)"
  shows "cs = drop (length rs) ms"
    and "fst (runMigrations ev c d config' (snd (runMigrations ev c d config w))) = Inr []"
    and "attempted (snd (runMigrations ev c d config' (snd (runMigrations ev c d config w))))
           = attempted (snd (runMigrations ev c d config w))"
proof -
  let ?t = "table_name_text c"
  let ?n = "length rs"
  let ?lg = "case config of None \<Rightarrow> \<lparr>logger = False\<rparr> | Some x \<Rightarrow> x"
  let ?w3 = "reconciler_world ev c d ?lg (log ?lg ''Attempting database migration'' w)"
  let ?run = "runMigrations ev c d config w"
  let ?pending = "drop ?n ms"
  note low = plain_identifier_chars(1) [OF plain]
  note run1 = run_reconcile [OF r1, of config]
  have v1: "validateMigrations ms (array_as_record rs) = Inr ()"
    using ok by (cases "validateMigrations ms (array_as_record rs)") (simp_all add: run1 Let_def)
  note ids = validate_ok_facts(1) [OF v1]
  note hashes = validate_ok_facts(2) [OF v1]
  have pend: "filterMigrations ms (array_as_record rs) = ?pending" using ids by (rule pending_is_drop)
  have w3: "db ?w3 = db w" "attempted ?w3 = attempted w" by (simp_all add: reconciler_world_frame)
  obtain res w4 where loop0: "apply_loop ev ?t ?pending [] ?w3 = (res, w4)"
    by (cases "apply_loop ev ?t ?pending [] ?w3")
  have res: "res = Inr cs"
    using ok by (cases res) (simp_all add: run1 Let_def v1 pend loop0)
  with loop0 have loop: "apply_loop ev ?t ?pending [] ?w3 = (Inr cs, w4)" by simp
  note eff = apply_loop_success [OF loop]
  show cs: "cs = ?pending" using eff by simp
  have run: "?run = (Inr cs, finally_block ev ?lg (logResult cs ?lg w4))"
    by (simp add: run1 Let_def v1 pend loop)
  have db1: "db (snd ?run) = db w4" by (simp add: run finally_frame logResult_frame)
  have rows: "ledger_rows ?t (db w4) = ledger_rows ?t (db w) @ map row_of ?pending"
    using eff w3 by simp
  have fetched: "rs = sort_key row_id (ledger_rows ?t (db w))"
    using r1 kind low by (intro fetched_rows [of ?t "\<lparr>logger = False\<rparr>"]) (simp_all add: reaches_reconciler_def)
  have "\<exists>rs'. reaches_reconciler ev c d (snd ?run) ms rs' \<and>
              validateMigrations ms (array_as_record rs') = Inr () \<and>
              filterMigrations ms (array_as_record rs') = []"
  proof (cases "?pending = []")
    case True
    then have "w4 = ?w3" using loop by simp
    then have dbw: "db (snd ?run) = db w" using db1 w3 by simp
    have rr: "reaches_reconciler ev c d (snd ?run) ms rs"
      by (rule reaches_reconciler_db [OF r1 dbw])
    have "filterMigrations ms (array_as_record rs) = []" using pend True by simp
    with rr v1 show ?thesis by blast
  next
    case False
    then have n: "?n < length ms" by simp
    let ?rs' = "rs @ map row_of ?pending"
    have k3: "ledger_kind ?t (db ?w3) = None \<or> ledger_kind ?t (db ?w3) = Some (CHR ''r'')"
      using kind w3 by simp
    have k4: "ledger_kind ?t (db w4) = Some (CHR ''r'')" by (rule apply_loop_kind [OF loop False k3])
    have "table_exists ?t (db w4)" using k4 low by (rule kind_table_exists)
    then have ex: "table_exists ?t (db (snd ?run))" by (simp only: db1)
    from k4 obtain c0 where c0: "resolve_table ?t (db w4) = Some c0" by (auto simp: ledger_kind_def)
    have sel: "select_ordered ?t (db w4) = Inr (sort_key row_id (ledger_rows ?t (db w4)))"
      using c0 by (simp add: select_ordered_def ledger_rows_def)
    have old_ids: "row_id ` set (ledger_rows ?t (db w)) = int ` {0..<?n}"
    proof -
      have "row_id ` set (ledger_rows ?t (db w)) = row_id ` set rs" unfolding fetched by simp
      also have "\<dots> = set (map row_id rs)" by simp
      also have "\<dots> = int ` {0..<?n}" unfolding dense by simp
      finally show ?thesis .
    qed
    have new_ids: "int ?n \<le> mid m" if "m \<in> set ?pending" for m
    proof -
      from that obtain j where j: "j < length ?pending" "?pending ! j = m"
        by (auto simp: in_set_conv_nth)
      then have "m = ms ! (?n + j)" "?n + j < length ms" by auto
      with ids show ?thesis by auto
    qed
    have sorted_new: "sorted (map row_id (map row_of ?pending))"
    proof -
      have "sorted_wrt (<) (map mid ms)" using ids by (rule nth_ids_sorted)
      then have "sorted (map mid ms)" by (rule strict_sorted_imp_sorted)
      then have "sorted (drop ?n (map mid ms))" by (rule sorted_wrt_drop)
      moreover have "map row_id (map row_of ?pending) = drop ?n (map mid ms)"
        by (simp add: row_of_def drop_map)
      ultimately show ?thesis by (simp only:)
    qed
    have "sort_key row_id (ledger_rows ?t (db w) @ map row_of ?pending)
            = sort_key row_id (ledger_rows ?t (db w)) @ map row_of ?pending"
    proof (rule sort_key_append_sorted [OF _ sorted_new], intro ballI)
      fix x y assume x: "x \<in> set (ledger_rows ?t (db w))" and y: "y \<in> set (map row_of ?pending)"
      from x have "row_id x \<in> row_id ` set (ledger_rows ?t (db w))" by (rule imageI)
      then have "row_id x \<in> int ` {0..<?n}" by (simp only: old_ids)
      then have "row_id x < int ?n" by auto
      moreover from y new_ids have "int ?n \<le> row_id y" by (auto simp: row_of_def)
      ultimately show "row_id x < row_id y" by simp
    qed
    then have sel': "select_ordered ?t (db (snd ?run)) = Inr ?rs'"
      using sel rows fetched db1 by simp
    have r2: "reaches_reconciler ev c d (snd ?run) ms ?rs'"
      using r1 load_fst [of ev "\<lparr>logger = False\<rparr>" d c "snd ?run" "\<lparr>logger = False\<rparr>" w]
            fetch_present [OF ex, of "\<lparr>logger = False\<rparr>"] sel'
      by (simp add: reaches_reconciler_def)
    have len: "length ?rs' = length ms" using n by simp
    have look: "\<not> invalidHash (array_as_record ?rs') m" if "m \<in> set ms" for m
    proof -
      from that obtain j where j: "j < length ms" "ms ! j = m" by (auto simp: in_set_conv_nth)
      with ids have mj: "mid m = int j" by auto
      show ?thesis
      proof (cases "j < ?n")
        case True
        then have "array_as_record ?rs' (mid m) = array_as_record rs (mid m)"
          using mj j by (simp add: array_as_record_def nth_append)
        with hashes that show ?thesis by (simp add: invalidHash_def)
      next
        case False
        then have "?rs' ! j = row_of (ms ! j)" using j by (simp add: nth_append)
        then have "array_as_record ?rs' (mid m) = Some (row_of m)"
          using mj j len by (simp add: array_as_record_def)
        then show ?thesis by (simp add: invalidHash_def row_of_def)
      qed
    qed
    have "filter (invalidHash (array_as_record ?rs')) ms = []"
      using look by (simp add: filter_empty_conv)
    then have v2: "validateMigrations ms (array_as_record ?rs') = Inr ()"
      using validate_order_ok [OF ids, of "array_as_record ?rs'"] by simp
    have f2: "filterMigrations ms (array_as_record ?rs') = []"
      using pending_is_drop [OF ids, of ?rs'] len by simp
    from r2 v2 f2 show ?thesis by blast
  qed
  then obtain rs' where r2: "reaches_reconciler ev c d (snd ?run) ms rs'"
    and v2: "validateMigrations ms (array_as_record rs') = Inr ()"
    and f2: "filterMigrations ms (array_as_record rs') = []" by blast
  note run2 = run_reconcile [OF r2, of config']
  show "fst (runMigrations ev c d config' (snd ?run)) = Inr []"
    by (simp add: run2 Let_def v2 f2)
  show "attempted (snd (runMigrations ev c d config' (snd ?run))) = attempted (snd ?run)"
    by (simp add: run2 Let_def v2 f2 finally_frame logResult_frame reconciler_world_frame)
qed

lemma validate_cases:
  "(\<exists>fl. validateMigrations ms applied = Inl (NonConsecutiveIdError fl)) \<or>
   validateMigrations ms applied =
     (if filter (invalidHash applied) ms = [] then Inr ()
      else Inl (HashMismatchError (map fileName (filter (invalidHash applied) ms))))"
  by (cases "array_find indexNotMatch 0 ms") (auto simp: validateMigrations_def Let_def)

lemma join_contains:
  "f \<in> set fs \<Longrightarrow> \<exists>p s. join fs = p @ f @ s"
proof (induction fs rule: join.induct)
  case 1
  then show ?case by simp
next
  case (2 x)
  then have "join [x] = [] @ f @ []" by simp
  then show ?case by blast
next
  case (3 x y ys)
  show ?case
  proof (cases "f = x")
    case True
    then have "join (x # y # ys) = [] @ f @ ('','' @ join (y # ys))" by simp
    then show ?thesis by blast
  next
    case False
    with 3 obtain p s where "join (y # ys) = p @ f @ s" by auto
    then have "join (x # y # ys) = (x @ '','' @ p) @ f @ s" by simp
    then show ?thesis by blast
  qed
qed

section \<open>The claims of the specification\<close>

text \<open>
  C1. When the unit at some position \<open>i\<close> is the first whose id differs from its
  position, \<open>validateMigrations\<close> raises the error whose message is
  \<^verbatim>\<open>Found a non-consecutive migration ID on file: '\<close>, the \<open>fileName\<close> of that unit and a
  closing quote, and which has no cause, whatever the applied record holds. A run that
  reaches the reconciler with these units then fails with the error whose message is
  \<^verbatim>\<open>Migration failed. Reason: \<close> followed by that message and whose cause is that error;
  it calls the executor on no unit and leaves the database as it was. When every unit
  has its position as id, the ordering check raises nothing: the result is not an error
  with such a message for any file.
\<close>

theorem C1_ordering_check:
  "(i < length ms \<and> mid (ms ! i) \<noteq> int i \<and> (\<forall>j<i. mid (ms ! j) = int j) \<longrightarrow>
      validateMigrations ms applied =
        Inl (Error (''Found a non-consecutive migration ID on file: '' @ [CHR 0x27]
                    @ fileName (ms ! i) @ [CHR 0x27]) None) \<and>
      (reaches_reconciler ev c d w ms applied_rows \<longrightarrow>
         fst (runMigrations ev c d config w) =
           Inl (Error (''Migration failed. Reason: Found a non-consecutive migration ID on file: ''
                       @ [CHR 0x27] @ fileName (ms ! i) @ [CHR 0x27])
                  (Some (Error (''Found a non-consecutive migration ID on file: '' @ [CHR 0x27]
                                @ fileName (ms ! i) @ [CHR 0x27]) None))) \<and>
         attempted (snd (runMigrations ev c d config w)) = attempted w \<and>
         db (snd (runMigrations ev c d config w)) = db w))
   \<and> ((\<forall>j<length ms. mid (ms ! j) = int j) \<longrightarrow>
        (\<forall>fl. validateMigrations ms applied \<noteq>
               Inl (Error (''Found a non-consecutive migration ID on file: '' @ [CHR 0x27]
                           @ fl @ [CHR 0x27]) None)))"
proof (intro conjI impI allI)
  assume a: "i < length ms \<and> mid (ms ! i) \<noteq> int i \<and> (\<forall>j<i. mid (ms ! j) = int j)"
  then have v0: "validateMigrations ms applied' = Inl (NonConsecutiveIdError (fileName (ms ! i)))"
    for applied'
    by (intro validate_order_violation) simp_all
  from v0 [of applied]
  show "validateMigrations ms applied =
        Inl (Error (''Found a non-consecutive migration ID on file: '' @ [CHR 0x27]
                    @ fileName (ms ! i) @ [CHR 0x27]) None)"
    by (simp add: NonConsecutiveIdError_def)
  assume r: "reaches_reconciler ev c d w ms applied_rows"
  note v' = v0 [of "array_as_record applied_rows"]
  show "fst (runMigrations ev c d config w) =
           Inl (Error (''Migration failed. Reason: Found a non-consecutive migration ID on file: ''
                       @ [CHR 0x27] @ fileName (ms ! i) @ [CHR 0x27])
                  (Some (Error (''Found a non-consecutive migration ID on file: '' @ [CHR 0x27]
                                @ fileName (ms ! i) @ [CHR 0x27]) None)))"
    using run_validation_fails(1) [OF r v', of config]
    by (simp add: MigrationRunError_def NonConsecutiveIdError_def)
  show "attempted (snd (runMigrations ev c d config w)) = attempted w"
    by (rule run_validation_fails(2) [OF r v'])
  show "db (snd (runMigrations ev c d config w)) = db w"
    by (rule run_validation_fails(3) [OF r v'])
next
  fix fl
  assume "\<forall>j<length ms. mid (ms ! j) = int j"
  then have "validateMigrations ms applied =
           (if filter (invalidHash applied) ms = [] then Inr ()
            else Inl (HashMismatchError (map fileName (filter (invalidHash applied) ms))))"
    by (rule validate_order_ok)
  then have "validateMigrations ms applied \<noteq> Inl (NonConsecutiveIdError fl)"
    by (cases "filter (invalidHash applied) ms = []") (simp_all add: errors_distinct [symmetric])
  then show "validateMigrations ms applied \<noteq>
               Inl (Error (''Found a non-consecutive migration ID on file: '' @ [CHR 0x27]
                           @ fl @ [CHR 0x27]) None)"
    by (simp add: NonConsecutiveIdError_def)
qed

theorem C1_ordering_check_witness:
  "(1 < length [bootstrap_unit, unit_b] \<and> mid ([bootstrap_unit, unit_b] ! 1) \<noteq> int 1 \<and>
    mid ([bootstrap_unit, unit_b] ! 0) = int 0 \<and>
    fileName ([bootstrap_unit, unit_b] ! 1) = ''2_b.sql'' \<and>
    reaches_reconciler (example_env [(''2_b.sql'', ''B'')] None None) example_config ''/m''
      fresh_world [bootstrap_unit, unit_b] [] \<and>
    validateMigrations [bootstrap_unit, unit_b] Map.empty
      = Inl (Error (''Found a non-consecutive migration ID on file: '' @ [CHR 0x27]
                    @ ''2_b.sql'' @ [CHR 0x27]) None) \<and>
    fst (runMigrations (example_env [(''2_b.sql'', ''B'')] None None) example_config ''/m'' None
           fresh_world)
      = Inl (Error (''Migration failed. Reason: Found a non-consecutive migration ID on file: ''
                    @ [CHR 0x27] @ ''2_b.sql'' @ [CHR 0x27])
               (Some (Error (''Found a non-consecutive migration ID on file: '' @ [CHR 0x27]
                             @ ''2_b.sql'' @ [CHR 0x27]) None))) \<and>
    attempted (snd (runMigrations (example_env [(''2_b.sql'', ''B'')] None None) example_config
                      ''/m'' None fresh_world)) = [])
   \<and> (length [bootstrap_unit] = 1 \<and> mid ([bootstrap_unit] ! 0) = int 0 \<and>
        validateMigrations [bootstrap_unit] Map.empty
          \<noteq> Inl (Error (''Found a non-consecutive migration ID on file: '' @ [CHR 0x27]
                         @ ''0_create-migrations-table.sql'' @ [CHR 0x27]) None))"
proof -
  let ?ms = "[bootstrap_unit, unit_b]"
  let ?ev = "example_env [(''2_b.sql'', ''B'')] None None"
  have a: "1 < length ?ms \<and> mid (?ms ! 1) \<noteq> int 1 \<and> (\<forall>j<1. mid (?ms ! j) = int j)"
    by (simp add: bootstrap_unit_def unit_b_def)
  have r: "reaches_reconciler ?ev example_config ''/m'' fresh_world ?ms []"
    by code_simp
  have b: "\<forall>j<length [bootstrap_unit]. mid ([bootstrap_unit] ! j) = int j"
    by (simp add: bootstrap_unit_def)
  have f: "fileName (?ms ! 1) = ''2_b.sql''" "attempted fresh_world = []"
    by (simp_all add: unit_b_def attempted_def fresh_world_def List.map_filter_def)
  from C1_ordering_check [of 1 ?ms Map.empty ?ev example_config "''/m''" fresh_world "[]" None] a r
  have c1: "validateMigrations ?ms Map.empty
              = Inl (Error (''Found a non-consecutive migration ID on file: '' @ [CHR 0x27]
                            @ fileName (?ms ! 1) @ [CHR 0x27]) None) \<and>
            fst (runMigrations ?ev example_config ''/m'' None fresh_world)
              = Inl (Error (''Migration failed. Reason: Found a non-consecutive migration ID on file: ''
                            @ [CHR 0x27] @ fileName (?ms ! 1) @ [CHR 0x27])
                       (Some (Error (''Found a non-consecutive migration ID on file: '' @ [CHR 0x27]
                                     @ fileName (?ms ! 1) @ [CHR 0x27]) None))) \<and>
            attempted (snd (runMigrations ?ev example_config ''/m'' None fresh_world))
              = attempted fresh_world"
    by blast
  from C1_ordering_check [of 0 "[bootstrap_unit]" Map.empty] b
  have c2: "validateMigrations [bootstrap_unit] Map.empty
              \<noteq> Inl (Error (''Found a non-consecutive migration ID on file: '' @ [CHR 0x27]
                             @ ''0_create-migrations-table.sql'' @ [CHR 0x27]) None)"
    by blast
  have a': "1 < length ?ms \<and> mid (?ms ! 1) \<noteq> int 1 \<and> mid (?ms ! 0) = int 0"
    by (simp add: bootstrap_unit_def unit_b_def)
  have b': "length [bootstrap_unit] = 1 \<and> mid ([bootstrap_unit] ! 0) = int 0"
    by (simp add: bootstrap_unit_def)
  show ?thesis using a' r b' c1 c2 unfolding f by blast
qed

text \<open>
  C2. When some unit whose id has a record in \<open>applied\<close> carries a hash other than the
  recorded one, \<open>validateMigrations\<close> raises an error, and a run that reaches the
  reconciler with these units and rows fails with the error whose message is
  \<^verbatim>\<open>Migration failed. Reason: \<close> followed by the message of the error raised and whose
  cause is that error; it calls the executor on no unit and leaves the database as it
  was. The integrity check is the second check of \<open>validateMigrations\<close>: for units that
  pass the ordering check, the error raised has no cause and the message
  \<^verbatim>\<open>Hashes don't match for migrations '\<close>, after a line break, then the \<open>fileName\<close>s of
  all units with a differing hash, in the order of the units and separated by commas,
  then \<^verbatim>\<open>'.\<close>, a line break and
  \<^verbatim>\<open>This means that the scripts have changed since it was applied.\<close>; the \<open>fileName\<close> of
  every such unit occurs in the list. When every recorded unit has the recorded hash, no
  error with such a message is raised, and for units that pass the ordering check
  validation raises nothing.
\<close>

theorem C2_integrity_check:
  "((\<exists>m\<in>set ms. \<exists>a. applied (mid m) = Some a \<and> row_hash a \<noteq> hash m) \<longrightarrow>
      (\<exists>e. validateMigrations ms applied = Inl e) \<and>
      (applied = array_as_record applied_rows \<and> reaches_reconciler ev c d w ms applied_rows \<longrightarrow>
         (\<exists>e. validateMigrations ms applied = Inl e \<and>
              fst (runMigrations ev c d config w) =
                Inl (Error (''Migration failed. Reason: '' @ message e) (Some e))) \<and>
         attempted (snd (runMigrations ev c d config w)) = attempted w \<and>
         db (snd (runMigrations ev c d config w)) = db w) \<and>
      ((\<forall>j<length ms. mid (ms ! j) = int j) \<longrightarrow>
         validateMigrations ms applied =
           Inl (Error (''\<newline>Hashes don't match for migrations '' @ [CHR 0x27]
                  @ join (map fileName
                       (filter (\<lambda>m. \<exists>a. applied (mid m) = Some a \<and> row_hash a \<noteq> hash m) ms))
                  @ [CHR 0x27]
                  @ ''.\<newline>This means that the scripts have changed since it was applied.'')
                None) \<and>
         (\<forall>m\<in>set ms. (\<exists>a. applied (mid m) = Some a \<and> row_hash a \<noteq> hash m) \<longrightarrow>
            (\<exists>p s. join (map fileName
                       (filter (\<lambda>m. \<exists>a. applied (mid m) = Some a \<and> row_hash a \<noteq> hash m) ms))
                     = p @ fileName m @ s)) \<and>
         (applied = array_as_record applied_rows \<and> reaches_reconciler ev c d w ms applied_rows \<longrightarrow>
            fst (runMigrations ev c d config w) =
              Inl (Error (''Migration failed. Reason: \<newline>Hashes don't match for migrations ''
                     @ [CHR 0x27]
                     @ join (map fileName
                          (filter (\<lambda>m. \<exists>a. applied (mid m) = Some a \<and> row_hash a \<noteq> hash m) ms))
                     @ [CHR 0x27]
                     @ ''.\<newline>This means that the scripts have changed since it was applied.'')
                   (Some (Error (''\<newline>Hashes don't match for migrations '' @ [CHR 0x27]
                     @ join (map fileName
                          (filter (\<lambda>m. \<exists>a. applied (mid m) = Some a \<and> row_hash a \<noteq> hash m) ms))
                     @ [CHR 0x27]
                     @ ''.\<newline>This means that the scripts have changed since it was applied.'')
                    None))))))
   \<and> ((\<forall>m\<in>set ms. \<forall>a. applied (mid m) = Some a \<longrightarrow> row_hash a = hash m) \<longrightarrow>
        (\<forall>fs. validateMigrations ms applied \<noteq>
                Inl (Error (''\<newline>Hashes don't match for migrations '' @ [CHR 0x27] @ join fs
                       @ [CHR 0x27]
                       @ ''.\<newline>This means that the scripts have changed since it was applied.'')
                     None)) \<and>
        ((\<forall>j<length ms. mid (ms ! j) = int j) \<longrightarrow> validateMigrations ms applied = Inr ()))"
proof (intro conjI impI allI ballI)
  let ?bad = "filter (\<lambda>m. \<exists>a. applied (mid m) = Some a \<and> row_hash a \<noteq> hash m) ms"
  have flt: "filter (invalidHash applied) ms = ?bad"
    by (rule filter_cong) (simp_all add: invalidHash_iff)
  note vc = validate_cases [of ms applied, unfolded flt]
  {
    assume ex: "\<exists>m\<in>set ms. \<exists>a. applied (mid m) = Some a \<and> row_hash a \<noteq> hash m"
    then have ne: "?bad \<noteq> []" by (auto simp: filter_empty_conv)
    with vc show raised: "\<exists>e. validateMigrations ms applied = Inl e" by auto
    {
      assume "applied = array_as_record applied_rows \<and> reaches_reconciler ev c d w ms applied_rows"
      then have a: "applied = array_as_record applied_rows"
        and r: "reaches_reconciler ev c d w ms applied_rows" by simp_all
      from raised a obtain e where e: "validateMigrations ms (array_as_record applied_rows) = Inl e"
        by auto
      have "fst (runMigrations ev c d config w)
              = Inl (Error (''Migration failed. Reason: '' @ message e) (Some e))"
        using run_validation_fails(1) [OF r e, of config] by (simp add: MigrationRunError_def)
      with e a
      show "\<exists>e. validateMigrations ms applied = Inl e \<and>
              fst (runMigrations ev c d config w) =
                Inl (Error (''Migration failed. Reason: '' @ message e) (Some e))"
        by blast
      show "attempted (snd (runMigrations ev c d config w)) = attempted w"
        by (rule run_validation_fails(2) [OF r e])
      show "db (snd (runMigrations ev c d config w)) = db w"
        by (rule run_validation_fails(3) [OF r e])
    }
    assume ok: "\<forall>j<length ms. mid (ms ! j) = int j"
    from validate_order_ok [OF ok, of applied, unfolded flt] ne
    have v: "validateMigrations ms applied = Inl (HashMismatchError (map fileName ?bad))" by simp
    then show "validateMigrations ms applied =
           Inl (Error (''\<newline>Hashes don't match for migrations '' @ [CHR 0x27]
                  @ join (map fileName ?bad) @ [CHR 0x27]
                  @ ''.\<newline>This means that the scripts have changed since it was applied.'')
                None)"
      by (simp add: HashMismatchError_def)
    {
      fix m
      assume "m \<in> set ms" and "\<exists>a. applied (mid m) = Some a \<and> row_hash a \<noteq> hash m"
      then have "fileName m \<in> set (map fileName ?bad)" by simp
      then show "\<exists>p s. join (map fileName ?bad) = p @ fileName m @ s"
        by (rule join_contains)
    }
    assume "applied = array_as_record applied_rows \<and> reaches_reconciler ev c d w ms applied_rows"
    then have r: "reaches_reconciler ev c d w ms applied_rows"
      and v': "validateMigrations ms (array_as_record applied_rows)
                 = Inl (HashMismatchError (map fileName ?bad))"
      using v by simp_all
    show "fst (runMigrations ev c d config w) =
              Inl (Error (''Migration failed. Reason: \<newline>Hashes don't match for migrations ''
                     @ [CHR 0x27] @ join (map fileName ?bad) @ [CHR 0x27]
                     @ ''.\<newline>This means that the scripts have changed since it was applied.'')
                   (Some (Error (''\<newline>Hashes don't match for migrations '' @ [CHR 0x27]
                     @ join (map fileName ?bad) @ [CHR 0x27]
                     @ ''.\<newline>This means that the scripts have changed since it was applied.'')
                    None)))"
      using run_validation_fails(1) [OF r v', of config]
      by (simp add: MigrationRunError_def HashMismatchError_def)
  }
  assume all: "\<forall>m\<in>set ms. \<forall>a. applied (mid m) = Some a \<longrightarrow> row_hash a = hash m"
  then have e: "?bad = []" by (auto simp: filter_empty_conv)
  {
    fix fs
    from vc e have "validateMigrations ms applied \<noteq> Inl (HashMismatchError fs)"
      by (auto simp: errors_distinct)
    then show "validateMigrations ms applied \<noteq>
                Inl (Error (''\<newline>Hashes don't match for migrations '' @ [CHR 0x27] @ join fs
                       @ [CHR 0x27]
                       @ ''.\<newline>This means that the scripts have changed since it was applied.'')
                     None)"
      by (simp add: HashMismatchError_def)
  }
  assume ok: "\<forall>j<length ms. mid (ms ! j) = int j"
  from validate_order_ok [OF ok, of applied, unfolded flt] e
  show "validateMigrations ms applied = Inr ()" by simp
qed

theorem C2_integrity_check_witness:
  "(length [bootstrap_unit, unit_a] = 2 \<and>
    mid ([bootstrap_unit, unit_a] ! 0) = int 0 \<and> mid ([bootstrap_unit, unit_a] ! 1) = int 1 \<and>
    map_option row_hash (array_as_record tampered_rows (mid bootstrap_unit)) = Some ''XXXX'' \<and>
    hash bootstrap_unit = ''0_cr'' \<and>
    reaches_reconciler (example_env [(''1_a.sql'', ''A'')] None None) example_config ''/m''
      (world_with tampered_rows) [bootstrap_unit, unit_a] tampered_rows \<and>
    validateMigrations [bootstrap_unit, unit_a] (array_as_record tampered_rows)
      = Inl (Error (''\<newline>Hashes don't match for migrations '' @ [CHR 0x27]
               @ ''0_create-migrations-table.sql,1_a.sql'' @ [CHR 0x27]
               @ ''.\<newline>This means that the scripts have changed since it was applied.'') None) \<and>
    fst (runMigrations (example_env [(''1_a.sql'', ''A'')] None None) example_config ''/m'' None
           (world_with tampered_rows))
      = Inl (Error (''Migration failed. Reason: \<newline>Hashes don't match for migrations ''
               @ [CHR 0x27] @ ''0_create-migrations-table.sql,1_a.sql'' @ [CHR 0x27]
               @ ''.\<newline>This means that the scripts have changed since it was applied.'')
             (Some (Error (''\<newline>Hashes don't match for migrations '' @ [CHR 0x27]
               @ ''0_create-migrations-table.sql,1_a.sql'' @ [CHR 0x27]
               @ ''.\<newline>This means that the scripts have changed since it was applied.'') None))) \<and>
    attempted (snd (runMigrations (example_env [(''1_a.sql'', ''A'')] None None) example_config
                      ''/m'' None (world_with tampered_rows))) = [])
   \<and> (map (map_option row_hash \<circ> array_as_record (map row_of [bootstrap_unit, unit_a]) \<circ> mid)
            [bootstrap_unit, unit_a]
         = map (Some \<circ> hash) [bootstrap_unit, unit_a] \<and>
       validateMigrations [bootstrap_unit, unit_a]
         (array_as_record (map row_of [bootstrap_unit, unit_a])) = Inr ())"
proof -
  let ?ms = "[bootstrap_unit, unit_a]"
  let ?ev = "example_env [(''1_a.sql'', ''A'')] None None"
  let ?bad = "array_as_record tampered_rows"
  let ?good = "array_as_record (map row_of ?ms)"
  have facts: "length ?ms = 2" "mid (?ms ! 0) = int 0" "mid (?ms ! 1) = int 1"
    "map_option row_hash (?bad (mid bootstrap_unit)) = Some ''XXXX''"
    "hash bootstrap_unit = ''0_cr''"
    "map (map_option row_hash \<circ> ?good \<circ> mid) ?ms = map (Some \<circ> hash) ?ms"
    by (simp_all add: bootstrap_unit_def unit_a_def tampered_rows_def array_as_record_def row_of_def)
  have r: "reaches_reconciler ?ev example_config ''/m'' (world_with tampered_rows) ?ms tampered_rows"
    by code_simp
  have ex: "\<exists>m\<in>set ?ms. \<exists>a. ?bad (mid m) = Some a \<and> row_hash a \<noteq> hash m"
    by (simp add: bootstrap_unit_def unit_a_def tampered_rows_def array_as_record_def)
  have bad: "join (map fileName (filter (\<lambda>m. \<exists>a. ?bad (mid m) = Some a \<and> row_hash a \<noteq> hash m) ?ms))
               = ''0_create-migrations-table.sql,1_a.sql''"
    by (simp add: bootstrap_unit_def unit_a_def tampered_rows_def array_as_record_def)
  have all: "\<forall>m\<in>set ?ms. \<forall>a. ?good (mid m) = Some a \<longrightarrow> row_hash a = hash m"
    by (simp add: bootstrap_unit_def unit_a_def array_as_record_def row_of_def)
  have at: "attempted (world_with tampered_rows) = []"
    by (simp add: attempted_def world_with_def List.map_filter_def)
  from C2_integrity_check [of ?ms ?bad tampered_rows ?ev example_config "''/m''"
                              "world_with tampered_rows" None] ex_ids ex r
  have c1: "validateMigrations ?ms ?bad
      = Inl (Error (''\<newline>Hashes don't match for migrations '' @ [CHR 0x27]
               @ ''0_create-migrations-table.sql,1_a.sql'' @ [CHR 0x27]
               @ ''.\<newline>This means that the scripts have changed since it was applied.'') None) \<and>
    fst (runMigrations ?ev example_config ''/m'' None (world_with tampered_rows))
      = Inl (Error (''Migration failed. Reason: \<newline>Hashes don't match for migrations ''
               @ [CHR 0x27] @ ''0_create-migrations-table.sql,1_a.sql'' @ [CHR 0x27]
               @ ''.\<newline>This means that the scripts have changed since it was applied.'')
             (Some (Error (''\<newline>Hashes don't match for migrations '' @ [CHR 0x27]
               @ ''0_create-migrations-table.sql,1_a.sql'' @ [CHR 0x27]
               @ ''.\<newline>This means that the scripts have changed since it was applied.'') None))) \<and>
    attempted (snd (runMigrations ?ev example_config ''/m'' None (world_with tampered_rows))) = []"
    unfolding bad at by blast
  from C2_integrity_check [of ?ms ?good] ex_ids all
  have c2: "validateMigrations ?ms ?good = Inr ()" by blast
  show ?thesis using facts r c1 c2 by blast
qed

text \<open>
  C3. For units that pass the ordering check, \<open>filterMigrations\<close> returns exactly the units
  whose id has no record in \<open>applied\<close>, in the order of the units, which is strictly
  ascending in the id. When every unit has a record the delta is empty, and a run that
  reaches the reconciler with these units and rows calls the executor on no unit, leaves
  the database as it was and, validation passing, returns the empty list. And when a run
  on a ledger whose ids are dense from 0 succeeds, it has applied the units from the
  length of the ledger on, and a second run on the resulting database returns the empty
  list and calls the executor on no unit.
\<close>

theorem C3_pending_delta:
  "((\<forall>j<length ms. mid (ms ! j) = int j) \<longrightarrow>
     filterMigrations ms applied = filter (\<lambda>m. applied (mid m) = None) ms \<and>
     set (filterMigrations ms applied) = {m \<in> set ms. mid m \<notin> dom applied} \<and>
     sorted_wrt (<) (map mid (filterMigrations ms applied)) \<and>
     ((\<forall>m\<in>set ms. mid m \<in> dom applied) \<longrightarrow>
        filterMigrations ms applied = [] \<and>
        (applied = array_as_record applied_rows \<and> reaches_reconciler ev c d w ms applied_rows \<longrightarrow>
           attempted (snd (runMigrations ev c d config w)) = attempted w \<and>
           db (snd (runMigrations ev c d config w)) = db w \<and>
           (validateMigrations ms applied = Inr () \<longrightarrow>
              fst (runMigrations ev c d config w) = Inr []))))
   \<and> (reaches_reconciler ev c d w ms applied_rows \<and>
       fst (runMigrations ev c d config w) = Inr completed \<and>
       map row_id applied_rows = map int [0..<length applied_rows] \<and>
       (ledger_kind (table_name_text c) (db w) = None \<or>
        ledger_kind (table_name_text c) (db w) = Some (CHR ''r'')) \<and>
       plain_identifier (table_name_text c) \<longrightarrow>
         completed = drop (length applied_rows) ms \<and>
         fst (runMigrations ev c d config' (snd (runMigrations ev c d config w))) = Inr [] \<and>
         attempted (snd (runMigrations ev c d config' (snd (runMigrations ev c d config w))))
           = attempted (snd (runMigrations ev c d config w)))"
proof (intro impI conjI)
  assume ok: "\<forall>j<length ms. mid (ms ! j) = int j"
  show f: "filterMigrations ms applied = filter (\<lambda>m. applied (mid m) = None) ms"
    by (simp add: filterMigrations_def notAppliedMigration_def [abs_def])
  show "set (filterMigrations ms applied) = {m \<in> set ms. mid m \<notin> dom applied}"
    unfolding f by (auto simp: dom_def)
  have "sorted_wrt (<) (map mid ms)" using ok by (rule nth_ids_sorted)
  then show "sorted_wrt (<) (map mid (filterMigrations ms applied))"
    unfolding f by (induction ms) auto
  assume all: "\<forall>m\<in>set ms. mid m \<in> dom applied"
  then show e: "filterMigrations ms applied = []"
    unfolding f by (auto simp: filter_empty_conv dom_def)
  assume "applied = array_as_record applied_rows \<and> reaches_reconciler ev c d w ms applied_rows"
  then have a: "applied = array_as_record applied_rows"
    and r: "reaches_reconciler ev c d w ms applied_rows" by simp_all
  note run = run_reconcile [OF r, of config]
  show "attempted (snd (runMigrations ev c d config w)) = attempted w"
    using e a
    by (cases "validateMigrations ms applied")
       (simp_all add: run Let_def finally_frame reconciler_world_frame logResult_def)
  show "db (snd (runMigrations ev c d config w)) = db w"
    using e a
    by (cases "validateMigrations ms applied")
       (simp_all add: run Let_def finally_frame reconciler_world_frame logResult_def)
  assume "validateMigrations ms applied = Inr ()"
  then show "fst (runMigrations ev c d config w) = Inr []"
    using e a by (simp add: run Let_def)
next
  assume "reaches_reconciler ev c d w ms applied_rows \<and>
       fst (runMigrations ev c d config w) = Inr completed \<and>
       map row_id applied_rows = map int [0..<length applied_rows] \<and>
       (ledger_kind (table_name_text c) (db w) = None \<or>
        ledger_kind (table_name_text c) (db w) = Some (CHR ''r'')) \<and>
       plain_identifier (table_name_text c)"
  then have r: "reaches_reconciler ev c d w ms applied_rows"
    and ok: "fst (runMigrations ev c d config w) = Inr completed"
    and dense: "map row_id applied_rows = map int [0..<length applied_rows]"
    and kind: "ledger_kind (table_name_text c) (db w) = None \<or>
               ledger_kind (table_name_text c) (db w) = Some (CHR ''r'')"
    and plain: "plain_identifier (table_name_text c)"
    by blast+
  show "completed = drop (length applied_rows) ms"
    by (rule rerun_after_success(1) [OF r ok dense kind plain])
  show "fst (runMigrations ev c d config' (snd (runMigrations ev c d config w))) = Inr []"
    by (rule rerun_after_success(2) [OF r ok dense kind plain])
  show "attempted (snd (runMigrations ev c d config' (snd (runMigrations ev c d config w))))
           = attempted (snd (runMigrations ev c d config w))"
    by (rule rerun_after_success(3) [OF r ok dense kind plain])
qed


theorem C3_pending_delta_witness:
  "length [bootstrap_unit, unit_a] = 2 \<and>
   mid ([bootstrap_unit, unit_a] ! 0) = int 0 \<and> mid ([bootstrap_unit, unit_a] ! 1) = int 1 \<and>
   filterMigrations [bootstrap_unit, unit_a] (array_as_record [row_of bootstrap_unit]) = [unit_a] \<and>
   map mid [bootstrap_unit, unit_a] = [0, 1] \<and>
   dom (array_as_record (map row_of [bootstrap_unit, unit_a])) = {0, 1} \<and>
   reaches_reconciler (example_env [(''1_a.sql'', ''A'')] None None) example_config ''/m''
     (world_with (map row_of [bootstrap_unit, unit_a])) [bootstrap_unit, unit_a]
     (map row_of [bootstrap_unit, unit_a]) \<and>
   validateMigrations [bootstrap_unit, unit_a]
     (array_as_record (map row_of [bootstrap_unit, unit_a])) = Inr () \<and>
   filterMigrations [bootstrap_unit, unit_a]
     (array_as_record (map row_of [bootstrap_unit, unit_a])) = [] \<and>
   fst (runMigrations (example_env [(''1_a.sql'', ''A'')] None None) example_config ''/m'' None
          (world_with (map row_of [bootstrap_unit, unit_a]))) = Inr [] \<and>
   attempted (snd (runMigrations (example_env [(''1_a.sql'', ''A'')] None None) example_config
                     ''/m'' None (world_with (map row_of [bootstrap_unit, unit_a])))) = [] \<and>
   reaches_reconciler (example_env [(''1_a.sql'', ''A'')] None None) example_config ''/m''
     (world_with [row_of bootstrap_unit]) [bootstrap_unit, unit_a] [row_of bootstrap_unit] \<and>
   fst (runMigrations (example_env [(''1_a.sql'', ''A'')] None None) example_config ''/m'' None
          (world_with [row_of bootstrap_unit])) = Inr [unit_a] \<and>
   map row_id [row_of bootstrap_unit] = map int [0..<length [row_of bootstrap_unit]] \<and>
   ledger_kind (table_name_text example_config) (db (world_with [row_of bootstrap_unit]))
     = Some (CHR ''r'') \<and>
   plain_identifier (table_name_text example_config) \<and>
   fst (runMigrations (example_env [(''1_a.sql'', ''A'')] None None) example_config ''/m'' None
          (snd (runMigrations (example_env [(''1_a.sql'', ''A'')] None None) example_config ''/m''
                  None (world_with [row_of bootstrap_unit])))) = Inr [] \<and>
   attempted (snd (runMigrations (example_env [(''1_a.sql'', ''A'')] None None) example_config
                     ''/m'' None
                     (snd (runMigrations (example_env [(''1_a.sql'', ''A'')] None None)
                             example_config ''/m'' None (world_with [row_of bootstrap_unit])))))
     = [unit_a]"
proof -
  let ?ms = "[bootstrap_unit, unit_a]"
  let ?ev = "example_env [(''1_a.sql'', ''A'')] None None"
  let ?rows = "map row_of ?ms"
  let ?w = "world_with ?rows"
  let ?p = "world_with [row_of bootstrap_unit]"
  let ?run = "runMigrations ?ev example_config ''/m'' None ?p"
  have facts: "length ?ms = 2" "mid (?ms ! 0) = int 0" "mid (?ms ! 1) = int 1"
    "map mid ?ms = [0, 1]"
    by (simp_all add: bootstrap_unit_def unit_a_def)
  have d: "dom (array_as_record ?rows) = {0, 1}"
    by (auto simp: array_as_record_def dom_def split: if_splits)
  have r: "reaches_reconciler ?ev example_config ''/m'' ?w ?ms ?rows"
    by code_simp
  have v: "validateMigrations ?ms (array_as_record ?rows) = Inr ()"
    by code_simp
  have all: "\<forall>m\<in>set ?ms. mid m \<in> dom (array_as_record ?rows)"
    unfolding d by (simp add: bootstrap_unit_def unit_a_def)
  have at: "attempted ?w = []"
    by (simp add: attempted_def world_with_def List.map_filter_def)
  from C3_pending_delta [of ?ms "array_as_record [row_of bootstrap_unit]"] ex_ids
  have c1: "filterMigrations ?ms (array_as_record [row_of bootstrap_unit])
              = filter (\<lambda>m. array_as_record [row_of bootstrap_unit] (mid m) = None) ?ms"
    by blast
  have c1': "filterMigrations ?ms (array_as_record [row_of bootstrap_unit]) = [unit_a]"
    unfolding c1 by (simp add: array_as_record_def bootstrap_unit_def unit_a_def)
  from C3_pending_delta [of ?ms "array_as_record ?rows" ?rows ?ev example_config "''/m''" ?w None]
       ex_ids all r v
  have c2: "filterMigrations ?ms (array_as_record ?rows) = [] \<and>
            fst (runMigrations ?ev example_config ''/m'' None ?w) = Inr [] \<and>
            attempted (snd (runMigrations ?ev example_config ''/m'' None ?w)) = []"
    unfolding at by blast
  have t: "table_name_text example_config = ''migrations''"
    by (simp add: table_name_text_def example_config_def)
  have rp: "reaches_reconciler ?ev example_config ''/m'' ?p ?ms [row_of bootstrap_unit]"
    by code_simp
  have ok: "fst ?run = Inr [unit_a]" by code_simp
  have dn: "map row_id [row_of bootstrap_unit] = map int [0..<length [row_of bootstrap_unit]]"
    by (simp add: row_of_def bootstrap_unit_def)
  have k: "ledger_kind (table_name_text example_config) (db ?p) = Some (CHR ''r'')"
    unfolding t by code_simp
  have pl: "plain_identifier (table_name_text example_config)" unfolding t by code_simp
  have a1: "attempted (snd ?run) = [unit_a]" by code_simp
  from C3_pending_delta [where ev = ?ev and c = example_config and d = "''/m''" and w = ?p and ms = ?ms
               and applied_rows = "[row_of bootstrap_unit]" and config = None
               and completed = "[unit_a]" and config' = None]
       rp ok dn k pl
  have c3: "fst (runMigrations ?ev example_config ''/m'' None (snd ?run)) = Inr [] \<and>
            attempted (snd (runMigrations ?ev example_config ''/m'' None (snd ?run)))
              = attempted (snd ?run)"
    by blast
  show ?thesis using facts d r v c1' c2 rp ok dn k pl c3 unfolding a1 by blast
qed

text \<open>
  C4. When the first \<open>k\<close> pending units have been applied and applying the unit at
  position \<open>k\<close> fails, the loop ends with that failure: the executor has been called on
  the first \<open>k + 1\<close> units and on no later one, and the ledger rows and the bodies of the
  first \<open>k\<close> units are still in the database. When this happens in a run that has reached
  the loop, in the world in which the reconciler runs, the run fails with the error
  whose message is \<^verbatim>\<open>Migration failed. Reason: \<close> followed by the message of the error
  that \<open>runMigration\<close> raised and whose cause is that error; the database is the one the
  failed call left. A run that reaches the loop returns either all pending units, each
  applied, or the error so built from the failure of \<open>runMigration\<close> on some pending
  unit, the units before it having been applied. Every run returns either a list of
  units, all of them applied in this run, or the error so built from the error that the
  \<^verbatim>\<open>try\<close> block raised.
\<close>

theorem C4_fail_fast:
  "(k < length pending \<and> apply_loop ev t (take k pending) [] w = (Inr cs, wk) \<and>
    runMigration ev t (pending ! k) wk = (Inl e, wx) \<longrightarrow>
      apply_loop ev t pending [] w = (Inl e, wx) \<and>
      attempted wx = attempted w @ take (Suc k) pending \<and>
      ledger_rows t (db wx) = ledger_rows t (db w) @ map row_of (take k pending) \<and>
      prefix (executed (db w) @ map sql (take k pending)) (executed (db wx)))
   \<and> (reaches_reconciler ev c d w0 ms applied_rows \<and>
       validateMigrations ms (array_as_record applied_rows) = Inr () \<and>
       n < length (filterMigrations ms (array_as_record applied_rows)) \<and>
       apply_loop ev (table_name_text c)
         (take n (filterMigrations ms (array_as_record applied_rows))) []
         (reconciler_world ev c d (case config of None \<Rightarrow> \<lparr>logger = False\<rparr> | Some x \<Rightarrow> x)
            (log (case config of None \<Rightarrow> \<lparr>logger = False\<rparr> | Some x \<Rightarrow> x)
               ''Attempting database migration'' w0))
         = (Inr cs', wn) \<and>
       runMigration ev (table_name_text c)
         (filterMigrations ms (array_as_record applied_rows) ! n) wn = (Inl err, wy) \<longrightarrow>
         fst (runMigrations ev c d config w0)
           = Inl (Error (''Migration failed. Reason: '' @ message err) (Some err)) \<and>
         db (snd (runMigrations ev c d config w0)) = db wy \<and>
         attempted (snd (runMigrations ev c d config w0))
           = attempted w0 @ take (Suc n) (filterMigrations ms (array_as_record applied_rows)) \<and>
         ledger_rows (table_name_text c) (db (snd (runMigrations ev c d config w0)))
           = ledger_rows (table_name_text c) (db w0)
             @ map row_of (take n (filterMigrations ms (array_as_record applied_rows))))
   \<and> (reaches_reconciler ev c d w0 ms applied_rows \<and>
       validateMigrations ms (array_as_record applied_rows) = Inr () \<longrightarrow>
         (fst (runMigrations ev c d config w0) = Inr (filterMigrations ms (array_as_record applied_rows)) \<and>
          attempted (snd (runMigrations ev c d config w0))
            = attempted w0 @ filterMigrations ms (array_as_record applied_rows))
         \<or> (\<exists>x i wi wj. i < length (filterMigrations ms (array_as_record applied_rows)) \<and>
               apply_loop ev (table_name_text c)
                 (take i (filterMigrations ms (array_as_record applied_rows))) []
                 (reconciler_world ev c d (case config of None \<Rightarrow> \<lparr>logger = False\<rparr> | Some x \<Rightarrow> x)
                    (log (case config of None \<Rightarrow> \<lparr>logger = False\<rparr> | Some x \<Rightarrow> x)
                       ''Attempting database migration'' w0))
                 = (Inr (take i (filterMigrations ms (array_as_record applied_rows))), wi) \<and>
               runMigration ev (table_name_text c)
                 (filterMigrations ms (array_as_record applied_rows) ! i) wi = (Inl x, wj) \<and>
               fst (runMigrations ev c d config w0)
                 = Inl (Error (''Migration failed. Reason: '' @ message x) (Some x)) \<and>
               attempted (snd (runMigrations ev c d config w0))
                 = attempted w0 @ take (Suc i) (filterMigrations ms (array_as_record applied_rows)) \<and>
               ledger_rows (table_name_text c) (db (snd (runMigrations ev c d config w0)))
                 = ledger_rows (table_name_text c) (db w0)
                   @ map row_of (take i (filterMigrations ms (array_as_record applied_rows)))))
   \<and> ((\<exists>completed. fst (runMigrations ev c d config w0) = Inr completed \<and>
          attempted (snd (runMigrations ev c d config w0)) = attempted w0 @ completed)
        \<or> (\<exists>x wj. try_block ev c d (case config of None \<Rightarrow> \<lparr>logger = False\<rparr> | Some x \<Rightarrow> x)
                     (log (case config of None \<Rightarrow> \<lparr>logger = False\<rparr> | Some x \<Rightarrow> x)
                        ''Attempting database migration'' w0) = (Inl x, wj) \<and>
                   fst (runMigrations ev c d config w0)
                     = Inl (Error (''Migration failed. Reason: '' @ message x) (Some x))))"
proof (intro conjI impI)
  assume a: "k < length pending \<and> apply_loop ev t (take k pending) [] w = (Inr cs, wk) \<and>
             runMigration ev t (pending ! k) wk = (Inl e, wx)"
  then have k: "k < length pending"
    and pre: "apply_loop ev t (take k pending) [] w = (Inr cs, wk)"
    and f: "runMigration ev t (pending ! k) wk = (Inl e, wx)" by simp_all
  show "apply_loop ev t pending [] w = (Inl e, wx)" by (rule loop_fail_fast(1) [OF k pre f])
  show "attempted wx = attempted w @ take (Suc k) pending" by (rule loop_fail_fast(2) [OF k pre f])
  show "ledger_rows t (db wx) = ledger_rows t (db w) @ map row_of (take k pending)"
    by (rule loop_fail_fast(3) [OF k pre f])
  show "prefix (executed (db w) @ map sql (take k pending)) (executed (db wx))"
    by (rule loop_fail_fast(4) [OF k pre f])
next
  let ?run = "runMigrations ev c d config w0"
  let ?pending = "filterMigrations ms (array_as_record applied_rows)"
  let ?lg = "case config of None \<Rightarrow> \<lparr>logger = False\<rparr> | Some x \<Rightarrow> x"
  let ?w3 = "reconciler_world ev c d ?lg (log ?lg ''Attempting database migration'' w0)"
  let ?t = "table_name_text c"
  assume "reaches_reconciler ev c d w0 ms applied_rows \<and>
       validateMigrations ms (array_as_record applied_rows) = Inr () \<and>
       n < length ?pending \<and>
       apply_loop ev ?t (take n ?pending) [] ?w3 = (Inr cs', wn) \<and>
       runMigration ev ?t (?pending ! n) wn = (Inl err, wy)"
  then have r: "reaches_reconciler ev c d w0 ms applied_rows"
    and v: "validateMigrations ms (array_as_record applied_rows) = Inr ()"
    and n: "n < length ?pending"
    and pre: "apply_loop ev ?t (take n ?pending) [] ?w3 = (Inr cs', wn)"
    and f: "runMigration ev ?t (?pending ! n) wn = (Inl err, wy)" by simp_all
  note run = run_reconcile [OF r, of config]
  have w3: "db ?w3 = db w0" "attempted ?w3 = attempted w0"
    by (simp_all add: reconciler_world_frame)
  note ff = loop_fail_fast [OF n pre f]
  have res: "?run = (Inl (MigrationRunError err), finally_block ev ?lg wy)"
    by (simp add: run Let_def v ff(1))
  show "fst ?run = Inl (Error (''Migration failed. Reason: '' @ message err) (Some err))"
    by (simp add: res MigrationRunError_def)
  show "db (snd ?run) = db wy"
    by (simp add: res finally_frame)
  show "attempted (snd ?run) = attempted w0 @ take (Suc n) ?pending"
    using ff(2) w3 by (simp add: res finally_frame)
  show "ledger_rows ?t (db (snd ?run)) = ledger_rows ?t (db w0) @ map row_of (take n ?pending)"
    using ff(3) w3 by (simp add: res finally_frame)
next
  let ?run = "runMigrations ev c d config w0"
  let ?pending = "filterMigrations ms (array_as_record applied_rows)"
  let ?lg = "case config of None \<Rightarrow> \<lparr>logger = False\<rparr> | Some x \<Rightarrow> x"
  let ?w3 = "reconciler_world ev c d ?lg (log ?lg ''Attempting database migration'' w0)"
  let ?t = "table_name_text c"
  assume "reaches_reconciler ev c d w0 ms applied_rows \<and>
          validateMigrations ms (array_as_record applied_rows) = Inr ()"
  then have r: "reaches_reconciler ev c d w0 ms applied_rows"
    and v: "validateMigrations ms (array_as_record applied_rows) = Inr ()" by simp_all
  note run = run_reconcile [OF r, of config]
  have w3: "db ?w3 = db w0" "attempted ?w3 = attempted w0"
    by (simp_all add: reconciler_world_frame)
  obtain res w4 where L: "apply_loop ev ?t ?pending [] ?w3 = (res, w4)"
    by (cases "apply_loop ev ?t ?pending [] ?w3")
  show "(fst ?run = Inr ?pending \<and> attempted (snd ?run) = attempted w0 @ ?pending)
        \<or> (\<exists>x i wi wj. i < length ?pending \<and>
               apply_loop ev ?t (take i ?pending) [] ?w3 = (Inr (take i ?pending), wi) \<and>
               runMigration ev ?t (?pending ! i) wi = (Inl x, wj) \<and>
               fst ?run = Inl (Error (''Migration failed. Reason: '' @ message x) (Some x)) \<and>
               attempted (snd ?run) = attempted w0 @ take (Suc i) ?pending \<and>
               ledger_rows ?t (db (snd ?run)) = ledger_rows ?t (db w0) @ map row_of (take i ?pending))"
  proof (cases res)
    case (Inr completed)
    with L have L': "apply_loop ev ?t ?pending [] ?w3 = (Inr completed, w4)" by simp
    note s = apply_loop_success [OF L']
    have "fst ?run = Inr ?pending \<and> attempted (snd ?run) = attempted w0 @ ?pending"
      using s w3 by (simp add: run Let_def v L' finally_frame logResult_frame)
    then show ?thesis by blast
  next
    case (Inl x)
    with L have L': "apply_loop ev ?t ?pending [] ?w3 = (Inl x, w4)" by simp
    from apply_loop_failure [OF L'] obtain i wi where i: "i < length ?pending"
      and pre: "apply_loop ev ?t (take i ?pending) [] ?w3 = (Inr ([] @ take i ?pending), wi)"
      and f: "runMigration ev ?t (?pending ! i) wi = (Inl x, w4)" by blast
    note ff = loop_fail_fast [OF i pre f]
    have pre': "apply_loop ev ?t (take i ?pending) [] ?w3 = (Inr (take i ?pending), wi)"
      using pre by simp
    have "fst ?run = Inl (Error (''Migration failed. Reason: '' @ message x) (Some x)) \<and>
          attempted (snd ?run) = attempted w0 @ take (Suc i) ?pending \<and>
          ledger_rows ?t (db (snd ?run)) = ledger_rows ?t (db w0) @ map row_of (take i ?pending)"
      using ff(2,3) w3 by (simp add: run Let_def v L' finally_frame MigrationRunError_def)
    with i pre' f show ?thesis by blast
  qed
next
  let ?run = "runMigrations ev c d config w0"
  let ?lg = "case config of None \<Rightarrow> \<lparr>logger = False\<rparr> | Some x \<Rightarrow> x"
  let ?w = "log ?lg ''Attempting database migration'' w0"
  obtain res w1 where T: "try_block ev c d ?lg ?w = (res, w1)"
    by (cases "try_block ev c d ?lg ?w")
  show "(\<exists>completed. fst ?run = Inr completed \<and> attempted (snd ?run) = attempted w0 @ completed)
        \<or> (\<exists>x wj. try_block ev c d ?lg ?w = (Inl x, wj) \<and>
                   fst ?run = Inl (Error (''Migration failed. Reason: '' @ message x) (Some x)))"
  proof (cases res)
    case (Inl x)
    with T have T': "try_block ev c d ?lg ?w = (Inl x, w1)" by simp
    then have "fst ?run = Inl (Error (''Migration failed. Reason: '' @ message x) (Some x))"
      by (simp add: runMigrations_def Let_def MigrationRunError_def)
    with T' show ?thesis by blast
  next
    case (Inr completed)
    with T have T': "try_block ev c d ?lg ?w = (Inr completed, w1)" by simp
    have "attempted w1 = attempted w0 @ completed"
      using try_block_success [OF T'] by simp
    with T' show ?thesis by (simp add: runMigrations_def Let_def finally_frame)
  qed
qed


theorem C4_fail_fast_witness:
  "2 < length four_units \<and>
   fst (apply_loop failing_env ''migrations'' (take 2 four_units) [] fresh_world)
     = Inr [bootstrap_unit, unit_a] \<and>
   fst (runMigration failing_env ''migrations'' (four_units ! 2)
          (snd (apply_loop failing_env ''migrations'' (take 2 four_units) [] fresh_world)))
     = Inl (Error ''_f.sql: syntax error'' (Some (Error ''syntax error'' None))) \<and>
   fst (apply_loop failing_env ''migrations'' four_units [] fresh_world)
     = Inl (Error ''_f.sql: syntax error'' (Some (Error ''syntax error'' None))) \<and>
   attempted (snd (apply_loop failing_env ''migrations'' four_units [] fresh_world))
     = [bootstrap_unit, unit_a, unit_f] \<and>
   ledger_rows ''migrations'' (db (snd (apply_loop failing_env ''migrations'' four_units [] fresh_world)))
     = [row_of bootstrap_unit, row_of unit_a] \<and>
   reaches_reconciler failing_env example_config ''/m'' fresh_world four_units [] \<and>
   validateMigrations four_units (array_as_record []) = Inr () \<and>
   filterMigrations four_units (array_as_record []) = four_units \<and>
   fst (apply_loop failing_env ''migrations'' (take 2 four_units) []
          (reconciler_world failing_env example_config ''/m'' \<lparr>logger = False\<rparr>
             (log \<lparr>logger = False\<rparr> ''Attempting database migration'' fresh_world)))
     = Inr [bootstrap_unit, unit_a] \<and>
   fst (runMigration failing_env ''migrations'' (four_units ! 2)
          (snd (apply_loop failing_env ''migrations'' (take 2 four_units) []
                  (reconciler_world failing_env example_config ''/m'' \<lparr>logger = False\<rparr>
                     (log \<lparr>logger = False\<rparr> ''Attempting database migration'' fresh_world)))))
     = Inl (Error ''_f.sql: syntax error'' (Some (Error ''syntax error'' None))) \<and>
   fst (runMigrations failing_env example_config ''/m'' None fresh_world)
     = Inl (Error ''Migration failed. Reason: _f.sql: syntax error''
              (Some (Error ''_f.sql: syntax error'' (Some (Error ''syntax error'' None))))) \<and>
   attempted (snd (runMigrations failing_env example_config ''/m'' None fresh_world))
     = [bootstrap_unit, unit_a, unit_f] \<and>
   ledger_rows ''migrations'' (db (snd (runMigrations failing_env example_config ''/m'' None fresh_world)))
     = [row_of bootstrap_unit, row_of unit_a]"
proof -
  let ?err = "Error ''_f.sql: syntax error'' (Some (Error ''syntax error'' None))"
  let ?pre = "apply_loop failing_env ''migrations'' (take 2 four_units) [] fresh_world"
  let ?step = "runMigration failing_env ''migrations'' (four_units ! 2) (snd ?pre)"
  let ?all = "apply_loop failing_env ''migrations'' four_units [] fresh_world"
  let ?w3 = "reconciler_world failing_env example_config ''/m'' \<lparr>logger = False\<rparr>
               (log \<lparr>logger = False\<rparr> ''Attempting database migration'' fresh_world)"
  let ?rpre = "apply_loop failing_env ''migrations'' (take 2 four_units) [] ?w3"
  let ?rstep = "runMigration failing_env ''migrations'' (four_units ! 2) (snd ?rpre)"
  let ?run = "runMigrations failing_env example_config ''/m'' None fresh_world"
  have k: "2 < length four_units" by (simp add: four_units_def)
  have h1: "fst ?pre = Inr [bootstrap_unit, unit_a]" by code_simp
  have h2: "fst ?step = Inl ?err" by code_simp
  have p1: "?pre = (Inr [bootstrap_unit, unit_a], snd ?pre)"
    using h1 by (simp add: prod_eq_iff)
  have p2: "?step = (Inl ?err, snd ?step)"
    using h2 by (simp add: prod_eq_iff)
  have r: "reaches_reconciler failing_env example_config ''/m'' fresh_world four_units []"
    by code_simp
  have v: "validateMigrations four_units (array_as_record []) = Inr ()"
    by code_simp
  have pd: "filterMigrations four_units (array_as_record []) = four_units"
    by (simp add: filterMigrations_def notAppliedMigration_def array_as_record_def)
  have tn: "table_name_text example_config = ''migrations''"
    by (simp add: table_name_text_def example_config_def)
  have g1: "fst ?rpre = Inr [bootstrap_unit, unit_a]" by code_simp
  have g2: "fst ?rstep = Inl ?err" by code_simp
  have q1: "?rpre = (Inr [bootstrap_unit, unit_a], snd ?rpre)"
    using g1 by (simp add: prod_eq_iff)
  have q2: "?rstep = (Inl ?err, snd ?rstep)"
    using g2 by (simp add: prod_eq_iff)
  have e: "attempted fresh_world @ take (Suc 2) four_units = [bootstrap_unit, unit_a, unit_f]"
          "ledger_rows ''migrations'' (db fresh_world) @ map row_of (take 2 four_units)
             = [row_of bootstrap_unit, row_of unit_a]"
    by (simp_all add: four_units_def attempted_def fresh_world_def List.map_filter_def
          ledger_rows_def resolve_table_def numeral_2_eq_2)
  note inst = C4_fail_fast [where k = 2 and pending = four_units and ev = failing_env
      and t = "''migrations''" and w = fresh_world and cs = "[bootstrap_unit, unit_a]"
      and wk = "snd ?pre" and e = ?err and wx = "snd ?step"
      and c = example_config and d = "''/m''" and ?w0.0 = fresh_world and ms = four_units
      and applied_rows = "[]" and config = None and n = 2 and cs' = "[bootstrap_unit, unit_a]"
      and wn = "snd ?rpre" and err = ?err and wy = "snd ?rstep",
      unfolded option.case pd tn]
  from inst k p1 p2
  have c: "?all = (Inl ?err, snd ?step) \<and>
           attempted (snd ?step) = attempted fresh_world @ take (Suc 2) four_units \<and>
           ledger_rows ''migrations'' (db (snd ?step))
             = ledger_rows ''migrations'' (db fresh_world) @ map row_of (take 2 four_units)"
    by blast
  have c': "fst ?all = Inl ?err \<and> attempted (snd ?all) = [bootstrap_unit, unit_a, unit_f] \<and>
            ledger_rows ''migrations'' (db (snd ?all)) = [row_of bootstrap_unit, row_of unit_a]"
    using c unfolding e by simp
  from inst r v k q1 q2
  have rr: "fst ?run = Inl (Error (''Migration failed. Reason: '' @ message ?err) (Some ?err)) \<and>
            attempted (snd ?run) = attempted fresh_world @ take (Suc 2) four_units \<and>
            ledger_rows ''migrations'' (db (snd ?run))
              = ledger_rows ''migrations'' (db fresh_world) @ map row_of (take 2 four_units)"
    by blast
  have rr': "fst ?run = Inl (Error ''Migration failed. Reason: _f.sql: syntax error'' (Some ?err)) \<and>
            attempted (snd ?run) = [bootstrap_unit, unit_a, unit_f] \<and>
            ledger_rows ''migrations'' (db (snd ?run)) = [row_of bootstrap_unit, row_of unit_a]"
    using rr unfolding e by simp
  show ?thesis using k h1 h2 c' r v pd g1 g2 rr' by blast
qed

text \<open>
  C5. When the directory can be read and its recognized files load to \<open>units\<close>, \<open>load\<close>
  returns the units and the bootstrap unit, sorted ascending by id. The bootstrap unit
  has id 0, the name \<^verbatim>\<open>_create-migrations-table.sql\<close>, the file name
  \<^verbatim>\<open>0_create-migrations-table.sql\<close>, the digest of file name and body as hash, and as
  body the statement \<^verbatim>\<open>CREATE TABLE IF NOT EXISTS\<close> of the configured table name in
  double quotes (\<^verbatim>\<open>undefined\<close> when none is configured) with the columns \<^verbatim>\<open>id\<close>, \<^verbatim>\<open>name\<close>,
  \<^verbatim>\<open>hash\<close> and \<^verbatim>\<open>executed_at\<close>, a text that depends on nothing else. For an empty
  directory \<open>load\<close> returns the bootstrap unit alone, and a run on a database without a
  relation of the table's name, where the session opens and the server accepts the body,
  applies and returns exactly this unit: the statement sent to the server is that body,
  the table name then resolves to an ordinary table, and the row of the bootstrap unit
  is the only row of the ledger.
\<close>

theorem C5_set_loader:
  "(readDir ev directory = Inr (Some fs) \<and>
    load_all (loadMigrationFile ev) (filter isValidFile (map (path_resolve ev directory) fs))
      = Inr units \<longrightarrow>
      (\<exists>loaded. fst (load ev lg directory config w) = Inr loaded \<and>
         mset loaded = mset units + {#bootstrap_of ev config#} \<and>
         sorted (map mid loaded)))
   \<and> mid (bootstrap_of ev config) = 0
   \<and> name (bootstrap_of ev config) = ''_create-migrations-table.sql''
   \<and> fileName (bootstrap_of ev config) = ''0_create-migrations-table.sql''
   \<and> sql (bootstrap_of ev config) =
       ''CREATE TABLE IF NOT EXISTS \"'' @ (case tableName config of None \<Rightarrow> ''undefined'' | Some x \<Rightarrow> x)
         @ ''\" (\<newline>      id integer PRIMARY KEY,\<newline>      name varchar(100) UNIQUE NOT NULL,\<newline>      hash varchar(40) NOT NULL, -- sha1 hex encoded hash of the file name and contents, to ensure it hasn't been altered since applying the migration\<newline>      executed_at timestamp DEFAULT current_timestamp\<newline>    );\<newline>    ''
   \<and> hash (bootstrap_of ev config) =
       digest ev (''0_create-migrations-table.sql'' @ sql (bootstrap_of ev config))
   \<and> (readDir ev directory = Inr (Some []) \<longrightarrow>
        fst (load ev lg directory config w) = Inr [bootstrap_of ev config] \<and>
        (connect_error ev = None \<and>
         t = (case tableName config of None \<Rightarrow> ''undefined'' | Some x \<Rightarrow> x) \<and>
         plain_identifier t \<and> no_relation_named t (db w) \<and>
         body_error ev
           (''CREATE TABLE IF NOT EXISTS \"'' @ t
         @ ''\" (\<newline>      id integer PRIMARY KEY,\<newline>      name varchar(100) UNIQUE NOT NULL,\<newline>      hash varchar(40) NOT NULL, -- sha1 hex encoded hash of the file name and contents, to ensure it hasn't been altered since applying the migration\<newline>      executed_at timestamp DEFAULT current_timestamp\<newline>    );\<newline>    '') = None \<longrightarrow>
           fst (runMigrations ev config directory cfg w) = Inr [bootstrap_of ev config] \<and>
           attempted (snd (runMigrations ev config directory cfg w))
             = attempted w @ [bootstrap_of ev config] \<and>
           executed (db (snd (runMigrations ev config directory cfg w)))
             = executed (db w) @
               [''CREATE TABLE IF NOT EXISTS \"'' @ t
         @ ''\" (\<newline>      id integer PRIMARY KEY,\<newline>      name varchar(100) UNIQUE NOT NULL,\<newline>      hash varchar(40) NOT NULL, -- sha1 hex encoded hash of the file name and contents, to ensure it hasn't been altered since applying the migration\<newline>      executed_at timestamp DEFAULT current_timestamp\<newline>    );\<newline>    ''] \<and>
           ledger_kind t (db (snd (runMigrations ev config directory cfg w))) = Some (CHR ''r'') \<and>
           ledger_rows t (db (snd (runMigrations ev config directory cfg w)))
             = [\<lparr>row_id = 0, row_name = ''_create-migrations-table.sql'',
                 row_hash = hash (bootstrap_of ev config)\<rparr>]))"
proof (intro conjI impI)
  assume "readDir ev directory = Inr (Some fs) \<and>
    load_all (loadMigrationFile ev) (filter isValidFile (map (path_resolve ev directory) fs)) = Inr units"
  then have "fst (load ev lg directory config w) = Inr (sort_key mid (units @ [bootstrap_of ev config]))"
    by (intro load_result) blast+
  then show "\<exists>loaded. fst (load ev lg directory config w) = Inr loaded \<and>
         mset loaded = mset units + {#bootstrap_of ev config#} \<and> sorted (map mid loaded)"
    by simp
next
  show "mid (bootstrap_of ev config) = 0" by (simp add: bootstrap_of_def)
  show "name (bootstrap_of ev config) = ''_create-migrations-table.sql''" by (simp add: bootstrap_of_def)
  show "fileName (bootstrap_of ev config) = ''0_create-migrations-table.sql''"
    by (simp add: bootstrap_of_def bootstrap_file_def)
  show "sql (bootstrap_of ev config) =
       ''CREATE TABLE IF NOT EXISTS \"'' @ (case tableName config of None \<Rightarrow> ''undefined'' | Some x \<Rightarrow> x)
         @ ''\" (\<newline>      id integer PRIMARY KEY,\<newline>      name varchar(100) UNIQUE NOT NULL,\<newline>      hash varchar(40) NOT NULL, -- sha1 hex encoded hash of the file name and contents, to ensure it hasn't been altered since applying the migration\<newline>      executed_at timestamp DEFAULT current_timestamp\<newline>    );\<newline>    ''"
    by (simp add: bootstrap_of_def bootstrap_sql_def create_table_prefix_def table_name_text_def)
  show "hash (bootstrap_of ev config) =
       digest ev (''0_create-migrations-table.sql'' @ sql (bootstrap_of ev config))"
    by (simp add: bootstrap_of_def bootstrap_file_def)
next
  let ?b = "bootstrap_of ev config"
  let ?t = "table_name_text config"
  let ?run = "runMigrations ev config directory cfg w"
  assume rd: "readDir ev directory = Inr (Some [])"
  have l: "fst (load ev lg' directory config w') = Inr [?b]" for lg' w'
    using load_result [of ev directory "[]" "[]" lg' config w'] rd by simp
  show "fst (load ev lg directory config w) = Inr [?b]" by (rule l)
  assume asm: "connect_error ev = None \<and>
         t = (case tableName config of None \<Rightarrow> ''undefined'' | Some x \<Rightarrow> x) \<and>
         plain_identifier t \<and> no_relation_named t (db w) \<and>
         body_error ev
           (''CREATE TABLE IF NOT EXISTS \"'' @ t
         @ ''\" (\<newline>      id integer PRIMARY KEY,\<newline>      name varchar(100) UNIQUE NOT NULL,\<newline>      hash varchar(40) NOT NULL, -- sha1 hex encoded hash of the file name and contents, to ensure it hasn't been altered since applying the migration\<newline>      executed_at timestamp DEFAULT current_timestamp\<newline>    );\<newline>    '') = None"
  have bd: "''CREATE TABLE IF NOT EXISTS \"'' @ t
         @ ''\" (\<newline>      id integer PRIMARY KEY,\<newline>      name varchar(100) UNIQUE NOT NULL,\<newline>      hash varchar(40) NOT NULL, -- sha1 hex encoded hash of the file name and contents, to ensure it hasn't been altered since applying the migration\<newline>      executed_at timestamp DEFAULT current_timestamp\<newline>    );\<newline>    '' = bootstrap_sql t"
    by (simp add: bootstrap_sql_def create_table_prefix_def)
  from asm have ce: "connect_error ev = None" by (rule conjunct1)
  from asm have t: "t = ?t" unfolding table_name_text_def by (elim conjE)
  from asm have pl: "plain_identifier ?t" unfolding t [symmetric] by (elim conjE)
  from asm have nr: "no_relation_named ?t (db w)" unfolding t [symmetric] by (elim conjE)
  from asm have be: "body_error ev (bootstrap_sql ?t) = None"
    unfolding bd unfolding t [symmetric] by (elim conjE)
  have body: "''CREATE TABLE IF NOT EXISTS \"'' @ t
         @ ''\" (\<newline>      id integer PRIMARY KEY,\<newline>      name varchar(100) UNIQUE NOT NULL,\<newline>      hash varchar(40) NOT NULL, -- sha1 hex encoded hash of the file name and contents, to ensure it hasn't been altered since applying the migration\<newline>      executed_at timestamp DEFAULT current_timestamp\<newline>    );\<newline>    '' = bootstrap_sql ?t"
    unfolding bd by (simp add: t)
  note ch = plain_identifier_chars [OF pl]
  have r: "reaches_reconciler ev config directory w [?b] []"
    using ce l nr by (simp add: reaches_reconciler_def no_relation_fetch)
  note run = run_reconcile [OF r, of cfg]
  let ?lg = "case cfg of None \<Rightarrow> \<lparr>logger = False\<rparr> | Some x \<Rightarrow> x"
  let ?w3 = "reconciler_world ev config directory ?lg (log ?lg ''Attempting database migration'' w)"
  have w3: "db ?w3 = db w" "attempted ?w3 = attempted w" by (simp_all add: reconciler_world_frame)
  have f: "filterMigrations [?b] (array_as_record []) = [?b]"
    by (simp add: filterMigrations_def notAppliedMigration_def array_as_record_def)
  have none: "resolve_table ?t (db w) = None"
    using nr ch(1) no_relation_resolve [of ?t "db w"] by simp
  have lr: "ledger_rows ?t (db ?w3) = []" using none w3 by (simp add: ledger_rows_def)
  have lk: "ledger_kind ?t (db ?w3) = None" using none w3 by (simp add: ledger_kind_def)
  have "\<exists>w'. runMigration ev ?t ?b ?w3 = (Inr ?b, w')"
  proof (rule runMigration_ok)
    show "body_error ev (sql ?b) = None" using be by (simp add: bootstrap_of_def)
    show "resolve_table ?t (db ?w3) \<noteq> None \<or> create_target (sql ?b) = Some (map to_lower ?t)"
      using create_target_bootstrap [OF ch(2)] ch(1) by (simp add: bootstrap_of_def)
    show "mid ?b \<notin> row_id ` set (ledger_rows ?t (db ?w3))" using lr by simp
    show "name ?b \<notin> row_name ` set (ledger_rows ?t (db ?w3))" using lr by simp
  qed
  then obtain w4 where s: "runMigration ev ?t ?b ?w3 = (Inr ?b, w4)" by blast
  note eff = runMigration_success [OF s]
  have kind: "ledger_kind ?t (db w4) = Some (CHR ''r'')"
    using runMigration_kind [OF s] lk by simp
  have loop: "apply_loop ev ?t [?b] [] ?w3 = (Inr [?b], w4)" using s by simp
  have res: "?run = (Inr [?b], finally_block ev ?lg (logResult [?b] ?lg w4))"
    by (simp add: run Let_def validate_single_bootstrap f loop del: apply_loop.simps)
  have dbr: "db (snd ?run) = db w4" "attempted (snd ?run) = attempted w4"
    by (simp_all add: res finally_frame logResult_frame)
  show "fst ?run = Inr [?b]" by (simp add: res)
  show "attempted (snd ?run) = attempted w @ [?b]"
    using eff(2) w3 by (simp add: dbr)
  show "executed (db (snd ?run)) = executed (db w) @
               [''CREATE TABLE IF NOT EXISTS \"'' @ t
         @ ''\" (\<newline>      id integer PRIMARY KEY,\<newline>      name varchar(100) UNIQUE NOT NULL,\<newline>      hash varchar(40) NOT NULL, -- sha1 hex encoded hash of the file name and contents, to ensure it hasn't been altered since applying the migration\<newline>      executed_at timestamp DEFAULT current_timestamp\<newline>    );\<newline>    '']"
    unfolding body using eff(3) w3 by (simp add: dbr bootstrap_of_def)
  show "ledger_kind t (db (snd ?run)) = Some (CHR ''r'')"
    using kind by (simp add: dbr t)
  show "ledger_rows t (db (snd ?run))
             = [\<lparr>row_id = 0, row_name = ''_create-migrations-table.sql'',
                 row_hash = hash (bootstrap_of ev config)\<rparr>]"
    using eff(4) lr by (simp add: dbr t row_of_def bootstrap_of_def)
qed


theorem C5_set_loader_witness:
  "readDir (example_env three_files None None) ''/m''
     = Inr (Some [''2_b.sql'', ''README.md'', ''1_a.sql'']) \<and>
   load_all (loadMigrationFile (example_env three_files None None))
     (filter isValidFile (map (path_resolve (example_env three_files None None) ''/m'')
                             [''2_b.sql'', ''README.md'', ''1_a.sql''])) = Inr [unit_b, unit_a] \<and>
   bootstrap_of (example_env three_files None None) example_config = bootstrap_unit \<and>
   (\<exists>loaded. fst (load (example_env three_files None None) \<lparr>logger = True\<rparr> ''/m'' example_config
                     fresh_world) = Inr loaded \<and>
      mset loaded = mset [unit_b, unit_a] + {#bootstrap_unit#} \<and> sorted (map mid loaded)) \<and>
   fst (load (example_env three_files None None) \<lparr>logger = True\<rparr> ''/m'' example_config fresh_world)
     = Inr [bootstrap_unit, unit_a, unit_b] \<and>
   tableName (example_config\<lparr>tableName := Some ''ledger''\<rparr>) = Some ''ledger'' \<and>
   sql (bootstrap_of (example_env [] None None) (example_config\<lparr>tableName := Some ''ledger''\<rparr>))
     = ''CREATE TABLE IF NOT EXISTS \"ledger\" (\<newline>      id integer PRIMARY KEY,\<newline>      name varchar(100) UNIQUE NOT NULL,\<newline>      hash varchar(40) NOT NULL, -- sha1 hex encoded hash of the file name and contents, to ensure it hasn't been altered since applying the migration\<newline>      executed_at timestamp DEFAULT current_timestamp\<newline>    );\<newline>    '' \<and>
   readDir (example_env [] None None) ''/m'' = Inr (Some []) \<and>
   connect_error (example_env [] None None) = None \<and>
   plain_identifier ''ledger'' \<and>
   no_relation_named ''ledger'' (db fresh_world) \<and>
   body_error (example_env [] None None)
     (''CREATE TABLE IF NOT EXISTS \"ledger\" (\<newline>      id integer PRIMARY KEY,\<newline>      name varchar(100) UNIQUE NOT NULL,\<newline>      hash varchar(40) NOT NULL, -- sha1 hex encoded hash of the file name and contents, to ensure it hasn't been altered since applying the migration\<newline>      executed_at timestamp DEFAULT current_timestamp\<newline>    );\<newline>    '') = None \<and>
   fst (load (example_env [] None None) \<lparr>logger = True\<rparr> ''/m''
          (example_config\<lparr>tableName := Some ''ledger''\<rparr>) fresh_world)
     = Inr [bootstrap_of (example_env [] None None) (example_config\<lparr>tableName := Some ''ledger''\<rparr>)] \<and>
   fst (runMigrations (example_env [] None None) (example_config\<lparr>tableName := Some ''ledger''\<rparr>)
          ''/m'' None fresh_world)
     = Inr [bootstrap_of (example_env [] None None) (example_config\<lparr>tableName := Some ''ledger''\<rparr>)] \<and>
   attempted (snd (runMigrations (example_env [] None None)
                     (example_config\<lparr>tableName := Some ''ledger''\<rparr>) ''/m'' None fresh_world))
     = [bootstrap_of (example_env [] None None) (example_config\<lparr>tableName := Some ''ledger''\<rparr>)] \<and>
   executed (db (snd (runMigrations (example_env [] None None)
                        (example_config\<lparr>tableName := Some ''ledger''\<rparr>) ''/m'' None fresh_world)))
     = [''CREATE TABLE IF NOT EXISTS \"ledger\" (\<newline>      id integer PRIMARY KEY,\<newline>      name varchar(100) UNIQUE NOT NULL,\<newline>      hash varchar(40) NOT NULL, -- sha1 hex encoded hash of the file name and contents, to ensure it hasn't been altered since applying the migration\<newline>      executed_at timestamp DEFAULT current_timestamp\<newline>    );\<newline>    ''] \<and>
   ledger_kind ''ledger''
     (db (snd (runMigrations (example_env [] None None)
                 (example_config\<lparr>tableName := Some ''ledger''\<rparr>) ''/m'' None fresh_world)))
     = Some (CHR ''r'') \<and>
   ledger_rows ''ledger''
     (db (snd (runMigrations (example_env [] None None)
                 (example_config\<lparr>tableName := Some ''ledger''\<rparr>) ''/m'' None fresh_world)))
     = [\<lparr>row_id = 0, row_name = ''_create-migrations-table.sql'', row_hash = ''0_cr''\<rparr>]"
proof -
  let ?E = "example_env three_files None None"
  let ?N = "example_env [] None None"
  let ?lg = "\<lparr>logger = True\<rparr>"
  let ?c = "example_config\<lparr>tableName := Some ''ledger''\<rparr>"
  let ?run = "runMigrations ?N ?c ''/m'' None fresh_world"
  have rd: "readDir ?E ''/m'' = Inr (Some [''2_b.sql'', ''README.md'', ''1_a.sql''])"
    by code_simp
  have la: "load_all (loadMigrationFile ?E)
              (filter isValidFile (map (path_resolve ?E ''/m'') [''2_b.sql'', ''README.md'', ''1_a.sql'']))
            = Inr [unit_b, unit_a]"
    by code_simp
  have b: "bootstrap_of ?E example_config = bootstrap_unit"
    by (simp add: bootstrap_of_def bootstrap_unit_def example_env_def example_config_def
          table_name_text_def bootstrap_file_def)
  have tn: "tableName ?c = Some ''ledger''" by simp
  have t: "''ledger'' = (case tableName ?c of None \<Rightarrow> ''undefined'' | Some x \<Rightarrow> x)" by simp
  have lit: "''CREATE TABLE IF NOT EXISTS \"'' @ ''ledger''
         @ ''\" (\<newline>      id integer PRIMARY KEY,\<newline>      name varchar(100) UNIQUE NOT NULL,\<newline>      hash varchar(40) NOT NULL, -- sha1 hex encoded hash of the file name and contents, to ensure it hasn't been altered since applying the migration\<newline>      executed_at timestamp DEFAULT current_timestamp\<newline>    );\<newline>    ''
       = ''CREATE TABLE IF NOT EXISTS \"ledger\" (\<newline>      id integer PRIMARY KEY,\<newline>      name varchar(100) UNIQUE NOT NULL,\<newline>      hash varchar(40) NOT NULL, -- sha1 hex encoded hash of the file name and contents, to ensure it hasn't been altered since applying the migration\<newline>      executed_at timestamp DEFAULT current_timestamp\<newline>    );\<newline>    ''" by simp
  have rd0: "readDir ?N ''/m'' = Inr (Some [])" by (simp add: example_env_def)
  have ce: "connect_error ?N = None" by (simp add: example_env_def)
  have pl: "plain_identifier ''ledger''" by code_simp
  have nr: "no_relation_named ''ledger'' (db fresh_world)"
    by (simp add: no_relation_named_def fresh_world_def)
  have be: "body_error ?N
       (''CREATE TABLE IF NOT EXISTS \"'' @ ''ledger''
         @ ''\" (\<newline>      id integer PRIMARY KEY,\<newline>      name varchar(100) UNIQUE NOT NULL,\<newline>      hash varchar(40) NOT NULL, -- sha1 hex encoded hash of the file name and contents, to ensure it hasn't been altered since applying the migration\<newline>      executed_at timestamp DEFAULT current_timestamp\<newline>    );\<newline>    '') = None"
    by (simp add: example_env_def)
  have at: "attempted fresh_world = []" "executed (db fresh_world) = []"
    by (simp_all add: attempted_def fresh_world_def List.map_filter_def)
  have h: "hash (bootstrap_of ?N ?c) = ''0_cr''"
    by (simp add: bootstrap_of_def example_env_def bootstrap_file_def)
  from C5_set_loader [of ?E "''/m''" "[''2_b.sql'', ''README.md'', ''1_a.sql'']" "[unit_b, unit_a]"
                         ?lg example_config fresh_world] rd la
  have c1: "\<exists>loaded. fst (load ?E ?lg ''/m'' example_config fresh_world) = Inr loaded \<and>
              mset loaded = mset [unit_b, unit_a] + {#bootstrap_unit#} \<and> sorted (map mid loaded)"
    unfolding b by blast
  have c1': "fst (load ?E ?lg ''/m'' example_config fresh_world) = Inr [bootstrap_unit, unit_a, unit_b]"
    by code_simp
  note inst = C5_set_loader [where ev = ?N and directory = "''/m''" and lg = ?lg and config = ?c
                               and w = fresh_world and cfg = None and t = "''ledger''"]
  from inst
  have s: "sql (bootstrap_of ?N ?c) = ''CREATE TABLE IF NOT EXISTS \"ledger\" (\<newline>      id integer PRIMARY KEY,\<newline>      name varchar(100) UNIQUE NOT NULL,\<newline>      hash varchar(40) NOT NULL, -- sha1 hex encoded hash of the file name and contents, to ensure it hasn't been altered since applying the migration\<newline>      executed_at timestamp DEFAULT current_timestamp\<newline>    );\<newline>    ''"
    by simp
  from inst rd0 ce t pl nr be
  have c2: "fst (load ?N ?lg ''/m'' ?c fresh_world) = Inr [bootstrap_of ?N ?c] \<and>
            fst ?run = Inr [bootstrap_of ?N ?c] \<and>
            attempted (snd ?run) = attempted fresh_world @ [bootstrap_of ?N ?c] \<and>
            executed (db (snd ?run)) = executed (db fresh_world) @
              [''CREATE TABLE IF NOT EXISTS \"'' @ ''ledger''
         @ ''\" (\<newline>      id integer PRIMARY KEY,\<newline>      name varchar(100) UNIQUE NOT NULL,\<newline>      hash varchar(40) NOT NULL, -- sha1 hex encoded hash of the file name and contents, to ensure it hasn't been altered since applying the migration\<newline>      executed_at timestamp DEFAULT current_timestamp\<newline>    );\<newline>    ''] \<and>
            ledger_kind ''ledger'' (db (snd ?run)) = Some (CHR ''r'') \<and>
            ledger_rows ''ledger'' (db (snd ?run))
              = [\<lparr>row_id = 0, row_name = ''_create-migrations-table.sql'',
                  row_hash = hash (bootstrap_of ?N ?c)\<rparr>]"
    by blast
  have c2': "fst (load ?N ?lg ''/m'' ?c fresh_world) = Inr [bootstrap_of ?N ?c] \<and>
            fst ?run = Inr [bootstrap_of ?N ?c] \<and>
            attempted (snd ?run) = [bootstrap_of ?N ?c] \<and>
            executed (db (snd ?run)) = [''CREATE TABLE IF NOT EXISTS \"ledger\" (\<newline>      id integer PRIMARY KEY,\<newline>      name varchar(100) UNIQUE NOT NULL,\<newline>      hash varchar(40) NOT NULL, -- sha1 hex encoded hash of the file name and contents, to ensure it hasn't been altered since applying the migration\<newline>      executed_at timestamp DEFAULT current_timestamp\<newline>    );\<newline>    ''] \<and>
            ledger_kind ''ledger'' (db (snd ?run)) = Some (CHR ''r'') \<and>
            ledger_rows ''ledger'' (db (snd ?run))
              = [\<lparr>row_id = 0, row_name = ''_create-migrations-table.sql'', row_hash = ''0_cr''\<rparr>]"
    using c2 unfolding at h lit by simp
  have be': "body_error ?N (''CREATE TABLE IF NOT EXISTS \"ledger\" (\<newline>      id integer PRIMARY KEY,\<newline>      name varchar(100) UNIQUE NOT NULL,\<newline>      hash varchar(40) NOT NULL, -- sha1 hex encoded hash of the file name and contents, to ensure it hasn't been altered since applying the migration\<newline>      executed_at timestamp DEFAULT current_timestamp\<newline>    );\<newline>    '') = None"
    using be unfolding lit .
  show ?thesis using rd la b c1 c1' tn s rd0 ce pl nr be' c2' by blast
qed

text \<open>
  C6. Let the directory list two recognized files that load to a unit with id 1 and a
  unit with id 2, in either order, with names other than each other's and the bootstrap
  unit's; let the session open, the server accept the three bodies, the table name be a
  plain identifier and the database hold no relation of that name. Then the run returns
  the bootstrap unit and the two units, in the order of the ids 0, 1, 2, having applied
  exactly these in this order; and a second run on the resulting database returns the
  empty list and applies nothing. \<open>isValidFile\<close> accepts every string that ends in a
  character other than a line terminator followed by \<^verbatim>\<open>sql\<close> or \<^verbatim>\<open>js\<close> in any case, so
  every name with the extension \<^verbatim>\<open>.sql\<close> or \<^verbatim>\<open>.js\<close>; and a name it accepts passes the
  filter whatever names come before it in the list.
\<close>

theorem C6_end_to_end:
  "(connect_error ev = None \<and> plain_identifier (table_name_text c) \<and>
    no_relation_named (table_name_text c) (db w) \<and>
    readDir ev d = Inr (Some fs) \<and>
    load_all (loadMigrationFile ev) (filter isValidFile (map (path_resolve ev d) fs)) = Inr units \<and>
    (units = [m1, m2] \<or> units = [m2, m1]) \<and> mid m1 = 1 \<and> mid m2 = 2 \<and>
    distinct [name (bootstrap_of ev c), name m1, name m2] \<and>
    body_error ev (sql (bootstrap_of ev c)) = None \<and>
    body_error ev (sql m1) = None \<and> body_error ev (sql m2) = None \<longrightarrow>
      fst (runMigrations ev c d config w) = Inr [bootstrap_of ev c, m1, m2] \<and>
      map mid [bootstrap_of ev c, m1, m2] = [0, 1, 2] \<and>
      attempted (snd (runMigrations ev c d config w)) = attempted w @ [bootstrap_of ev c, m1, m2] \<and>
      fst (runMigrations ev c d config' (snd (runMigrations ev c d config w))) = Inr [] \<and>
      attempted (snd (runMigrations ev c d config' (snd (runMigrations ev c d config w))))
        = attempted (snd (runMigrations ev c d config w)))
   \<and> (alt \<in> set alternatives \<and> ci_match alt e \<and> \<not> is_line_terminator ch \<longrightarrow>
        isValidFile (p @ ch # e))
   \<and> (isValidFile f \<longrightarrow>
        filter isValidFile (xs @ f # ys) = filter isValidFile xs @ f # filter isValidFile ys)"
proof (intro conjI impI)
  let ?b = "bootstrap_of ev c"
  let ?t = "table_name_text c"
  let ?ms = "[?b, m1, m2]"
  assume a: "connect_error ev = None \<and> plain_identifier ?t \<and> no_relation_named ?t (db w) \<and>
    readDir ev d = Inr (Some fs) \<and>
    load_all (loadMigrationFile ev) (filter isValidFile (map (path_resolve ev d) fs)) = Inr units \<and>
    (units = [m1, m2] \<or> units = [m2, m1]) \<and> mid m1 = 1 \<and> mid m2 = 2 \<and>
    distinct [name ?b, name m1, name m2] \<and>
    body_error ev (sql ?b) = None \<and> body_error ev (sql m1) = None \<and> body_error ev (sql m2) = None"
  then have ce: "connect_error ev = None" and pl: "plain_identifier ?t"
    and fr: "no_relation_named ?t (db w)" and rd: "readDir ev d = Inr (Some fs)"
    and la: "load_all (loadMigrationFile ev) (filter isValidFile (map (path_resolve ev d) fs)) = Inr units"
    and un: "units = [m1, m2] \<or> units = [m2, m1]" and i1: "mid m1 = 1" and i2: "mid m2 = 2"
    and nm: "distinct (map name ?ms)"
    and bd: "\<forall>m\<in>set ?ms. body_error ev (sql m) = None"
    by simp_all
  have b0: "mid ?b = 0" by (simp add: bootstrap_of_def)
  have "sort_key mid (units @ [?b]) = ?ms" using un i1 i2 b0 by auto
  then have ld: "fst (load ev \<lparr>logger = False\<rparr> d c w) = Inr ?ms"
    using load_result [OF rd la, of "\<lparr>logger = False\<rparr>" c w] by simp
  have ids: "\<forall>j<length ?ms. mid (?ms ! j) = int j"
    using i1 i2 b0 by (simp add: less_Suc_eq numeral_3_eq_3 nth_Cons')
  have hd: "create_target (sql (hd ?ms)) = Some ?t"
    using create_target_bootstrap [OF plain_identifier_chars(2) [OF pl]] by (simp add: bootstrap_of_def)
  have ne: "?ms \<noteq> []" by simp
  note two = fresh_run_then_rerun [OF ce ld ids ne hd nm bd pl fr]
  show "fst (runMigrations ev c d config w) = Inr ?ms" by (rule two(1))
  show "map mid ?ms = [0, 1, 2]" using i1 i2 b0 by simp
  show "attempted (snd (runMigrations ev c d config w)) = attempted w @ ?ms" by (rule two(2))
  show "fst (runMigrations ev c d config' (snd (runMigrations ev c d config w))) = Inr []"
    by (rule two(4))
  show "attempted (snd (runMigrations ev c d config' (snd (runMigrations ev c d config w))))
        = attempted (snd (runMigrations ev c d config w))" by (rule two(5))
next
  assume "alt \<in> set alternatives \<and> ci_match alt e \<and> \<not> is_line_terminator ch"
  then show "isValidFile (p @ ch # e)" by (intro isValidFile_extension [of alt]) simp_all
next
  assume "isValidFile f"
  then show "filter isValidFile (xs @ f # ys) = filter isValidFile xs @ f # filter isValidFile ys"
    by simp
qed

theorem C6_end_to_end_witness:
  "connect_error polls_env = None \<and> plain_identifier (table_name_text example_config) \<and>
   no_relation_named (table_name_text example_config) (db fresh_world) \<and>
   readDir polls_env ''/m'' = Inr (Some [''2_add_email_index.sql'', ''1_create_users.sql'']) \<and>
   load_all (loadMigrationFile polls_env)
     (filter isValidFile (map (path_resolve polls_env ''/m'')
                             [''2_add_email_index.sql'', ''1_create_users.sql'']))
     = Inr [unit_index, unit_users] \<and>
   mid unit_users = 1 \<and> mid unit_index = 2 \<and>
   bootstrap_of polls_env example_config = bootstrap_unit \<and>
   distinct [name bootstrap_unit, name unit_users, name unit_index] \<and>
   body_error polls_env (sql bootstrap_unit) = None \<and>
   body_error polls_env (sql unit_users) = None \<and> body_error polls_env (sql unit_index) = None \<and>
   fst (runMigrations polls_env example_config ''/m'' None fresh_world)
     = Inr [bootstrap_unit, unit_users, unit_index] \<and>
   attempted (snd (runMigrations polls_env example_config ''/m'' None fresh_world))
     = [bootstrap_unit, unit_users, unit_index] \<and>
   fst (runMigrations polls_env example_config ''/m'' None
          (snd (runMigrations polls_env example_config ''/m'' None fresh_world))) = Inr [] \<and>
   attempted (snd (runMigrations polls_env example_config ''/m'' None
                     (snd (runMigrations polls_env example_config ''/m'' None fresh_world))))
     = [bootstrap_unit, unit_users, unit_index] \<and>
   [(CHR ''s'', CHR ''S''), (CHR ''q'', CHR ''Q''), (CHR ''l'', CHR ''L'')] \<in> set alternatives \<and>
   ci_match [(CHR ''s'', CHR ''S''), (CHR ''q'', CHR ''Q''), (CHR ''l'', CHR ''L'')] ''SQL'' \<and>
   \<not> is_line_terminator (CHR ''.'') \<and>
   isValidFile ''/m/1_create_users.SQL'' \<and>
   isValidFile ''/m/a.js'' \<and>
   filter isValidFile [''/m/README.md'', ''/m/1_create_users.SQL'', ''/m/a.js'', ''/m/b.txt'']
     = [''/m/1_create_users.SQL'', ''/m/a.js'']"
proof -
  let ?run = "runMigrations polls_env example_config ''/m'' None fresh_world"
  let ?sql = "[(CHR ''s'', CHR ''S''), (CHR ''q'', CHR ''Q''), (CHR ''l'', CHR ''L'')]"
  have t: "table_name_text example_config = ''migrations''"
    by (simp add: table_name_text_def example_config_def)
  have ce: "connect_error polls_env = None" by (simp add: polls_env_def example_env_def)
  have pl: "plain_identifier (table_name_text example_config)" unfolding t by code_simp
  have nr: "no_relation_named (table_name_text example_config) (db fresh_world)"
    by (simp add: no_relation_named_def fresh_world_def)
  have rd: "readDir polls_env ''/m'' = Inr (Some [''2_add_email_index.sql'', ''1_create_users.sql''])"
    by code_simp
  have la: "load_all (loadMigrationFile polls_env)
              (filter isValidFile (map (path_resolve polls_env ''/m'')
                                      [''2_add_email_index.sql'', ''1_create_users.sql'']))
            = Inr [unit_index, unit_users]"
    by code_simp
  have ids: "mid unit_users = 1" "mid unit_index = 2"
    by (simp_all add: unit_users_def unit_index_def)
  have b: "bootstrap_of polls_env example_config = bootstrap_unit"
    by (simp add: bootstrap_of_def bootstrap_unit_def polls_env_def example_env_def
          example_config_def table_name_text_def bootstrap_file_def)
  have dn: "distinct [name bootstrap_unit, name unit_users, name unit_index]"
    by (simp add: bootstrap_unit_def unit_users_def unit_index_def)
  have be: "body_error polls_env (sql bootstrap_unit) = None"
           "body_error polls_env (sql unit_users) = None"
           "body_error polls_env (sql unit_index) = None"
    by (simp_all add: polls_env_def example_env_def bootstrap_unit_def unit_users_def unit_index_def
          bootstrap_sql_def create_table_prefix_def)
  have at: "attempted fresh_world = []"
    by (simp add: attempted_def fresh_world_def List.map_filter_def)
  have m: "?sql \<in> set alternatives" "ci_match ?sql ''SQL''" "\<not> is_line_terminator (CHR ''.'')"
    by (simp_all add: alternatives_def is_line_terminator_def)
  have js: "isValidFile ''/m/a.js''" by code_simp
  from C6_end_to_end [of polls_env example_config fresh_world "''/m''"
         "[''2_add_email_index.sql'', ''1_create_users.sql'']" "[unit_index, unit_users]"
         unit_users unit_index None None ?sql "''SQL''" "CHR ''.''" "''/m/1_create_users''"
         "''/m/a.js''" "[''/m/README.md'', ''/m/1_create_users.SQL'']" "[''/m/b.txt'']"]
       ce pl nr rd la ids dn be m js
  have c: "fst ?run = Inr [bootstrap_unit, unit_users, unit_index] \<and>
           attempted (snd ?run) = [bootstrap_unit, unit_users, unit_index] \<and>
           fst (runMigrations polls_env example_config ''/m'' None (snd ?run)) = Inr [] \<and>
           attempted (snd (runMigrations polls_env example_config ''/m'' None (snd ?run)))
             = attempted (snd ?run) \<and>
           isValidFile (''/m/1_create_users'' @ CHR ''.'' # ''SQL'') \<and>
           filter isValidFile ([''/m/README.md'', ''/m/1_create_users.SQL''] @ ''/m/a.js'' # [''/m/b.txt''])
             = filter isValidFile [''/m/README.md'', ''/m/1_create_users.SQL''] @ ''/m/a.js''
               # filter isValidFile [''/m/b.txt'']"
    unfolding b at by simp
  have f1: "filter isValidFile [''/m/README.md'', ''/m/1_create_users.SQL''] = [''/m/1_create_users.SQL'']"
           "filter isValidFile [''/m/b.txt''] = []"
    by code_simp+
  have c': "isValidFile ''/m/1_create_users.SQL'' \<and>
            filter isValidFile [''/m/README.md'', ''/m/1_create_users.SQL'', ''/m/a.js'', ''/m/b.txt'']
              = [''/m/1_create_users.SQL'', ''/m/a.js'']"
    using c unfolding f1 by simp
  show ?thesis using ce pl nr rd la ids b dn be m js c c' by simp
qed

text \<open>
  C7 (as amended). When the catalog has no ordinary table of the name, the ledger reader
  returns the empty array, in which every lookup yields nothing. Otherwise, when the
  select succeeds, it returns all rows of the ledger table ordered by id ascending, as
  the array the driver delivers: looking up a number yields the row at that position of
  the array, and nothing outside the array. When the ids of the ledger are dense from 0
  (the row at position \<open>i\<close> has the id \<open>i\<close>), looking up an id yields the row with that id,
  and nothing exactly when the ledger has no row with that id.
\<close>

theorem C7_ledger_reader:
  "(\<not> table_exists t (db w) \<longrightarrow>
      fst (fetchAppliedMigrationFromDB t lg w) = Inr [] \<and> array_as_record ([] :: LedgerRow list) k = None)
   \<and> (table_exists t (db w) \<and> fst (fetchAppliedMigrationFromDB t lg w) = Inr rs \<longrightarrow>
        mset rs = mset (ledger_rows t (db w)) \<and> sorted (map row_id rs) \<and>
        array_as_record rs k = (if 0 \<le> k \<and> nat k < length rs then Some (rs ! nat k) else None) \<and>
        (map row_id rs = map int [0..<length rs] \<longrightarrow>
           (\<forall>r. array_as_record rs k = Some r \<longrightarrow> row_id r = k) \<and>
           (array_as_record rs k = None \<longleftrightarrow> k \<notin> row_id ` set rs)))"
proof (intro conjI impI allI)
  assume "\<not> table_exists t (db w)"
  then show "fst (fetchAppliedMigrationFromDB t lg w) = Inr []" by (rule fetch_absent)
  show "array_as_record ([] :: LedgerRow list) k = None" by (simp add: array_as_record_def)
next
  assume a: "table_exists t (db w) \<and> fst (fetchAppliedMigrationFromDB t lg w) = Inr rs"
  then have "select_ordered t (db w) = Inr rs" using fetch_present [of t w lg] by simp
  then have rs: "rs = sort_key row_id (ledger_rows t (db w))" by (rule select_rows)
  show "mset rs = mset (ledger_rows t (db w))" unfolding rs by simp
  show "sorted (map row_id rs)" unfolding rs by simp
  show "array_as_record rs k = (if 0 \<le> k \<and> nat k < length rs then Some (rs ! nat k) else None)"
    by (simp add: array_as_record_def)
  assume d: "map row_id rs = map int [0..<length rs]"
  show "array_as_record rs k = None \<longleftrightarrow> k \<notin> row_id ` set rs" by (rule dense_lookup(2) [OF d])
  fix r assume "array_as_record rs k = Some r"
  then show "row_id r = k" by (rule dense_lookup(1) [OF d])
qed

text \<open>
  C7 as stated fails on a ledger that holds the ids 1 and 2 only: looking up the id 1
  yields the row with the id 2, and looking up the id 2 yields nothing.
\<close>

theorem C7_counterexample:
  "fst (fetchAppliedMigrationFromDB ''migrations'' \<lparr>logger = False\<rparr> (world_with sparse_rows))
     = Inr (rev sparse_rows) \<and>
   map row_id (rev sparse_rows) = [1, 2] \<and>
   map_option row_id (array_as_record (rev sparse_rows) 1) = Some 2 \<and>
   array_as_record (rev sparse_rows) 2 = None"
  by code_simp

theorem C7_ledger_reader_witness:
  "\<not> table_exists ''migrations'' (db fresh_world) \<and>
   fst (fetchAppliedMigrationFromDB ''migrations'' \<lparr>logger = False\<rparr> fresh_world) = Inr [] \<and>
   table_exists ''migrations'' (db dense_world) \<and>
   fst (fetchAppliedMigrationFromDB ''migrations'' \<lparr>logger = False\<rparr> dense_world)
     = Inr [row_of bootstrap_unit, row_of unit_a] \<and>
   map row_id [row_of bootstrap_unit, row_of unit_a]
     = map int [0..<length [row_of bootstrap_unit, row_of unit_a]] \<and>
   sorted (map row_id [row_of bootstrap_unit, row_of unit_a]) \<and>
   array_as_record [row_of bootstrap_unit, row_of unit_a] 1 = Some (row_of unit_a) \<and>
   row_id (row_of unit_a) = 1"
proof -
  let ?rs = "[row_of bootstrap_unit, row_of unit_a]"
  let ?lg = "\<lparr>logger = False\<rparr>"
  have n: "\<not> table_exists ''migrations'' (db fresh_world)"
    by (simp add: table_exists_def fresh_world_def)
  have e: "table_exists ''migrations'' (db dense_world)"
    by (simp add: table_exists_def dense_world_def world_with_def)
  have f: "fst (fetchAppliedMigrationFromDB ''migrations'' ?lg dense_world) = Inr ?rs"
    by code_simp
  have d: "map row_id ?rs = map int [0..<length ?rs]"
    by (simp add: row_of_def bootstrap_unit_def unit_a_def upt_rec)
  have l: "array_as_record ?rs 1 = Some (row_of unit_a)"
    by (simp add: array_as_record_def)
  from C7_ledger_reader [of "''migrations''" fresh_world ?lg] n
  have c1: "fst (fetchAppliedMigrationFromDB ''migrations'' ?lg fresh_world) = Inr []" by blast
  from C7_ledger_reader [of "''migrations''" dense_world ?lg 1 ?rs] e f d l
  have c2: "sorted (map row_id ?rs) \<and> row_id (row_of unit_a) = 1" by blast
  show ?thesis using n e f d l c1 c2 by blast
qed

text \<open>
  C8 (as amended). \<open>doesTableExist\<close> answers by a lookup in the catalog
  \<^verbatim>\<open>pg_catalog.pg_class\<close> keyed by the table name and the kind of an ordinary table, and
  by nothing else: it holds exactly when some relation has this name and this kind, in
  whichever schema. A relation of the name with another kind does not count; an ordinary
  table of the name counts also when it lives in another schema. The lookup leaves the
  database as it was.
\<close>

theorem C8_table_lookup:
  "fst (doesTableExist t w)
     = (\<exists>c\<in>set (relations (db w)). relname c = t \<and> relkind c = CHR ''r'')
   \<and> db (snd (doesTableExist t w)) = db w
   \<and> ((\<forall>c\<in>set (relations (db w)). relname c = t \<longrightarrow> relkind c \<noteq> CHR ''r'')
        \<longrightarrow> \<not> fst (doesTableExist t w))
   \<and> (c \<in> set (relations (db w)) \<and> relname c = t \<and> relkind c = CHR ''r''
        \<longrightarrow> fst (doesTableExist t w))"
  using doesTableExist_iff [of t w]
  by (auto simp: table_exists_def doesTableExist_def Let_def)

text \<open>
  C8 as stated fails when the only ordinary table named \<^verbatim>\<open>migrations\<close> lives in the
  schema \<^verbatim>\<open>archive\<close> and the session works in \<^verbatim>\<open>public\<close>: the name does not resolve for
  the session, and \<open>doesTableExist\<close> answers that the table exists.
\<close>

theorem C8_counterexample:
  "current_schema (db other_schema_world) = ''public'' \<and>
   relname (hd (relations (db other_schema_world))) = ''migrations'' \<and>
   relnamespace (hd (relations (db other_schema_world))) = ''archive'' \<and>
   resolve_table ''migrations'' (db other_schema_world) = None \<and>
   fst (doesTableExist ''migrations'' other_schema_world)"
  by code_simp

theorem C8_table_lookup_witness:
  "relations (db other_schema_world) ! 0 \<in> set (relations (db other_schema_world)) \<and>
   relname (relations (db other_schema_world) ! 0) = ''migrations'' \<and>
   relnamespace (relations (db other_schema_world) ! 0) = ''archive'' \<and>
   relkind (relations (db other_schema_world) ! 0) = CHR ''r'' \<and>
   fst (doesTableExist ''migrations'' other_schema_world) \<and>
   map relkind (filter (\<lambda>c. relname c = ''polls'') (relations (db other_schema_world))) = [CHR ''v''] \<and>
   \<not> fst (doesTableExist ''polls'' other_schema_world)"
proof -
  let ?c = "relations (db other_schema_world) ! 0"
  have a: "?c \<in> set (relations (db other_schema_world))" "relname ?c = ''migrations''"
    "relnamespace ?c = ''archive''" "relkind ?c = CHR ''r''"
    "map relkind (filter (\<lambda>c. relname c = ''polls'') (relations (db other_schema_world))) = [CHR ''v'']"
    by (simp_all add: other_schema_world_def)
  have b: "\<forall>c\<in>set (relations (db other_schema_world)). relname c = ''polls'' \<longrightarrow> relkind c \<noteq> CHR ''r''"
    by (simp add: other_schema_world_def)
  from C8_table_lookup [of "''migrations''" other_schema_world ?c] a
  have c1: "fst (doesTableExist ''migrations'' other_schema_world)" by blast
  from C8_table_lookup [of "''polls''" other_schema_world] b
  have c2: "\<not> fst (doesTableExist ''polls'' other_schema_world)" by blast
  show ?thesis using a c1 c2 by blast
qed

text \<open>
  C9 (as amended). When opening the session fails, the run fails with one wrapped error
  that carries the connection error as its cause; nothing is loaded, read or applied and
  the database is as it was; and the closing step is still taken: after \<open>Connect\<close> the
  only call on the session is \<open>End\<close>. A failure of that call is logged and not raised.
\<close>

theorem C9_connect_failure:
  "connect_error ev = Some e \<longrightarrow>
     fst (runMigrations ev c d config w) = Inl (MigrationRunError e) \<and>
     cause (MigrationRunError e) = Some e \<and>
     calls (snd (runMigrations ev c d config w)) = calls w @ [Connect, End] \<and>
     attempted (snd (runMigrations ev c d config w)) = attempted w \<and>
     db (snd (runMigrations ev c d config w)) = db w \<and>
     (end_error ev = Some e2 \<and> config = Some \<lparr>logger = True\<rparr> \<longrightarrow>
        events (snd (runMigrations ev c d config w))
          = events w @ [Log ''Attempting database migration'', Connect, End,
                        Log (''Error closing the connetion: '' @ message e2)])"
proof (intro impI conjI)
  assume ce: "connect_error ev = Some e"
  let ?lg = "case config of None \<Rightarrow> \<lparr>logger = False\<rparr> | Some x \<Rightarrow> x"
  let ?w0 = "log ?lg ''Attempting database migration'' w"
  have tb: "try_block ev c d ?lg ?w0 = (Inl e, emit Connect ?w0)"
    by (simp add: try_block_def client_connect_def ce)
  have run: "runMigrations ev c d config w
               = (Inl (MigrationRunError e), finally_block ev ?lg (emit Connect ?w0))"
    by (simp add: runMigrations_def Let_def tb)
  show "fst (runMigrations ev c d config w) = Inl (MigrationRunError e)" by (simp add: run)
  show "cause (MigrationRunError e) = Some e" by (simp add: MigrationRunError_def)
  show "calls (snd (runMigrations ev c d config w)) = calls w @ [Connect, End]"
    by (simp add: run finally_calls calls_emit)
  show "attempted (snd (runMigrations ev c d config w)) = attempted w"
    by (simp add: run finally_frame attempted_emit)
  show "db (snd (runMigrations ev c d config w)) = db w"
    by (simp add: run finally_frame)
  assume "end_error ev = Some e2 \<and> config = Some \<lparr>logger = True\<rparr>"
  then have ee: "end_error ev = Some e2" and cf: "?lg = \<lparr>logger = True\<rparr>" by simp_all
  show "events (snd (runMigrations ev c d config w))
          = events w @ [Log ''Attempting database migration'', Connect, End,
                        Log (''Error closing the connetion: '' @ message e2)]"
    unfolding run cf by (simp add: finally_events_failure [OF ee] log_def emit_def)
qed

text \<open>
  C9 as stated fails: with a server that refuses the connection, the trace of the run
  is the call to connect followed by the call to end the session.
\<close>

theorem C9_counterexample:
  "connect_error unreachable_env = Some refused \<and>
   fst (runMigrations unreachable_env example_config ''/m'' None fresh_world)
     = Inl (MigrationRunError refused) \<and>
   events (snd (runMigrations unreachable_env example_config ''/m'' None fresh_world))
     = [Connect, End]"
  by code_simp

theorem C9_connect_failure_witness:
  "connect_error unreachable_env = Some refused \<and>
   end_error unreachable_env = Some (Error ''not connected'' None) \<and>
   fst (runMigrations unreachable_env example_config ''/m'' (Some \<lparr>logger = True\<rparr>) fresh_world)
     = Inl (MigrationRunError refused) \<and>
   calls (snd (runMigrations unreachable_env example_config ''/m'' (Some \<lparr>logger = True\<rparr>) fresh_world))
     = [Connect, End] \<and>
   events (snd (runMigrations unreachable_env example_config ''/m'' (Some \<lparr>logger = True\<rparr>) fresh_world))
     = [Log ''Attempting database migration'', Connect, End,
        Log ''Error closing the connetion: not connected'']"
proof -
  have a: "connect_error unreachable_env = Some refused"
          "end_error unreachable_env = Some (Error ''not connected'' None)"
    by (simp_all add: unreachable_env_def example_env_def)
  have b: "calls fresh_world = []" "events fresh_world = []"
    by (simp_all add: calls_def fresh_world_def)
  from C9_connect_failure [of unreachable_env refused example_config "''/m''"
                              "Some \<lparr>logger = True\<rparr>" fresh_world "Error ''not connected'' None"] a
  show ?thesis unfolding b by simp
qed

text \<open>
  C10. For a configuration whose five connection parameters pass the type checks and a
  directory given as a string: when \<open>tableName\<close> is undefined, the caller's object after
  the call is the object before it with \<open>tableName\<close> set to \<^verbatim>\<open>migrations\<close>, and the run is
  the run on that updated object; when \<open>tableName\<close> is defined, the object after the
  call is the object before it. In both cases every other field is unchanged.
\<close>

theorem C10_default_table_name:
  "typeof (database c) = ''string'' \<and> typeof (user c) = ''string'' \<and>
   typeof (password c) = ''string'' \<and> typeof (host c) = ''string'' \<and>
   typeof (port c) = ''number'' \<longrightarrow>
     (tableName c = None \<longrightarrow>
        fst (snd (migrate ev (Some c) (JSString directory) config w))
          = Some (c\<lparr>tableName := Some ''migrations''\<rparr>) \<and>
        fst (migrate ev (Some c) (JSString directory) config w)
          = fst (runMigrations ev (c\<lparr>tableName := Some ''migrations''\<rparr>) directory config w) \<and>
        snd (snd (migrate ev (Some c) (JSString directory) config w))
          = snd (runMigrations ev (c\<lparr>tableName := Some ''migrations''\<rparr>) directory config w))
     \<and> (tableName c \<noteq> None \<longrightarrow>
          fst (snd (migrate ev (Some c) (JSString directory) config w)) = Some c \<and>
          fst (migrate ev (Some c) (JSString directory) config w)
            = fst (runMigrations ev c directory config w))
     \<and> (\<exists>c'. fst (snd (migrate ev (Some c) (JSString directory) config w)) = Some c' \<and>
            database c' = database c \<and> user c' = user c \<and> password c' = password c \<and>
            host c' = host c \<and> port c' = port c \<and> MigrateDBConfig.more c' = MigrateDBConfig.more c)"
proof (intro impI conjI)
  assume tv: "typeof (database c) = ''string'' \<and> typeof (user c) = ''string'' \<and>
              typeof (password c) = ''string'' \<and> typeof (host c) = ''string'' \<and>
              typeof (port c) = ''number''"
  note m = migrate_valid [OF tv, of ev directory config w, unfolded DEFAULT_MIGRATION_TABLE_NAME_def]
  {
    assume "tableName c = None"
    then show "fst (snd (migrate ev (Some c) (JSString directory) config w))
                 = Some (c\<lparr>tableName := Some ''migrations''\<rparr>)"
      and "fst (migrate ev (Some c) (JSString directory) config w)
             = fst (runMigrations ev (c\<lparr>tableName := Some ''migrations''\<rparr>) directory config w)"
      and "snd (snd (migrate ev (Some c) (JSString directory) config w))
             = snd (runMigrations ev (c\<lparr>tableName := Some ''migrations''\<rparr>) directory config w)"
      by (simp_all add: m)
  }
  {
    assume "tableName c \<noteq> None"
    then show "fst (snd (migrate ev (Some c) (JSString directory) config w)) = Some c"
      and "fst (migrate ev (Some c) (JSString directory) config w)
             = fst (runMigrations ev c directory config w)"
      by (auto simp: m)
  }
  show "\<exists>c'. fst (snd (migrate ev (Some c) (JSString directory) config w)) = Some c' \<and>
            database c' = database c \<and> user c' = user c \<and> password c' = password c \<and>
            host c' = host c \<and> port c' = port c \<and> MigrateDBConfig.more c' = MigrateDBConfig.more c"
    by (cases "tableName c = None") (simp_all add: m)
qed

theorem C10_default_table_name_witness:
  "typeof (database caller_config) = ''string'' \<and> typeof (user caller_config) = ''string'' \<and>
   typeof (password caller_config) = ''string'' \<and> typeof (host caller_config) = ''string'' \<and>
   typeof (port caller_config) = ''number'' \<and> tableName caller_config = None \<and>
   fst (snd (migrate (example_env [] None None) (Some caller_config) (JSString ''/m'') None fresh_world))
     = Some example_config \<and>
   tableName example_config = Some ''migrations'' \<and>
   fst (snd (migrate (example_env [] None None) (Some example_config) (JSString ''/m'') None fresh_world))
     = Some example_config"
proof -
  let ?ev = "example_env [] None None"
  have a: "typeof (database caller_config) = ''string'' \<and> typeof (user caller_config) = ''string'' \<and>
           typeof (password caller_config) = ''string'' \<and> typeof (host caller_config) = ''string'' \<and>
           typeof (port caller_config) = ''number''"
          "typeof (database example_config) = ''string'' \<and> typeof (user example_config) = ''string'' \<and>
           typeof (password example_config) = ''string'' \<and> typeof (host example_config) = ''string'' \<and>
           typeof (port example_config) = ''number''"
    by (simp_all add: caller_config_def example_config_def)
  have b: "tableName caller_config = None" "tableName example_config = Some ''migrations''"
          "caller_config\<lparr>tableName := Some ''migrations''\<rparr> = example_config"
    by (simp_all add: caller_config_def example_config_def)
  from C10_default_table_name [of caller_config ?ev "''/m''" None fresh_world] a(1) b(1)
  have c1: "fst (snd (migrate ?ev (Some caller_config) (JSString ''/m'') None fresh_world))
              = Some example_config"
    unfolding b(3) by blast
  from C10_default_table_name [of example_config ?ev "''/m''" None fresh_world] a(2) b(2)
  have c2: "fst (snd (migrate ?ev (Some example_config) (JSString ''/m'') None fresh_world))
              = Some example_config"
    by simp
  show ?thesis using a(1) b(1,2) c1 c2 by blast
qed

end
